theory Spec2Isabelle
  imports Main "HOL-Library.Sublist" "HOL-Library.AList"
begin

section \<open>The world of \<open>src/index.ts\<close>: file system, console, network, clock\<close>

text \<open>
  \<open>src/index.ts\<close> is one module of functions that talk to the operating system through
  \<open>fs\<close>, \<open>os\<close>, \<open>process.env\<close>, \<open>fetch\<close>, \<open>tar\<close>, \<open>semver\<close>, \<open>Date.now\<close> and the console.
  The embedding makes every one of these explicit.

  \<^item> A path is the list of its components (an absolute, normalised path of \<open>pathe\<close>);
    \<open>pathe.join a b\<close> is \<open>a @ b\<close> and \<open>pathe.dirname\<close> is \<open>butlast\<close>.
  \<^item> The file system is a tree: a file with its bytes, or a directory with its entries.
  \<^item> An exception is a value of type \<open>exn\<close>; a computation is a function from the state
    to a result (\<open>Inl\<close> an exception, \<open>Inr\<close> a value) and the new state. The state that
    an exception leaves behind is kept: what was written before a \<open>throw\<close> stays written.
  \<^item> Every call of an \<open>fs\<close> function, every \<open>fetch\<close>, every line printed to the
    console and every call of the \<open>onDisplay\<close> callback is appended to the trace.
  \<^item> What the outside decides (environment variables, the registry's answers, the
    archive's contents, which system calls fail, how the clock advances, what
    \<open>semver\<close> says about two strings) is a field of the record \<open>world\<close>.
\<close>

type_synonym path = "string list"

datatype node = File string | Dir "(string \<times> node) list"

datatype exn =
    Error string
  | TypeError string
  | AssertionError string
  | SystemError string

datatype syscall =
    ExistsSync path
  | StatSync path
  | LstatSync path
  | ReaddirSync path
  | ReadFileSync path
  | MkdirSync path
  | WriteFileSync path
  | UnlinkSync path
  | RmdirSync path
  | CopyFileSync path path
  | CpSync path path
  | CreateWriteStream path
  | TarExtract path path

record display_info =
  di_version :: string
  di_packageName :: string
  di_needReinstall :: bool
  di_changelogUrl :: "string option"

text \<open>
  The arguments of a console call: the literal pieces of a template string as \<open>Str\<close>, and
  each interpolated value with its type (\<open>Obj\<close> stands for an object printed by name).
\<close>

datatype arg = Str string | Pth path | Num int | Bool bool | Exn exn | Obj string

datatype event =
    ConsoleLog "arg list"
  | ConsoleWarn "arg list"
  | Sys syscall
  | Fetch string
  | OnDisplay display_info

subsection \<open>Registry data (interfaces \<open>PackageMetadata\<close>, \<open>UpgearConfig\<close>, \<open>VersionInfo\<close>)\<close>

text \<open>
  The registry's JSON is untyped; every field the code tests for presence
  (\<open>!versionData\<close>, \<open>!tarballUrl\<close>, \<open>!upgear\<close>, \<open>upgear.files || []\<close>,
  \<open>needReinstall || false\<close>) or reads through (\<open>versionData.dist.tarball\<close>,
  \<open>metadata['dist-tags'][channel]\<close>) is optional here.
\<close>

record UpgearConfig =
  files :: "path list option"
  needReinstall :: "bool option"
  changelogUrl :: "string option"

record dist_info =
  tarball :: "string option"

record version_data =
  dist :: "dist_info option"
  upgear :: "UpgearConfig option"

record PackageMetadata =
  dist_tags :: "(string \<Rightarrow> string option) option"
  versions :: "(string \<Rightarrow> version_data option) option"

record VersionInfo =
  vi_version :: string
  vi_tarballUrl :: string
  vi_files :: "path list"
  vi_needReinstall :: bool
  vi_changelogUrl :: "string option"

record UpdatePaths =
  tarballPath :: path
  extractDir :: path

record CleanupOperations =
  tempFilesCreated :: bool
  paths :: "UpdatePaths option"

text \<open>
  A response of \<open>fetch\<close>: \<open>rs_json\<close> is what \<open>response.json()\<close> gives (it may throw,
  and the JSON may be \<open>null\<close>); \<open>rs_body\<close> is the body stream (it may be \<open>null\<close>): the
  bytes that reach the file, and the error that ends the stream early, if any.
\<close>

record response =
  rs_ok :: bool
  rs_status :: int
  rs_statusText :: string
  rs_json :: "exn + PackageMetadata option"
  rs_body :: "(string \<times> exn option) option"

record world =
  env :: "string \<Rightarrow> string option"
  homedir :: "exn + path"
  tmpdir :: path
  fetch :: "string \<Rightarrow> exn + response"
  encodeURIComponent :: "string \<Rightarrow> exn + string"
  semver_valid :: "string \<Rightarrow> bool"
  semver_gt :: "string \<Rightarrow> string \<Rightarrow> exn + bool"
  untar :: "string \<Rightarrow> (string \<times> node) list \<times> exn option"
  JSON_parse :: "string \<Rightarrow> exn + (string \<Rightarrow> int option) option"
  JSON_stringify :: "(string \<Rightarrow> int option) \<Rightarrow> string"
  faulty :: "syscall \<Rightarrow> bool"
  elapse :: "int \<Rightarrow> int"

record state =
  fs :: node
  trace :: "event list"
  clock :: int
  cleanup :: CleanupOperations

subsection \<open>Computations with exceptions\<close>

type_synonym 'a io = "state \<Rightarrow> (exn + 'a) \<times> state"

definition io_return :: "'a \<Rightarrow> 'a io" where
  "io_return x = (\<lambda>s. (Inr x, s))"

definition io_throw :: "exn \<Rightarrow> 'a io" where
  "io_throw e = (\<lambda>s. (Inl e, s))"

definition io_bind :: "'a io \<Rightarrow> ('a \<Rightarrow> 'b io) \<Rightarrow> 'b io" where
  "io_bind m f = (\<lambda>s. case m s of (Inl e, s') \<Rightarrow> (Inl e, s') | (Inr x, s') \<Rightarrow> f x s')"

definition io_seq :: "'a io \<Rightarrow> 'b io \<Rightarrow> 'b io" where
  "io_seq m n = io_bind m (\<lambda>_. n)"

text \<open>\<open>try { m } catch (e) { h e }\<close>\<close>

definition try_catch :: "'a io \<Rightarrow> (exn \<Rightarrow> 'a io) \<Rightarrow> 'a io" where
  "try_catch m h = (\<lambda>s. case m s of (Inl e, s') \<Rightarrow> h e s' | (Inr x, s') \<Rightarrow> (Inr x, s'))"

text \<open>
  \<open>try { m } finally { fin }\<close>: \<open>fin\<close> runs on every exit of \<open>m\<close>; an exception of
  \<open>fin\<close> replaces the outcome of \<open>m\<close>.
\<close>

definition try_finally :: "'a io \<Rightarrow> unit io \<Rightarrow> 'a io" where
  "try_finally m fin =
     (\<lambda>s. case m s of (r, s') \<Rightarrow>
        (case fin s' of (Inl e, s'') \<Rightarrow> (Inl e, s'') | (Inr _, s'') \<Rightarrow> (r, s'')))"

primrec for_each :: "('a \<Rightarrow> unit io) \<Rightarrow> 'a list \<Rightarrow> unit io" where
  "for_each f [] = io_return ()"
| "for_each f (x # xs) = io_seq (f x) (for_each f xs)"

definition emit :: "event \<Rightarrow> unit io" where
  "emit e = (\<lambda>s. (Inr (), s\<lparr>trace := trace s @ [e]\<rparr>))"

definition get_fs :: "node io" where
  "get_fs = (\<lambda>s. (Inr (fs s), s))"

definition set_fs :: "node \<Rightarrow> unit io" where
  "set_fs n = (\<lambda>s. (Inr (), s\<lparr>fs := n\<rparr>))"

definition get_cleanup :: "CleanupOperations io" where
  "get_cleanup = (\<lambda>s. (Inr (cleanup s), s))"

definition set_cleanup :: "CleanupOperations \<Rightarrow> unit io" where
  "set_cleanup c = (\<lambda>s. (Inr (), s\<lparr>cleanup := c\<rparr>))"

text \<open>\<open>Date.now()\<close>: the clock is read, and has advanced by the next reading.\<close>

definition Date_now :: "world \<Rightarrow> int io" where
  "Date_now w = (\<lambda>s. (Inr (clock s), s\<lparr>clock := elapse w (clock s)\<rparr>))"

subsection \<open>The file system tree\<close>

definition is_dir :: "node option \<Rightarrow> bool" where
  "is_dir x = (case x of Some (Dir _) \<Rightarrow> True | _ \<Rightarrow> False)"

definition is_file :: "node option \<Rightarrow> bool" where
  "is_file x = (case x of Some (File _) \<Rightarrow> True | _ \<Rightarrow> False)"

primrec look :: "path \<Rightarrow> node option \<Rightarrow> node option" where
  "look [] x = x"
| "look (c # p) x = (case x of Some (Dir cs) \<Rightarrow> look p (map_of cs c) | _ \<Rightarrow> None)"

definition set_child :: "string \<Rightarrow> node option \<Rightarrow> (string \<times> node) list \<Rightarrow> (string \<times> node) list" where
  "set_child c x cs = (case x of None \<Rightarrow> AList.delete c cs | Some n \<Rightarrow> AList.update c n cs)"

text \<open>
  \<open>updo p g\<close> replaces what stands at \<open>p\<close> by \<open>g\<close> of it; nothing changes when a
  directory on the way to \<open>p\<close> is missing.
\<close>

primrec updo :: "path \<Rightarrow> (node option \<Rightarrow> node option) \<Rightarrow> node option \<Rightarrow> node option" where
  "updo [] g x = g x"
| "updo (c # p) g x =
     (case x of Some (Dir cs) \<Rightarrow> Some (Dir (set_child c (updo p g (map_of cs c)) cs)) | _ \<Rightarrow> x)"

definition lookup :: "path \<Rightarrow> node \<Rightarrow> node option" where
  "lookup p root = look p (Some root)"

definition update :: "path \<Rightarrow> (node option \<Rightarrow> node option) \<Rightarrow> node \<Rightarrow> node" where
  "update p g root = (case updo p g (Some root) of Some r \<Rightarrow> r | None \<Rightarrow> root)"

text \<open>
  \<open>mkdir -p\<close>: every missing directory on the way is created; \<open>None\<close> when a file is
  in the way.
\<close>

primrec mkdirp :: "path \<Rightarrow> node option \<Rightarrow> node option" where
  "mkdirp [] x = (case x of None \<Rightarrow> Some (Dir []) | Some (Dir cs) \<Rightarrow> Some (Dir cs) | Some (File _) \<Rightarrow> None)"
| "mkdirp (c # p) x =
     (case x of
        None \<Rightarrow> (case mkdirp p None of None \<Rightarrow> None | Some m \<Rightarrow> Some (Dir [(c, m)]))
      | Some (Dir cs) \<Rightarrow>
          (case mkdirp p (map_of cs c) of None \<Rightarrow> None | Some m \<Rightarrow> Some (Dir (AList.update c m cs)))
      | Some (File _) \<Rightarrow> None)"

text \<open>
  \<open>fs.cpSync(src, dest, {recursive: true})\<close> on the trees: a file replaces a file, a
  directory is merged into a directory entry by entry and stops at the first entry
  that fails; what was copied before the failure stays.
\<close>

fun cp_node :: "node \<Rightarrow> node option \<Rightarrow> node option \<times> exn option"
and cp_children :: "(string \<times> node) list \<Rightarrow> (string \<times> node) list \<Rightarrow> (string \<times> node) list \<times> exn option" where
  "cp_node (File c) None = (Some (File c), None)"
| "cp_node (File c) (Some (File d)) = (Some (File c), None)"
| "cp_node (File c) (Some (Dir ds)) = (Some (Dir ds), Some (Error ''ERR_FS_CP_NON_DIR_TO_DIR''))"
| "cp_node (Dir cs) (Some (File d)) = (Some (File d), Some (Error ''ERR_FS_CP_DIR_TO_NON_DIR''))"
| "cp_node (Dir cs) None = (case cp_children cs [] of (ds', err) \<Rightarrow> (Some (Dir ds'), err))"
| "cp_node (Dir cs) (Some (Dir ds)) = (case cp_children cs ds of (ds', err) \<Rightarrow> (Some (Dir ds'), err))"
| "cp_children [] ds = (ds, None)"
| "cp_children ((k, n) # rest) ds =
     (case cp_node n (map_of ds k) of
        (r, Some e) \<Rightarrow> (set_child k r ds, Some e)
      | (r, None) \<Rightarrow> cp_children rest (set_child k r ds))"

subsection \<open>The \<open>fs\<close> functions the module calls\<close>

text \<open>
  Every call is recorded; \<open>faulty w c\<close> makes the call \<open>c\<close> throw whatever the tree
  holds (a permission, a busy file, a full disk). \<open>fs.existsSync\<close> never throws.
\<close>

definition sys :: "world \<Rightarrow> syscall \<Rightarrow> 'a io \<Rightarrow> 'a io" where
  "sys w c m = io_seq (emit (Sys c)) (if faulty w c then io_throw (SystemError ''EIO'') else m)"

definition parent_is_dir :: "path \<Rightarrow> node \<Rightarrow> bool" where
  "parent_is_dir p root = (p \<noteq> [] \<and> is_dir (lookup (butlast p) root))"

definition existsSync :: "path \<Rightarrow> bool io" where
  "existsSync p =
     io_seq (emit (Sys (ExistsSync p))) (io_bind get_fs (\<lambda>r. io_return (lookup p r \<noteq> None)))"

definition statSync_isDirectory :: "world \<Rightarrow> path \<Rightarrow> bool io" where
  "statSync_isDirectory w p =
     sys w (StatSync p) (io_bind get_fs (\<lambda>r.
       case lookup p r of
         None \<Rightarrow> io_throw (SystemError ''ENOENT'')
       | Some n \<Rightarrow> io_return (is_dir (Some n))))"

definition readdirSync :: "world \<Rightarrow> path \<Rightarrow> string list io" where
  "readdirSync w p =
     sys w (ReaddirSync p) (io_bind get_fs (\<lambda>r.
       case lookup p r of
         None \<Rightarrow> io_throw (SystemError ''ENOENT'')
       | Some (File _) \<Rightarrow> io_throw (SystemError ''ENOTDIR'')
       | Some (Dir cs) \<Rightarrow> io_return (map fst cs)))"

definition readFileSync :: "world \<Rightarrow> path \<Rightarrow> string io" where
  "readFileSync w p =
     sys w (ReadFileSync p) (io_bind get_fs (\<lambda>r.
       case lookup p r of
         None \<Rightarrow> io_throw (SystemError ''ENOENT'')
       | Some (Dir _) \<Rightarrow> io_throw (SystemError ''EISDIR'')
       | Some (File c) \<Rightarrow> io_return c))"

definition writeFileSync :: "world \<Rightarrow> path \<Rightarrow> string \<Rightarrow> unit io" where
  "writeFileSync w p content =
     sys w (WriteFileSync p) (io_bind get_fs (\<lambda>r.
       if \<not> parent_is_dir p r then io_throw (SystemError ''ENOENT'')
       else if is_dir (lookup p r) then io_throw (SystemError ''EISDIR'')
       else set_fs (update p (\<lambda>_. Some (File content)) r)))"

text \<open>\<open>fs.mkdirSync(p, {recursive: true})\<close>\<close>

definition mkdirSync :: "world \<Rightarrow> path \<Rightarrow> unit io" where
  "mkdirSync w p =
     sys w (MkdirSync p) (io_bind get_fs (\<lambda>r.
       case mkdirp p (Some r) of
         None \<Rightarrow> io_throw (SystemError ''EEXIST'')
       | Some r' \<Rightarrow> set_fs r'))"

definition unlinkSync :: "world \<Rightarrow> path \<Rightarrow> unit io" where
  "unlinkSync w p =
     sys w (UnlinkSync p) (io_bind get_fs (\<lambda>r.
       case lookup p r of
         None \<Rightarrow> io_throw (SystemError ''ENOENT'')
       | Some (Dir _) \<Rightarrow> io_throw (SystemError ''EISDIR'')
       | Some (File _) \<Rightarrow> set_fs (update p (\<lambda>_. None) r)))"

definition copyFileSync :: "world \<Rightarrow> path \<Rightarrow> path \<Rightarrow> unit io" where
  "copyFileSync w src dest =
     sys w (CopyFileSync src dest) (io_bind get_fs (\<lambda>r.
       case lookup src r of
         None \<Rightarrow> io_throw (SystemError ''ENOENT'')
       | Some (Dir _) \<Rightarrow> io_throw (SystemError ''EISDIR'')
       | Some (File c) \<Rightarrow>
           if \<not> parent_is_dir dest r then io_throw (SystemError ''ENOENT'')
           else if is_dir (lookup dest r) then io_throw (SystemError ''EISDIR'')
           else set_fs (update dest (\<lambda>_. Some (File c)) r)))"

text \<open>\<open>fs.cpSync(src, dest, {recursive: true})\<close>, with or without \<open>force: true\<close> (the default).\<close>

definition cpSync :: "world \<Rightarrow> path \<Rightarrow> path \<Rightarrow> unit io" where
  "cpSync w src dest =
     sys w (CpSync src dest) (io_bind get_fs (\<lambda>r.
       case lookup src r of
         None \<Rightarrow> io_throw (SystemError ''ENOENT'')
       | Some n \<Rightarrow>
           if \<not> parent_is_dir dest r then io_throw (SystemError ''ENOENT'')
           else (case cp_node n (lookup dest r) of
                   (res, err) \<Rightarrow>
                     io_seq (set_fs (update dest (\<lambda>_. res) r))
                       (case err of None \<Rightarrow> io_return () | Some e \<Rightarrow> io_throw e))))"

text \<open>
  \<open>createWriteStream(p)\<close> with \<open>pipeline(response.body, fileStream)\<close>: the file is
  created with the bytes that arrive; the stream's error, if any, is thrown after them.
\<close>

definition pipeline_to_file :: "world \<Rightarrow> path \<Rightarrow> string \<times> exn option \<Rightarrow> unit io" where
  "pipeline_to_file w p body =
     sys w (CreateWriteStream p) (io_bind get_fs (\<lambda>r.
       if \<not> parent_is_dir p r then io_throw (SystemError ''ENOENT'')
       else if is_dir (lookup p r) then io_throw (SystemError ''EISDIR'')
       else io_seq (set_fs (update p (\<lambda>_. Some (File (fst body))) r))
              (case snd body of None \<Rightarrow> io_return () | Some e \<Rightarrow> io_throw e)))"

definition put_entries :: "(string \<times> node) list \<Rightarrow> node option \<Rightarrow> node option" where
  "put_entries entries x =
     (case x of
        Some (Dir cs) \<Rightarrow> Some (Dir (fold (\<lambda>(k, n). AList.update k n) entries cs))
      | _ \<Rightarrow> x)"

text \<open>
  \<open>tar.extract({file, cwd, strict: false})\<close>: the entries that \<open>untar w\<close> reads from the
  archive's bytes are written under \<open>cwd\<close>; its error, if any, is thrown after them.
\<close>

definition tar_extract :: "world \<Rightarrow> path \<Rightarrow> path \<Rightarrow> unit io" where
  "tar_extract w file cwd =
     sys w (TarExtract file cwd) (io_bind get_fs (\<lambda>r.
       case lookup file r of
         Some (File c) \<Rightarrow>
           if \<not> is_dir (lookup cwd r) then io_throw (SystemError ''ENOTDIR'')
           else io_seq (set_fs (update cwd (put_entries (fst (untar w c))) r))
                  (case snd (untar w c) of None \<Rightarrow> io_return () | Some e \<Rightarrow> io_throw e)
       | _ \<Rightarrow> io_throw (SystemError ''ENOENT'')))"

subsection \<open>\<open>deleteDirRecursive\<close>\<close>

text \<open>
  The source recurses over what \<open>readdirSync\<close> lists, and every call has a
  \<open>try\<close>/\<open>catch\<close> of its own that swallows the error. All it reads and writes lies under
  \<open>dirPath\<close>, so the recursion is over the subtree found there: \<open>del_node w p n\<close> is what
  is left of the directory \<open>n\<close> at \<open>p\<close> (\<open>None\<close> when \<open>rmdirSync\<close> removed it) and the
  calls made; \<open>del_entries\<close> is the \<open>forEach\<close>, which an exception of \<open>lstatSync\<close> or
  \<open>unlinkSync\<close> leaves at once (the flag), with the later entries untouched.
\<close>

fun del_node :: "world \<Rightarrow> path \<Rightarrow> node \<Rightarrow> node option \<times> event list"
and del_entries :: "world \<Rightarrow> path \<Rightarrow> (string \<times> node) list \<Rightarrow> (string \<times> node) list \<times> event list \<times> bool" where
  "del_node w p (File c) = (Some (File c), [Sys (ExistsSync p), Sys (ReaddirSync p)])"
| "del_node w p (Dir cs) =
     (if faulty w (ReaddirSync p) then (Some (Dir cs), [Sys (ExistsSync p), Sys (ReaddirSync p)])
      else (case del_entries w p cs of
              (cs', evs, threw) \<Rightarrow>
                if threw then (Some (Dir cs'), [Sys (ExistsSync p), Sys (ReaddirSync p)] @ evs)
                else if faulty w (RmdirSync p) \<or> cs' \<noteq> [] \<or> p = []
                  then (Some (Dir cs'), [Sys (ExistsSync p), Sys (ReaddirSync p)] @ evs @ [Sys (RmdirSync p)])
                else (None, [Sys (ExistsSync p), Sys (ReaddirSync p)] @ evs @ [Sys (RmdirSync p)])))"
| "del_entries w p [] = ([], [], False)"
| "del_entries w p ((k, c) # rest) =
     (if faulty w (LstatSync (p @ [k])) then ((k, c) # rest, [Sys (LstatSync (p @ [k]))], True)
      else (case c of
              Dir ds \<Rightarrow>
                (case del_node w (p @ [k]) c of
                   (r, evs) \<Rightarrow>
                     (case del_entries w p rest of
                        (rest', evs', threw) \<Rightarrow>
                          ((case r of None \<Rightarrow> rest' | Some c' \<Rightarrow> (k, c') # rest'),
                           Sys (LstatSync (p @ [k])) # evs @ evs', threw)))
            | File b \<Rightarrow>
                if faulty w (UnlinkSync (p @ [k]))
                  then ((k, c) # rest, [Sys (LstatSync (p @ [k])), Sys (UnlinkSync (p @ [k]))], True)
                else (case del_entries w p rest of
                        (rest', evs', threw) \<Rightarrow>
                          (rest', Sys (LstatSync (p @ [k])) # Sys (UnlinkSync (p @ [k])) # evs', threw))))"

definition deleteDirRecursive :: "world \<Rightarrow> path \<Rightarrow> unit io" where
  "deleteDirRecursive w dirPath =
     (\<lambda>s. case lookup dirPath (fs s) of
        None \<Rightarrow> (Inr (), s\<lparr>trace := trace s @ [Sys (ExistsSync dirPath)]\<rparr>)
      | Some n \<Rightarrow>
          (case del_node w dirPath n of
             (r, evs) \<Rightarrow>
               (Inr (), s\<lparr>fs := update dirPath (\<lambda>_. r) (fs s), trace := trace s @ evs\<rparr>)))"

section \<open>The functions of \<open>src/index.ts\<close>\<close>

subsection \<open>\<open>createLogger\<close>, \<open>isCI\<close>\<close>

datatype logger = Logger bool

definition createLogger :: "bool \<Rightarrow> logger" where
  "createLogger debug = Logger debug"

fun logger_debug :: "logger \<Rightarrow> arg list \<Rightarrow> unit io" where
  "logger_debug (Logger debug) args =
     (if debug then emit (ConsoleLog (Str ''[upgear:debug]'' # args)) else io_return ())"

fun logger_info :: "logger \<Rightarrow> arg list \<Rightarrow> unit io" where
  "logger_info (Logger debug) args = emit (ConsoleLog (Str ''[upgear:info]'' # args))"

fun logger_warn :: "logger \<Rightarrow> arg list \<Rightarrow> unit io" where
  "logger_warn (Logger debug) args = emit (ConsoleWarn (Str ''[upgear:warn]'' # args))"

text \<open>A JavaScript string is truthy when it is defined and not empty.\<close>

definition truthy :: "string option \<Rightarrow> bool" where
  "truthy v = (v \<noteq> None \<and> v \<noteq> Some [])"

definition isCI :: "world \<Rightarrow> bool" where
  "isCI w =
     (truthy (env w ''CI'') \<or> truthy (env w ''CONTINUOUS_INTEGRATION'') \<or>
      truthy (env w ''BUILD_NUMBER'') \<or> truthy (env w ''GITHUB_ACTIONS''))"

subsection \<open>The timestamp store\<close>

definition getTimestampFilePath :: "world \<Rightarrow> path" where
  "getTimestampFilePath w =
     (case homedir w of
        Inr home \<Rightarrow> (home @ [''.upgear'']) @ [''update-timestamps.json'']
      | Inl error \<Rightarrow> tmpdir w @ [''upgear-update-timestamps.json''])"

definition readLastCheckTimestamp :: "world \<Rightarrow> string \<Rightarrow> int io" where
  "readLastCheckTimestamp w packageName =
     try_catch
       (io_bind (existsSync (getTimestampFilePath w)) (\<lambda>ex.
          if \<not> ex then io_return 0
          else io_bind (readFileSync w (getTimestampFilePath w)) (\<lambda>content.
                 case JSON_parse w content of
                   Inl e \<Rightarrow> io_throw e
                 | Inr None \<Rightarrow> io_throw (TypeError ''Cannot read properties of null'')
                 | Inr (Some data) \<Rightarrow>
                     io_return (case data packageName of None \<Rightarrow> 0 | Some t \<Rightarrow> t))))
       (\<lambda>error. io_return 0)"

definition writeCurrentTimestamp :: "world \<Rightarrow> string \<Rightarrow> unit io" where
  "writeCurrentTimestamp w packageName =
     try_catch
       (io_seq
          (io_bind (existsSync (butlast (getTimestampFilePath w))) (\<lambda>ex.
             if \<not> ex then mkdirSync w (butlast (getTimestampFilePath w)) else io_return ()))
          (io_bind
             (io_bind (existsSync (getTimestampFilePath w)) (\<lambda>ex.
                if ex
                then io_bind (readFileSync w (getTimestampFilePath w)) (\<lambda>content.
                       case JSON_parse w content of
                         Inl e \<Rightarrow> io_return (Some (\<lambda>k. None))
                       | Inr d \<Rightarrow> io_return d)
                else io_return (Some (\<lambda>k. None))))
             (\<lambda>data.
                case data of
                  None \<Rightarrow> io_throw (TypeError ''Cannot set properties of null'')
                | Some d \<Rightarrow>
                    io_bind (Date_now w) (\<lambda>now.
                      writeFileSync w (getTimestampFilePath w)
                        (JSON_stringify w (d(packageName := Some now)))))))
       (\<lambda>error. io_return ())"

subsection \<open>The registry\<close>

definition buildPackageUrl :: "world \<Rightarrow> string \<Rightarrow> string \<Rightarrow> exn + string" where
  "buildPackageUrl w packageName registryBase =
     (case encodeURIComponent w packageName of
        Inr enc \<Rightarrow>
          Inr ((if registryBase \<noteq> [] \<and> last registryBase = CHR ''/''
                then registryBase else registryBase @ ''/'') @ enc)
      | Inl e \<Rightarrow> Inl e)"

definition http_fetch :: "world \<Rightarrow> string \<Rightarrow> response io" where
  "http_fetch w url =
     io_seq (emit (Fetch url)) (case fetch w url of Inl e \<Rightarrow> io_throw e | Inr r \<Rightarrow> io_return r)"

definition fetchPackageMetadata :: "world \<Rightarrow> string \<Rightarrow> string \<Rightarrow> logger \<Rightarrow> PackageMetadata option io" where
  "fetchPackageMetadata w packageName registryBase logger =
     try_catch
       (case buildPackageUrl w packageName registryBase of
          Inl e \<Rightarrow> io_throw e
        | Inr url \<Rightarrow>
            io_seq (logger_debug logger [Str ''Fetching package metadata from: '', Str url])
              (io_bind (http_fetch w url) (\<lambda>response.
                 if \<not> rs_ok response
                 then io_seq
                        (logger_warn logger
                           [Str ''Failed to fetch package metadata: '', Num (rs_status response),
                            Str '' '', Str (rs_statusText response)])
                        (io_return None)
                 else (case rs_json response of
                         Inl e \<Rightarrow> io_throw e
                       | Inr data \<Rightarrow>
                           io_seq (logger_debug logger [Str ''Successfully fetched package metadata''])
                             (io_return data)))))
       (\<lambda>error.
          io_seq (logger_warn logger [Str ''Error fetching package metadata:'', Exn error])
            (io_return None))"

subsection \<open>The version decision and the update policy\<close>

definition isUpdateNeeded :: "world \<Rightarrow> string \<Rightarrow> string \<Rightarrow> logger \<Rightarrow> bool io" where
  "isUpdateNeeded w currentVersion latestVersion logger =
     try_catch
       (if \<not> semver_valid w currentVersion \<or> \<not> semver_valid w latestVersion
        then io_seq
               (logger_warn logger
                  [Str ''Invalid version format. Current: '', Str currentVersion,
                   Str '', Latest: '', Str latestVersion])
               (io_return False)
        else (case semver_gt w latestVersion currentVersion of
                Inl e \<Rightarrow> io_throw e
              | Inr updateNeeded \<Rightarrow>
                  io_seq
                    (logger_debug logger
                       [Str ''Version comparison: Current='', Str currentVersion, Str '', Latest='',
                        Str latestVersion, Str '', Update needed: '', Bool updateNeeded])
                    (io_return updateNeeded)))
       (\<lambda>error.
          io_seq (logger_warn logger [Str ''Error comparing versions:'', Exn error]) (io_return False))"

definition extractVersionInfo :: "PackageMetadata \<Rightarrow> string \<Rightarrow> logger \<Rightarrow> VersionInfo option io" where
  "extractVersionInfo metadata version logger =
     try_catch
       (case versions metadata of
          None \<Rightarrow> io_throw (TypeError ''Cannot read properties of undefined'')
        | Some vs \<Rightarrow>
           (case vs version of
              None \<Rightarrow>
                io_seq (logger_warn logger [Str ''Version '', Str version, Str '' not found in package metadata''])
                  (io_return None)
            | Some versionData \<Rightarrow>
               (case dist versionData of
                  None \<Rightarrow> io_throw (TypeError ''Cannot read properties of undefined (reading tarball)'')
                | Some d \<Rightarrow>
                   (if \<not> truthy (tarball d)
                    then io_seq (logger_warn logger [Str ''No tarball URL found for version '', Str version])
                           (io_return None)
                    else (case upgear versionData of
                            None \<Rightarrow>
                              io_seq
                                (logger_warn logger
                                   [Str ''No upgear configuration found for version '', Str version])
                                (io_return None)
                          | Some up \<Rightarrow>
                              if [[''dist''], [''package.json'']] @ (case files up of None \<Rightarrow> [] | Some fl \<Rightarrow> fl) = []
                              then io_seq
                                     (logger_warn logger
                                        [Str ''Invalid or empty files array in upgear configuration''])
                                     (io_return None)
                              else io_seq
                                     (logger_debug logger
                                        [Str ''Extracted version info for '', Str version, Str '':'',
                                         Obj ''{ tarballUrl, upgear }''])
                                     (io_return
                                        (Some
                                           \<lparr>vi_version = version,
                                            vi_tarballUrl = (case tarball d of None \<Rightarrow> [] | Some u \<Rightarrow> u),
                                            vi_files =
                                              [[''dist''], [''package.json'']] @
                                              (case files up of None \<Rightarrow> [] | Some fl \<Rightarrow> fl),
                                            vi_needReinstall =
                                              (case needReinstall up of None \<Rightarrow> False | Some b \<Rightarrow> b),
                                            vi_changelogUrl = changelogUrl up\<rparr>)))))))
       (\<lambda>error.
          io_seq
            (logger_warn logger [Str ''Error extracting version info for '', Str version, Str '':'', Exn error])
            (io_return None))"

subsection \<open>Scratch paths, download, extraction\<close>

definition is_alnum :: "char \<Rightarrow> bool" where
  "is_alnum c =
     ((48 \<le> (of_char c :: nat) \<and> (of_char c :: nat) \<le> 57) \<or>
      (65 \<le> (of_char c :: nat) \<and> (of_char c :: nat) \<le> 90) \<or>
      (97 \<le> (of_char c :: nat) \<and> (of_char c :: nat) \<le> 122))"

text \<open>\<open>packageName.replace(/[^a-zA-Z0-9]/g, '_')\<close>\<close>

definition sanitize :: "string \<Rightarrow> string" where
  "sanitize packageName = map (\<lambda>c. if is_alnum c then c else CHR ''_'') packageName"

function show_nat :: "nat \<Rightarrow> string" where
  "show_nat n =
     (if n < 10 then [char_of (48 + n)] else show_nat (n div 10) @ [char_of (48 + n mod 10)])"
  by pat_completeness auto
termination
  by (relation "measure (\<lambda>n. n)") auto

definition show_int :: "int \<Rightarrow> string" where
  "show_int i = (if i < 0 then CHR ''-'' # show_nat (nat (- i)) else show_nat (nat i))"

text \<open>
  The body of \<open>createTempPaths\<close> for a given reading of the clock. Both names are one
  path component under the temporary directory. (The \<open>catch\<close> of the source is not
  reached: nothing in its \<open>try\<close> throws on strings.)
\<close>

definition temp_paths :: "world \<Rightarrow> string \<Rightarrow> string \<Rightarrow> int \<Rightarrow> UpdatePaths" where
  "temp_paths w packageName version timestamp =
     \<lparr>tarballPath =
        tmpdir w @ [sanitize packageName @ ''-'' @ version @ ''-'' @ show_int timestamp @ ''.tgz''],
      extractDir =
        tmpdir w @ [sanitize packageName @ ''-'' @ version @ ''-'' @ show_int timestamp @ ''-extract'']\<rparr>"

definition createTempPaths :: "world \<Rightarrow> string \<Rightarrow> string \<Rightarrow> UpdatePaths io" where
  "createTempPaths w packageName version =
     io_bind (Date_now w) (\<lambda>timestamp. io_return (temp_paths w packageName version timestamp))"

definition downloadTarball :: "world \<Rightarrow> string \<Rightarrow> path \<Rightarrow> logger \<Rightarrow> bool \<Rightarrow> unit io" where
  "downloadTarball w url targetPath logger dryRun =
     (if dryRun
      then logger_info logger
             [Str ''[DRY RUN] Would download tarball from: '', Str url, Str '' to '', Pth targetPath]
      else io_seq
             (logger_debug logger [Str ''Downloading tarball from: '', Str url, Str '' to '', Pth targetPath])
             (try_catch
                (io_seq
                   (io_bind (existsSync (butlast targetPath)) (\<lambda>ex.
                      if \<not> ex then mkdirSync w (butlast targetPath) else io_return ()))
                   (io_bind (http_fetch w url) (\<lambda>response.
                      if \<not> rs_ok response
                      then io_throw (Error ''Failed to download tarball'')
                      else (case rs_body response of
                              None \<Rightarrow> io_throw (Error ''Response body is null'')
                            | Some body \<Rightarrow>
                                io_seq (pipeline_to_file w targetPath body)
                                  (logger_debug logger
                                     [Str ''Successfully downloaded tarball to: '', Pth targetPath])))))
                (\<lambda>error.
                   io_seq
                     (io_bind (existsSync targetPath) (\<lambda>ex.
                        if ex
                        then try_catch (unlinkSync w targetPath)
                               (\<lambda>cleanupError.
                                  logger_debug logger
                                    [Str ''Error cleaning up incomplete download: '', Exn cleanupError])
                        else io_return ()))
                     (io_throw error))))"

definition extractTarball :: "world \<Rightarrow> path \<Rightarrow> path \<Rightarrow> logger \<Rightarrow> bool \<Rightarrow> unit io" where
  "extractTarball w tarballPath' extractDir' logger dryRun =
     (if dryRun
      then logger_info logger
             [Str ''[DRY RUN] Would extract tarball from '', Pth tarballPath', Str '' to '', Pth extractDir']
      else io_seq
             (logger_debug logger
                [Str ''Extracting tarball from '', Pth tarballPath', Str '' to '', Pth extractDir'])
             (io_seq
                (io_bind (existsSync extractDir') (\<lambda>ex.
                   if \<not> ex then mkdirSync w extractDir' else io_return ()))
                (io_seq (tar_extract w tarballPath' extractDir')
                   (io_seq
                      (logger_debug logger [Str ''Successfully extracted tarball to '', Pth extractDir'])
                      (io_bind (readdirSync w extractDir') (\<lambda>entries.
                         io_seq
                           (logger_debug logger
                              (Str ''Extracted directory contents: '' # map Str entries))
                           (if length entries = 0
                            then io_throw (Error ''Extraction directory is empty'')
                            else io_return ())))))))"

subsection \<open>Backup and replace\<close>

text \<open>\<open>`${fullPath}.bak`\<close>: the suffix goes on the last component.\<close>

definition bak :: "path \<Rightarrow> path" where
  "bak p = (if p = [] then [''.bak''] else butlast p @ [last p @ ''.bak''])"

text \<open>The \<open>try\<close> block of the loop body of \<open>backupFiles\<close> (lines 646-675).\<close>

definition backupFiles_try :: "world \<Rightarrow> path \<Rightarrow> path \<Rightarrow> logger \<Rightarrow> unit io" where
  "backupFiles_try w fullPath backupPath logger =
     io_seq
       (io_bind (existsSync backupPath) (\<lambda>ex.
          if ex
          then io_seq (logger_debug logger [Str ''Removing existing backup file: '', Pth backupPath])
                 (io_bind (statSync_isDirectory w backupPath) (\<lambda>d.
                    if d then deleteDirRecursive w backupPath else unlinkSync w backupPath))
          else io_return ()))
       (io_seq
          (io_bind (statSync_isDirectory w fullPath) (\<lambda>d.
             if d
             then io_seq
                    (logger_debug logger
                       [Str ''Backing up directory: '', Pth fullPath, Str '' -> '', Pth backupPath])
                    (io_seq (mkdirSync w backupPath)
                       (io_bind (readdirSync w fullPath) (\<lambda>filesList.
                          for_each
                            (\<lambda>file.
                               io_bind (statSync_isDirectory w (fullPath @ [file])) (\<lambda>sd.
                                 if sd then cpSync w (fullPath @ [file]) (backupPath @ [file])
                                 else copyFileSync w (fullPath @ [file]) (backupPath @ [file])))
                            filesList)))
             else io_seq
                    (logger_debug logger [Str ''Backing up file: '', Pth fullPath, Str '' -> '', Pth backupPath])
                    (copyFileSync w fullPath backupPath)))
          (logger_debug logger [Str ''Successfully backed up: '', Pth fullPath]))"

text \<open>The loop body of \<open>backupFiles\<close> for one \<open>filePath\<close> (lines 632-679).\<close>

definition backupFiles_step :: "world \<Rightarrow> path \<Rightarrow> logger \<Rightarrow> bool \<Rightarrow> path \<Rightarrow> unit io" where
  "backupFiles_step w installDir' logger dryRun' filePath =
     io_bind (existsSync (installDir' @ filePath)) (\<lambda>ex.
       if \<not> ex
       then logger_debug logger
              [Str ''Skipping backup of non-existent file: '', Pth (installDir' @ filePath)]
       else if dryRun'
       then logger_info logger
              [Str ''[DRY RUN] Would back up '', Pth (installDir' @ filePath), Str '' to '',
               Pth (bak (installDir' @ filePath))]
       else try_catch
              (backupFiles_try w (installDir' @ filePath) (bak (installDir' @ filePath)) logger)
              (\<lambda>error.
                 logger_warn logger
                   [Str ''Error backing up '', Pth (installDir' @ filePath), Str '':'', Exn error]))"

definition backupFiles :: "world \<Rightarrow> path list \<Rightarrow> path \<Rightarrow> logger \<Rightarrow> bool \<Rightarrow> unit io" where
  "backupFiles w files' installDir' logger dryRun' =
     io_seq
       (logger_debug logger
          [Str ''Starting file backup process for '', Num (int (length files')), Str '' files''])
       (io_seq (for_each (backupFiles_step w installDir' logger dryRun') files')
          (logger_debug logger [Str ''File backup process completed'']))"

text \<open>The choice of \<open>sourceBase\<close> in \<open>copyUpdatedFiles\<close> (lines 705-710).\<close>

definition copyUpdatedFiles_sourceBase :: "world \<Rightarrow> path \<Rightarrow> logger \<Rightarrow> path io" where
  "copyUpdatedFiles_sourceBase w extractDir' logger =
     io_bind (existsSync (extractDir' @ [''package''])) (\<lambda>ex.
       if ex
       then io_bind (statSync_isDirectory w (extractDir' @ [''package''])) (\<lambda>d.
              if d
              then io_seq
                     (logger_debug logger
                        [Str ''Using package subdirectory as source: '', Pth (extractDir' @ [''package''])])
                     (io_return (extractDir' @ [''package'']))
              else io_return extractDir')
       else io_return extractDir')"

text \<open>The \<open>try\<close> block of the loop body of \<open>copyUpdatedFiles\<close> (lines 727-751).\<close>

definition copyUpdatedFiles_try :: "world \<Rightarrow> path \<Rightarrow> path \<Rightarrow> logger \<Rightarrow> unit io" where
  "copyUpdatedFiles_try w sourcePath destPath logger =
     io_seq
       (io_bind (existsSync (butlast destPath)) (\<lambda>ex.
          if \<not> ex
          then io_seq
                 (logger_debug logger [Str ''Creating destination directory: '', Pth (butlast destPath)])
                 (mkdirSync w (butlast destPath))
          else io_return ()))
       (io_seq
          (io_bind (statSync_isDirectory w sourcePath) (\<lambda>d.
             if d
             then io_seq
                    (logger_debug logger
                       [Str ''Copying directory: '', Pth sourcePath, Str '' -> '', Pth destPath])
                    (io_bind
                       (io_bind (existsSync destPath) (\<lambda>ex.
                          if ex then statSync_isDirectory w destPath else io_return False))
                       (\<lambda>merge.
                          if merge then cpSync w sourcePath destPath
                          else io_seq
                                 (io_bind (existsSync destPath) (\<lambda>ex.
                                    if ex then unlinkSync w destPath else io_return ()))
                                 (cpSync w sourcePath destPath)))
             else io_seq
                    (logger_debug logger [Str ''Copying file: '', Pth sourcePath, Str '' -> '', Pth destPath])
                    (copyFileSync w sourcePath destPath)))
          (logger_debug logger [Str ''Successfully copied: '', Pth destPath]))"

text \<open>The loop body of \<open>copyUpdatedFiles\<close> for one \<open>filePath\<close> (lines 713-755).\<close>

definition copyUpdatedFiles_step :: "world \<Rightarrow> path \<Rightarrow> path \<Rightarrow> logger \<Rightarrow> bool \<Rightarrow> path \<Rightarrow> unit io" where
  "copyUpdatedFiles_step w sourceBase installDir' logger dryRun' filePath =
     io_bind (existsSync (sourceBase @ filePath)) (\<lambda>ex.
       if \<not> ex
       then logger_warn logger [Str ''Source file not found in package: '', Pth (sourceBase @ filePath)]
       else if dryRun'
       then logger_info logger
              [Str ''[DRY RUN] Would copy '', Pth (sourceBase @ filePath), Str '' to '',
               Pth (installDir' @ filePath)]
       else try_catch
              (copyUpdatedFiles_try w (sourceBase @ filePath) (installDir' @ filePath) logger)
              (\<lambda>error.
                 logger_warn logger
                   [Str ''Error copying '', Pth (sourceBase @ filePath), Str '' to '',
                    Pth (installDir' @ filePath), Str '':'', Exn error]))"

definition copyUpdatedFiles :: "world \<Rightarrow> path list \<Rightarrow> path \<Rightarrow> path \<Rightarrow> logger \<Rightarrow> bool \<Rightarrow> unit io" where
  "copyUpdatedFiles w files' extractDir' installDir' logger dryRun' =
     io_seq
       (logger_debug logger
          [Str ''Starting file copy process for '', Num (int (length files')), Str '' files''])
       (io_bind (copyUpdatedFiles_sourceBase w extractDir' logger) (\<lambda>sourceBase.
          io_seq (for_each (copyUpdatedFiles_step w sourceBase installDir' logger dryRun') files')
            (logger_debug logger [Str ''File copy process completed''])))"

subsection \<open>Notification and cleanup\<close>

text \<open>The divider (sixty box-drawing dashes) and the check mark, as UTF-8 bytes.\<close>

definition hr :: string where
  "hr = concat (replicate 60 [CHR 0xE2, CHR 0x94, CHR 0x80])"

definition check_mark :: string where
  "check_mark = [CHR 0xE2, CHR 0x9C, CHR 0x85]"

definition arrow :: string where
  "arrow = [CHR 0xE2, CHR 0x86, CHR 0x92]"

text \<open>A call of the caller's \<open>onDisplay\<close>: it returns, or throws.\<close>

definition call_onDisplay :: "(display_info \<Rightarrow> exn option) \<Rightarrow> display_info \<Rightarrow> unit io" where
  "call_onDisplay cb info' =
     io_seq (emit (OnDisplay info')) (case cb info' of None \<Rightarrow> io_return () | Some e \<Rightarrow> io_throw e)"

definition displayUpdateNotification ::
  "string \<Rightarrow> string \<Rightarrow> bool \<Rightarrow> string option \<Rightarrow> logger \<Rightarrow> bool \<Rightarrow>
   (display_info \<Rightarrow> exn option) option \<Rightarrow> unit io" where
  "displayUpdateNotification version' packageName needReinstall' changelogUrl' logger dryRun' onDisplay' =
     (if dryRun'
      then logger_info logger
             [Str ''[DRY RUN] Would display update notification for '', Str packageName,
              Str '' to version '', Str version']
      else (case onDisplay' of
              Some cb \<Rightarrow>
                io_seq (logger_debug logger [Str ''Using custom display function for update notification''])
                  (call_onDisplay cb
                     \<lparr>di_version = version', di_packageName = packageName,
                      di_needReinstall = needReinstall', di_changelogUrl = changelogUrl'\<rparr>)
            | None \<Rightarrow>
                if needReinstall'
                then io_seq (emit (ConsoleLog [Str [CHR 0x0A], Str hr]))
                       (io_seq
                          (emit
                             (ConsoleLog
                                [Str ''New version '', Str version', Str '' of '', Str packageName,
                                 Str '' is available, but requires reinstallation.'']))
                          (io_seq (emit (ConsoleLog [Str ''Please run: npm i -g '', Str packageName]))
                             (emit (ConsoleLog [Str hr, Str [CHR 0x0A]]))))
                else io_seq (emit (ConsoleLog [Str [CHR 0x0A], Str hr]))
                       (io_seq
                          (emit
                             (ConsoleLog
                                [Str check_mark, Str '' '', Str packageName,
                                 Str '' has been updated to version '', Str version']))
                          (io_seq
                             (if truthy changelogUrl'
                              then emit
                                     (ConsoleLog
                                        [Str ''Changelog: '',
                                         Str (case changelogUrl' of None \<Rightarrow> [] | Some u \<Rightarrow> u)])
                              else io_return ())
                             (emit (ConsoleLog [Str hr, Str [CHR 0x0A]]))))))"

definition cleanupTemporaryFiles :: "world \<Rightarrow> UpdatePaths option \<Rightarrow> logger \<Rightarrow> bool \<Rightarrow> unit io" where
  "cleanupTemporaryFiles w paths' logger dryRun' =
     (case paths' of
        None \<Rightarrow> io_return ()
      | Some ps \<Rightarrow>
          if dryRun' then io_return ()
          else io_seq (logger_debug logger [Str ''Cleaning up temporary files''])
                 (try_catch
                    (io_seq
                       (io_bind (existsSync (tarballPath ps)) (\<lambda>ex.
                          if ex
                          then io_seq (unlinkSync w (tarballPath ps))
                                 (logger_debug logger [Str ''Deleted tarball: '', Pth (tarballPath ps)])
                          else io_return ()))
                       (io_bind (existsSync (extractDir ps)) (\<lambda>ex.
                          if ex
                          then io_seq (deleteDirRecursive w (extractDir ps))
                                 (logger_debug logger
                                    [Str ''Deleted extraction directory: '', Pth (extractDir ps)])
                          else io_return ())))
                    (\<lambda>error.
                       logger_warn logger [Str ''Error cleaning up temporary files:'', Exn error])))"

subsection \<open>\<open>checkAndUpdate\<close>\<close>

record CheckAndUpdateOptions =
  debug :: bool
  version :: string
  name :: string
  registryBase :: "string option"
  channel :: "string option"
  skipOnCI :: "bool option"
  updateCheckIntervalMs :: "int option"
  dryRun :: "bool option"
  installDir :: "path option"
  onDisplay :: "(display_info \<Rightarrow> exn option) option"

text \<open>The local \<open>options\<close>: the caller's options with the defaults filled in.\<close>

record options =
  o_debug :: bool
  o_version :: string
  o_name :: string
  o_registryBase :: string
  o_channel :: string
  o_skipOnCI :: bool
  o_updateCheckIntervalMs :: int
  o_dryRun :: bool
  o_installDir :: "path option"
  o_onDisplay :: "(display_info \<Rightarrow> exn option) option"

definition default_options :: "CheckAndUpdateOptions \<Rightarrow> options" where
  "default_options opts =
     \<lparr>o_debug = debug opts,
      o_version = version opts,
      o_name = name opts,
      o_registryBase =
        (case registryBase opts of None \<Rightarrow> ''https://registry.npmjs.org'' | Some b \<Rightarrow> b),
      o_channel = (case channel opts of None \<Rightarrow> ''latest'' | Some c \<Rightarrow> c),
      o_skipOnCI = (case skipOnCI opts of None \<Rightarrow> True | Some b \<Rightarrow> b),
      o_updateCheckIntervalMs =
        (case updateCheckIntervalMs opts of None \<Rightarrow> 21600000 | Some i \<Rightarrow> i),
      o_dryRun = (case dryRun opts of None \<Rightarrow> False | Some b \<Rightarrow> b),
      o_installDir = installDir opts,
      o_onDisplay = onDisplay opts\<rparr>"

text \<open>
  \<open>checkAndUpdate\<close> returns nothing; the value returned here names the \<open>return\<close>
  statement (or the \<open>catch\<close>) by which the source function ends.
\<close>

datatype exit_point =
    SkippedCI
  | SkippedInterval
  | NoMetadata
  | ChannelNotFound
  | NoUpdateNeeded
  | NoVersionInfo
  | ReinstallNotified
  | UpdateCompleted
  | UpdateFailed exn
  | CheckFailed exn

text \<open>The inner \<open>try\<close> block (lines 1004-1059).\<close>

definition checkAndUpdate_update :: "world \<Rightarrow> options \<Rightarrow> logger \<Rightarrow> VersionInfo \<Rightarrow> UpdatePaths \<Rightarrow> unit io" where
  "checkAndUpdate_update w options' logger versionInfo updatePaths =
     io_seq
       (downloadTarball w (vi_tarballUrl versionInfo) (tarballPath updatePaths) logger
          (o_dryRun options'))
       (io_seq
          (if \<not> o_dryRun options'
           then io_bind get_cleanup (\<lambda>c. set_cleanup (c\<lparr>tempFilesCreated := True\<rparr>))
           else io_return ())
          (io_seq
             (extractTarball w (tarballPath updatePaths) (extractDir updatePaths) logger
                (o_dryRun options'))
             (io_seq
                (if \<not> o_dryRun options'
                 then io_bind (existsSync (tarballPath updatePaths)) (\<lambda>ex.
                        if ex
                        then io_seq (unlinkSync w (tarballPath updatePaths))
                               (logger_debug logger
                                  [Str ''Deleted tarball: '', Pth (tarballPath updatePaths)])
                        else io_return ())
                 else io_return ())
                (case o_installDir options' of
                   None \<Rightarrow> io_throw (AssertionError ''installDir is required'')
                 | Some installDir' \<Rightarrow>
                     io_seq (logger_debug logger [Str ''CLI installation directory: '', Pth installDir'])
                       (io_seq
                          (backupFiles w (vi_files versionInfo) installDir' logger (o_dryRun options'))
                          (io_seq
                             (copyUpdatedFiles w (vi_files versionInfo) (extractDir updatePaths)
                                installDir' logger (o_dryRun options'))
                             (io_seq
                                (displayUpdateNotification (vi_version versionInfo) (o_name options')
                                   (vi_needReinstall versionInfo) (vi_changelogUrl versionInfo) logger
                                   (o_dryRun options') (o_onDisplay options'))
                                (logger_debug logger
                                   [Str ''Update to version '', Str (vi_version versionInfo),
                                    Str '' completed successfully'']))))))))"

text \<open>Lines 996-1068: the scratch paths, and the inner \<open>try\<close>/\<open>catch\<close>/\<open>finally\<close>.\<close>

definition checkAndUpdate_apply :: "world \<Rightarrow> options \<Rightarrow> logger \<Rightarrow> VersionInfo \<Rightarrow> exit_point io" where
  "checkAndUpdate_apply w options' logger versionInfo =
     io_bind (createTempPaths w (o_name options') (vi_version versionInfo)) (\<lambda>updatePaths.
       io_seq (logger_debug logger [Str ''Created temporary paths:'', Obj ''updatePaths''])
         (io_seq (io_bind get_cleanup (\<lambda>c. set_cleanup (c\<lparr>paths := Some updatePaths\<rparr>)))
            (try_finally
               (try_catch
                  (io_seq (checkAndUpdate_update w options' logger versionInfo updatePaths)
                     (io_return UpdateCompleted))
                  (\<lambda>error.
                     io_seq (logger_warn logger [Str ''Error during update process:'', Exn error])
                       (io_return (UpdateFailed error))))
               (io_bind get_cleanup (\<lambda>c.
                  if tempFilesCreated c \<and> paths c \<noteq> None
                  then io_seq (cleanupTemporaryFiles w (paths c) logger (o_dryRun options'))
                         (set_cleanup \<lparr>tempFilesCreated = False, paths = None\<rparr>)
                  else io_return ())))))"

text \<open>Lines 967-994: the update policy, and the reinstall-only notification.\<close>

definition checkAndUpdate_policy :: "world \<Rightarrow> options \<Rightarrow> logger \<Rightarrow> PackageMetadata \<Rightarrow> string \<Rightarrow> exit_point io" where
  "checkAndUpdate_policy w options' logger metadata latestVersion =
     io_seq
       (logger_debug logger
          [Str ''Update available for '', Str (o_name options'), Str '': '', Str (o_version options'),
           Str '' '', Str arrow, Str '' '', Str latestVersion])
       (io_bind (extractVersionInfo metadata latestVersion logger) (\<lambda>vi.
          case vi of
            None \<Rightarrow>
              io_seq
                (logger_warn logger
                   [Str ''Cannot update to version '', Str latestVersion,
                    Str '': missing or invalid upgear configuration''])
                (io_return NoVersionInfo)
          | Some versionInfo \<Rightarrow>
              io_seq (logger_debug logger [Str ''Upgear configuration:'', Obj ''versionInfo.upgear''])
                (if vi_needReinstall versionInfo
                 then io_seq
                        (logger_debug logger
                           [Str ''Skipping download and update as needReinstall is true''])
                        (io_seq
                           (displayUpdateNotification (vi_version versionInfo) (o_name options') True
                              (vi_changelogUrl versionInfo) logger (o_dryRun options')
                              (o_onDisplay options'))
                           (io_return ReinstallNotified))
                 else checkAndUpdate_apply w options' logger versionInfo)))"

text \<open>
  Lines 951-965: the channel and the version decision. \<open>!latestVersion\<close> holds for a
  channel that is missing and for one that names the empty string.
\<close>

definition checkAndUpdate_version :: "world \<Rightarrow> options \<Rightarrow> logger \<Rightarrow> PackageMetadata \<Rightarrow> exit_point io" where
  "checkAndUpdate_version w options' logger metadata =
     (case dist_tags metadata of
        None \<Rightarrow> io_throw (TypeError ''Cannot read properties of undefined'')
      | Some tags \<Rightarrow>
         (case tags (o_channel options') of
            None \<Rightarrow>
              io_seq
                (logger_warn logger
                   [Str ''Channel '', Str (o_channel options'), Str '' not found for '', Str (o_name options')])
                (io_return ChannelNotFound)
          | Some latestVersion \<Rightarrow>
              if latestVersion = []
              then io_seq
                     (logger_warn logger
                        [Str ''Channel '', Str (o_channel options'), Str '' not found for '',
                         Str (o_name options')])
                     (io_return ChannelNotFound)
              else io_seq
                     (logger_debug logger
                        [Str ''Current version: '', Str (o_version options'), Str '', Latest version: '',
                         Str latestVersion])
                     (io_bind (isUpdateNeeded w (o_version options') latestVersion logger) (\<lambda>needed.
                        if \<not> needed
                        then io_seq
                               (logger_debug logger
                                  [Str ''No update needed, already at the latest version''])
                               (io_return NoUpdateNeeded)
                        else checkAndUpdate_policy w options' logger metadata latestVersion))))"

text \<open>
  Lines 913-932: the interval gate. The value is \<open>True\<close> where the source returns
  from \<open>checkAndUpdate\<close> (the check is skipped).
\<close>

definition checkAndUpdate_interval :: "world \<Rightarrow> options \<Rightarrow> logger \<Rightarrow> bool io" where
  "checkAndUpdate_interval w options' logger =
     (if \<not> o_dryRun options' \<and> o_updateCheckIntervalMs options' > 0
      then io_bind (readLastCheckTimestamp w (o_name options')) (\<lambda>lastCheckTime.
             io_bind (Date_now w) (\<lambda>now.
               if lastCheckTime > 0 \<and> now - lastCheckTime < o_updateCheckIntervalMs options'
               then io_seq
                      (logger_debug logger
                         [Str ''Skipping update check - last check was '',
                          Num (now - lastCheckTime), Str ''ms ago, interval is '',
                          Num (o_updateCheckIntervalMs options'), Str ''ms''])
                      (io_return True)
               else io_seq
                      (logger_debug logger
                         [Str ''Proceeding with update check - last check was '',
                          Num (now - lastCheckTime), Str ''ms ago, interval is '',
                          Num (o_updateCheckIntervalMs options'), Str ''ms''])
                      (io_return False)))
      else io_return False)"

text \<open>Lines 934-949: the timestamp is recorded and the registry is asked.\<close>

definition checkAndUpdate_check :: "world \<Rightarrow> options \<Rightarrow> logger \<Rightarrow> exit_point io" where
  "checkAndUpdate_check w options' logger =
     io_seq
       (if \<not> o_dryRun options' then writeCurrentTimestamp w (o_name options') else io_return ())
       (io_bind (fetchPackageMetadata w (o_name options') (o_registryBase options') logger)
          (\<lambda>md.
             case md of
               None \<Rightarrow>
                 io_seq
                   (logger_warn logger [Str ''Could not check for updates for '', Str (o_name options')])
                   (io_return NoMetadata)
             | Some metadata \<Rightarrow> checkAndUpdate_version w options' logger metadata))"

text \<open>Lines 908-949: the outer \<open>try\<close> block, from the CI gate on.\<close>

definition checkAndUpdate_try :: "world \<Rightarrow> options \<Rightarrow> logger \<Rightarrow> exit_point io" where
  "checkAndUpdate_try w options' logger =
     (if o_skipOnCI options' \<and> isCI w
      then io_seq (logger_debug logger [Str ''Skipping update check in CI environment''])
             (io_return SkippedCI)
      else io_bind (checkAndUpdate_interval w options' logger) (\<lambda>skip.
             if skip then io_return SkippedInterval
             else checkAndUpdate_check w options' logger))"

definition checkAndUpdate :: "world \<Rightarrow> CheckAndUpdateOptions \<Rightarrow> exit_point io" where
  "checkAndUpdate w opts =
     io_seq
       (logger_debug (createLogger (debug opts))
          [Str ''Starting update check with options:'', Obj ''options''])
       (io_seq (set_cleanup \<lparr>tempFilesCreated = False, paths = None\<rparr>)
          (try_finally
             (try_catch
                (checkAndUpdate_try w (default_options opts) (createLogger (debug opts)))
                (\<lambda>error.
                   io_seq
                     (logger_warn (createLogger (debug opts))
                        [Str ''Error during update check:'', Exn error])
                     (io_return (CheckFailed error))))
             (io_bind get_cleanup (\<lambda>c.
                if tempFilesCreated c \<and> paths c \<noteq> None
                then cleanupTemporaryFiles w (paths c) (createLogger (debug opts))
                       (o_dryRun (default_options opts))
                else io_return ()))))"

section \<open>Properties of computations\<close>

text \<open>
  \<open>nothrow m\<close>: \<open>m\<close> returns a value from every state. \<open>steps R m\<close>: every run of \<open>m\<close>
  takes a state to one related to it by \<open>R\<close>; with \<open>R\<close> reflexive and transitive this
  is kept by sequencing, \<open>try\<close>/\<open>catch\<close>/\<open>finally\<close> and loops. The relations used:
  \<open>grows Q\<close> (the trace is extended, by events that satisfy \<open>Q\<close>), \<open>keeps f\<close> (the
  component \<open>f\<close> of the state is as before) and \<open>frame A\<close> (the file system is as
  before at every path that is neither above nor below a path of \<open>A\<close>).
\<close>

definition nothrow :: "'a io \<Rightarrow> bool" where
  "nothrow m = (\<forall>s. \<exists>x s'. m s = (Inr x, s'))"

definition steps :: "(state \<Rightarrow> state \<Rightarrow> bool) \<Rightarrow> 'a io \<Rightarrow> bool" where
  "steps R m = (\<forall>s. R s (snd (m s)))"

definition grows :: "(event \<Rightarrow> bool) \<Rightarrow> state \<Rightarrow> state \<Rightarrow> bool" where
  "grows Q s s' = (\<exists>evs. trace s' = trace s @ evs \<and> list_all Q evs)"

definition keeps :: "(state \<Rightarrow> 'a) \<Rightarrow> state \<Rightarrow> state \<Rightarrow> bool" where
  "keeps f s s' = (f s' = f s)"

definition apart :: "path \<Rightarrow> path \<Rightarrow> bool" where
  "apart p q = (\<not> prefix p q \<and> \<not> prefix q p)"

definition frame :: "path set \<Rightarrow> state \<Rightarrow> state \<Rightarrow> bool" where
  "frame A s s' = (\<forall>t. (\<forall>p\<in>A. apart p t) \<longrightarrow> lookup t (fs s') = lookup t (fs s))"

text \<open>The calls that change the file system.\<close>

fun mutating :: "event \<Rightarrow> bool" where
  "mutating (Sys (MkdirSync p)) = True"
| "mutating (Sys (WriteFileSync p)) = True"
| "mutating (Sys (UnlinkSync p)) = True"
| "mutating (Sys (RmdirSync p)) = True"
| "mutating (Sys (CopyFileSync p q)) = True"
| "mutating (Sys (CpSync p q)) = True"
| "mutating (Sys (CreateWriteStream p)) = True"
| "mutating (Sys (TarExtract p q)) = True"
| "mutating e = False"

fun is_Fetch :: "event \<Rightarrow> bool" where
  "is_Fetch (Fetch url) = True"
| "is_Fetch e = False"

fun is_console :: "event \<Rightarrow> bool" where
  "is_console (ConsoleLog args) = True"
| "is_console (ConsoleWarn args) = True"
| "is_console e = False"

text \<open>A relation between states that sequencing keeps: reflexive and transitive.\<close>

definition trans_refl :: "(state \<Rightarrow> state \<Rightarrow> bool) \<Rightarrow> bool" where
  "trans_refl R = ((\<forall>s. R s s) \<and> (\<forall>a b c. R a b \<longrightarrow> R b c \<longrightarrow> R a c))"

definition both :: "(state \<Rightarrow> state \<Rightarrow> bool) \<Rightarrow> (state \<Rightarrow> state \<Rightarrow> bool) \<Rightarrow> state \<Rightarrow> state \<Rightarrow> bool" where
  "both R1 R2 s s' = (R1 s s' \<and> R2 s s')"

text \<open>
  The lines of the logger carry its tag first; the default notification prints
  through \<open>console.log\<close> directly, without one.
\<close>

fun is_logger_line :: "event \<Rightarrow> bool" where
  "is_logger_line (ConsoleLog (Str t # a)) = (t = ''[upgear:debug]'' \<or> t = ''[upgear:info]'')"
| "is_logger_line (ConsoleWarn (Str t # a)) = (t = ''[upgear:warn]'')"
| "is_logger_line e = False"

text \<open>
  What a run may do up to the version decision: logger lines, requests, and the
  calls that read and write the timestamp store. Everything else (a stream to a
  file, an extraction, a copy, a removal, a notification) is part of an update.
\<close>

fun decision_event :: "event \<Rightarrow> bool" where
  "decision_event (Sys (ExistsSync p)) = True"
| "decision_event (Sys (ReadFileSync p)) = True"
| "decision_event (Sys (MkdirSync p)) = True"
| "decision_event (Sys (WriteFileSync p)) = True"
| "decision_event (Sys c) = False"
| "decision_event (Fetch url) = True"
| "decision_event (OnDisplay i) = False"
| "decision_event e = is_logger_line e"

text \<open>
  \<open>decided\<close>: a stretch of a run that did nothing but decide: it emitted decision events
  only, and left the \<open>cleanup\<close> record as it was.
\<close>

definition decided :: "state \<Rightarrow> state \<Rightarrow> bool" where
  "decided = both (grows decision_event) (keeps cleanup)"

text \<open>
  What the console shows for an exit of \<open>checkAndUpdate\<close> that is a failure: the
  warning of the \<open>catch\<close> block with the exception caught, or the warning that goes with
  the early \<open>return\<close>.
\<close>

fun evidence :: "exit_point \<Rightarrow> event list \<Rightarrow> bool" where
  "evidence (CheckFailed e) evs =
     (ConsoleWarn [Str ''[upgear:warn]'', Str ''Error during update check:'', Exn e] \<in> set evs)"
| "evidence (UpdateFailed e) evs =
     (ConsoleWarn [Str ''[upgear:warn]'', Str ''Error during update process:'', Exn e] \<in> set evs)"
| "evidence NoMetadata evs =
     (\<exists>a. ConsoleWarn (Str ''[upgear:warn]'' # Str ''Could not check for updates for '' # a) \<in> set evs)"
| "evidence ChannelNotFound evs =
     (\<exists>a. ConsoleWarn (Str ''[upgear:warn]'' # Str ''Channel '' # a) \<in> set evs)"
| "evidence NoVersionInfo evs =
     (\<exists>a. ConsoleWarn (Str ''[upgear:warn]'' # Str ''Cannot update to version '' # a) \<in> set evs)"
| "evidence x evs = True"

text \<open>\<open>returns_with m\<close>: whenever \<open>m\<close> returns an exit, it has emitted the evidence for it.\<close>

definition returns_with :: "exit_point io \<Rightarrow> bool" where
  "returns_with m =
     (\<forall>s x. fst (m s) = Inr x \<longrightarrow>
        (\<exists>evs. trace (snd (m s)) = trace s @ evs \<and> evidence x evs))"

fun is_warning :: "event \<Rightarrow> bool" where
  "is_warning (ConsoleWarn a) = True"
| "is_warning e = False"

text \<open>\<open>returns_in A m\<close>: whenever \<open>m\<close> returns a value, the value is in \<open>A\<close>.\<close>

definition returns_in :: "'a set \<Rightarrow> 'a io \<Rightarrow> bool" where
  "returns_in A m = (\<forall>s x. fst (m s) = Inr x \<longrightarrow> x \<in> A)"

text \<open>The events a run emits: what its trace has beyond the trace it started with.\<close>

definition emitted :: "'a io \<Rightarrow> state \<Rightarrow> event list" where
  "emitted m s = drop (length (trace s)) (trace (snd (m s)))"

abbreviation (input) any_event :: "event \<Rightarrow> bool" where
  "any_event \<equiv> (\<lambda>e. True)"

text \<open>\<open>always_emits e m\<close>: every run of \<open>m\<close> appends the event \<open>e\<close> to the trace.\<close>

definition always_emits :: "event \<Rightarrow> 'a io \<Rightarrow> bool" where
  "always_emits e m = (\<forall>s. \<exists>evs. trace (snd (m s)) = trace s @ evs \<and> e \<in> set evs)"

text \<open>
  The state in which \<open>checkAndUpdate\<close> enters its outer \<open>try\<close> block: the first debug
  line is printed (when \<open>debug\<close> is set) and \<open>cleanup\<close> is initialised.
\<close>

definition entered :: "CheckAndUpdateOptions \<Rightarrow> state \<Rightarrow> state" where
  "entered opts s =
     s\<lparr>trace :=
         trace s @
         (if debug opts
          then [ConsoleLog [Str ''[upgear:debug]'', Str ''Starting update check with options:'', Obj ''options'']]
          else []),
       cleanup := \<lparr>tempFilesCreated = False, paths = None\<rparr>\<rparr>"

section \<open>An example world\<close>

text \<open>
  The end-to-end scenario of the specification: the tool \<open>my-cli\<close> runs version
  \<open>1.0.0\<close> from \<open>/app\<close>, the registry's \<open>latest\<close> is \<open>1.1.0\<close> with the policy
  \<open>{files: ["dist", "package.json"], needReinstall: false, changelogUrl: ...}\<close>, and the
  archive wraps \<open>dist\<close> and \<open>package.json\<close> in the folder \<open>package\<close>. \<open>semver\<close> is given
  by its answers on the two versions of the scenario. The theorems below hold for every
  world; this one shows that their hypotheses can be met.
\<close>

definition ex_metadata :: PackageMetadata where
  "ex_metadata =
     \<lparr>dist_tags = Some [''latest'' \<mapsto> ''1.1.0''],
      versions =
        Some [''1.1.0'' \<mapsto>
          \<lparr>dist = Some \<lparr>tarball = Some ''https://x/my-cli-1.1.0.tgz''\<rparr>,
           upgear =
             Some \<lparr>files = Some [[''dist''], [''package.json'']], needReinstall = Some False,
                   changelogUrl = Some ''https://x/CHANGELOG''\<rparr>\<rparr>]\<rparr>"

definition ex_world :: world where
  "ex_world =
     \<lparr>env = (\<lambda>k. None),
      homedir = Inr [''home''],
      tmpdir = [''tmp''],
      fetch =
        (\<lambda>url.
           if url = ''https://registry.npmjs.org/my-cli''
           then Inr \<lparr>rs_ok = True, rs_status = 200, rs_statusText = ''OK'',
                     rs_json = Inr (Some ex_metadata), rs_body = None\<rparr>
           else if url = ''https://x/my-cli-1.1.0.tgz''
           then Inr \<lparr>rs_ok = True, rs_status = 200, rs_statusText = ''OK'',
                     rs_json = Inl (Error ''not JSON''), rs_body = Some (''TGZ'', None)\<rparr>
           else Inl (Error ''fetch failed'')),
      encodeURIComponent = Inr,
      semver_valid = (\<lambda>v. v = ''1.0.0'' \<or> v = ''1.1.0''),
      semver_gt = (\<lambda>a b. Inr (a = ''1.1.0'' \<and> b = ''1.0.0'')),
      untar =
        (\<lambda>bytes.
           if bytes = ''TGZ''
           then ([(''package'',
                   Dir [(''dist'', Dir [(''index.js'', File ''new'')]),
                        (''package.json'', File ''v1.1.0'')])], None)
           else ([], None)),
      JSON_parse =
        (\<lambda>c. if c = ''1000'' then Inr (Some [''my-cli'' \<mapsto> 1000]) else Inl (Error ''SyntaxError'')),
      JSON_stringify = (\<lambda>d. case d ''my-cli'' of None \<Rightarrow> [] | Some t \<Rightarrow> show_int t),
      faulty = (\<lambda>c. False),
      elapse = (\<lambda>t. t + 1)\<rparr>"

definition ex_state :: state where
  "ex_state =
     \<lparr>fs =
        Dir [(''home'', Dir []), (''tmp'', Dir []),
             (''app'',
              Dir [(''dist'', Dir [(''index.js'', File ''old'')]),
                   (''package.json'', File ''v1.0.0'')])],
      trace = [],
      clock = 5000,
      cleanup = \<lparr>tempFilesCreated = False, paths = None\<rparr>\<rparr>"

text \<open>The same file system after a check recorded at time 1000, with the clock at \<open>t\<close>.\<close>

definition ex_state_checked :: "int \<Rightarrow> state" where
  "ex_state_checked t =
     \<lparr>fs =
        Dir [(''home'', Dir [(''.upgear'', Dir [(''update-timestamps.json'', File ''1000'')])]),
             (''tmp'', Dir []),
             (''app'',
              Dir [(''dist'', Dir [(''index.js'', File ''old'')]),
                   (''package.json'', File ''v1.0.0'')])],
      trace = [],
      clock = t,
      cleanup = \<lparr>tempFilesCreated = False, paths = None\<rparr>\<rparr>"

definition ex_opts :: CheckAndUpdateOptions where
  "ex_opts =
     \<lparr>debug = False, version = ''1.0.0'', name = ''my-cli'', registryBase = None,
      channel = None, skipOnCI = None, updateCheckIntervalMs = None, dryRun = None,
      installDir = Some [''app''], onDisplay = None\<rparr>"

text \<open>The example world with the calls \<open>cs\<close> made to fail.\<close>

definition ex_world_faulty :: "syscall list \<Rightarrow> world" where
  "ex_world_faulty cs = ex_world\<lparr>faulty := (\<lambda>c. c \<in> set cs)\<rparr>"

text \<open>
  The state once the archive of the scenario is extracted under \<open>/tmp/x\<close>, and the same
  with the payload wrapped in a folder that carries the name and version of the package.
\<close>

definition ex_state_extracted :: "string \<Rightarrow> state" where
  "ex_state_extracted wrapper =
     \<lparr>fs =
        Dir [(''home'', Dir []),
             (''tmp'',
              Dir [(''x'',
                    Dir [(wrapper,
                          Dir [(''dist'', Dir [(''index.js'', File ''new'')]),
                               (''package.json'', File ''v1.1.0'')])])]),
             (''app'',
              Dir [(''dist'', Dir [(''index.js'', File ''old'')]),
                   (''package.json'', File ''v1.0.0'')])],
      trace = [],
      clock = 5000,
      cleanup = \<lparr>tempFilesCreated = False, paths = None\<rparr>\<rparr>"

text \<open>
  What a run may do when it was given no installation directory: it never copies a
  file or a directory, and the one file it writes with \<open>writeFileSync\<close> is the
  timestamp file \<open>tsp\<close>.
\<close>

fun no_install_call :: "path \<Rightarrow> event \<Rightarrow> bool" where
  "no_install_call tsp (Sys (CopyFileSync p q)) = False"
| "no_install_call tsp (Sys (CpSync p q)) = False"
| "no_install_call tsp (Sys (WriteFileSync p)) = (p = tsp)"
| "no_install_call tsp e = True"

text \<open>The state of the scenario with a backup of \<open>dist\<close> left by an earlier update.\<close>

definition ex_state_stale_backup :: state where
  "ex_state_stale_backup =
     \<lparr>fs =
        Dir [(''home'', Dir []), (''tmp'', Dir []),
             (''app'',
              Dir [(''dist'', Dir [(''index.js'', File ''old'')]),
                   (''package.json'', File ''v1.0.0''),
                   (''dist.bak'', Dir [(''stale.js'', File ''older'')])])],
      trace = [],
      clock = 5000,
      cleanup = \<lparr>tempFilesCreated = False, paths = None\<rparr>\<rparr>"

section \<open>Basic facts about computations\<close>

lemma io_bind_return [simp]: "io_bind (io_return x) f = f x"
  by (simp add: io_bind_def io_return_def)

lemma io_bind_throw [simp]: "io_bind (io_throw e) f = io_throw e"
  by (simp add: io_bind_def io_throw_def)

lemma io_seq_return [simp]: "io_seq (io_return x) n = n"
  by (simp add: io_seq_def)

lemma io_seq_throw [simp]: "io_seq (io_throw e) n = io_throw e"
  by (simp add: io_seq_def)

lemma try_catch_return [simp]: "try_catch (io_return x) h = io_return x"
  by (simp add: try_catch_def io_return_def)

lemma try_catch_throw [simp]: "try_catch (io_throw e) h = h e"
  by (simp add: try_catch_def io_throw_def)

subsection \<open>Computations that never throw\<close>

named_theorems nothrow_intros

lemma nothrow_return [nothrow_intros]: "nothrow (io_return x)"
  by (simp add: nothrow_def io_return_def)

lemma nothrow_bind [nothrow_intros]:
  "nothrow m \<Longrightarrow> (\<And>x. nothrow (f x)) \<Longrightarrow> nothrow (io_bind m f)"
  unfolding nothrow_def io_bind_def
proof
  fix s
  assume m: "\<forall>s. \<exists>x s'. m s = (Inr x, s')" and f: "\<And>x. \<forall>s. \<exists>y s'. f x s = (Inr y, s')"
  from m obtain x s' where "m s = (Inr x, s')" by blast
  moreover from f obtain y s'' where "f x s' = (Inr y, s'')" by blast
  ultimately show "\<exists>y s''. (case m s of (Inl e, s') \<Rightarrow> (Inl e, s') | (Inr x, s') \<Rightarrow> f x s') = (Inr y, s'')"
    by simp
qed

lemma nothrow_seq [nothrow_intros]: "nothrow m \<Longrightarrow> nothrow n \<Longrightarrow> nothrow (io_seq m n)"
  by (simp add: io_seq_def nothrow_bind)

lemma nothrow_try_catch [nothrow_intros]: "(\<And>e. nothrow (h e)) \<Longrightarrow> nothrow (try_catch m h)"
  unfolding nothrow_def try_catch_def
proof
  fix s
  assume h: "\<And>e. \<forall>s. \<exists>y s'. h e s = (Inr y, s')"
  obtain r s' where ms: "m s = (r, s')" by (cases "m s")
  show "\<exists>y s''. (case m s of (Inl e, s') \<Rightarrow> h e s' | (Inr x, s') \<Rightarrow> (Inr x, s')) = (Inr y, s'')"
  proof (cases r)
    case (Inl e)
    from h obtain y s'' where "h e s' = (Inr y, s'')" by blast
    with ms Inl show ?thesis by simp
  next
    case (Inr x)
    with ms show ?thesis by simp
  qed
qed

lemma nothrow_try_finally [nothrow_intros]: "nothrow m \<Longrightarrow> nothrow fin \<Longrightarrow> nothrow (try_finally m fin)"
  unfolding nothrow_def try_finally_def
proof
  fix s
  assume m: "\<forall>s. \<exists>x s'. m s = (Inr x, s')" and f: "\<forall>s. \<exists>y s'. fin s = (Inr y, s')"
  from m obtain x s' where "m s = (Inr x, s')" by blast
  moreover from f obtain y s'' where "fin s' = (Inr y, s'')" by blast
  ultimately show "\<exists>y s''. (case m s of (r, s') \<Rightarrow> (case fin s' of (Inl e, s'') \<Rightarrow> (Inl e, s'') | (Inr _, s'') \<Rightarrow> (r, s''))) = (Inr y, s'')"
    by simp
qed

lemma nothrow_for_each [nothrow_intros]: "(\<And>x. nothrow (f x)) \<Longrightarrow> nothrow (for_each f xs)"
  by (induction xs) (simp_all add: nothrow_return nothrow_seq)

lemma nothrow_if [nothrow_intros]: "(b \<Longrightarrow> nothrow m) \<Longrightarrow> (\<not> b \<Longrightarrow> nothrow n) \<Longrightarrow> nothrow (if b then m else n)"
  by simp

lemma nothrow_case_option [nothrow_intros]:
  "(x = None \<Longrightarrow> nothrow a) \<Longrightarrow> (\<And>y. x = Some y \<Longrightarrow> nothrow (b y)) \<Longrightarrow> nothrow (case x of None \<Rightarrow> a | Some y \<Rightarrow> b y)"
  by (cases x) simp_all

lemma nothrow_emit [nothrow_intros]: "nothrow (emit e)"
  by (simp add: nothrow_def emit_def)

lemma nothrow_get_fs [nothrow_intros]: "nothrow get_fs"
  by (simp add: nothrow_def get_fs_def)

lemma nothrow_set_fs [nothrow_intros]: "nothrow (set_fs n)"
  by (simp add: nothrow_def set_fs_def)

lemma nothrow_get_cleanup [nothrow_intros]: "nothrow get_cleanup"
  by (simp add: nothrow_def get_cleanup_def)

lemma nothrow_set_cleanup [nothrow_intros]: "nothrow (set_cleanup c)"
  by (simp add: nothrow_def set_cleanup_def)

lemma nothrow_Date_now [nothrow_intros]: "nothrow (Date_now w)"
  by (simp add: nothrow_def Date_now_def)

lemma nothrow_logger_debug [nothrow_intros]: "nothrow (logger_debug lg args)"
  by (cases lg) (simp add: nothrow_emit nothrow_return)

lemma nothrow_logger_info [nothrow_intros]: "nothrow (logger_info lg args)"
  by (cases lg) (simp add: nothrow_emit)

lemma nothrow_logger_warn [nothrow_intros]: "nothrow (logger_warn lg args)"
  by (cases lg) (simp add: nothrow_emit)

lemma nothrow_existsSync [nothrow_intros]: "nothrow (existsSync p)"
  unfolding existsSync_def by (intro nothrow_intros)

lemma nothrow_deleteDirRecursive [nothrow_intros]: "nothrow (deleteDirRecursive w p)"
  by (simp add: nothrow_def deleteDirRecursive_def split: option.splits prod.splits)

lemma nothrow_readLastCheckTimestamp [nothrow_intros]: "nothrow (readLastCheckTimestamp w n)"
  unfolding readLastCheckTimestamp_def by (intro nothrow_intros)

lemma nothrow_writeCurrentTimestamp [nothrow_intros]: "nothrow (writeCurrentTimestamp w n)"
  unfolding writeCurrentTimestamp_def by (intro nothrow_intros)

lemma nothrow_fetchPackageMetadata [nothrow_intros]: "nothrow (fetchPackageMetadata w n r lg)"
  unfolding fetchPackageMetadata_def by (intro nothrow_intros)

lemma nothrow_isUpdateNeeded [nothrow_intros]: "nothrow (isUpdateNeeded w c l lg)"
  unfolding isUpdateNeeded_def by (intro nothrow_intros)

lemma nothrow_extractVersionInfo [nothrow_intros]: "nothrow (extractVersionInfo md v lg)"
  unfolding extractVersionInfo_def by (intro nothrow_intros)

lemma nothrow_cleanupTemporaryFiles [nothrow_intros]: "nothrow (cleanupTemporaryFiles w ps lg d)"
  unfolding cleanupTemporaryFiles_def by (intro nothrow_intros)

lemma nothrow_backupFiles_step [nothrow_intros]: "nothrow (backupFiles_step w d lg dry f)"
  unfolding backupFiles_step_def by (intro nothrow_intros)

lemma nothrow_backupFiles [nothrow_intros]: "nothrow (backupFiles w fl d lg dry)"
  unfolding backupFiles_def by (intro nothrow_intros)

lemma nothrow_copyUpdatedFiles_step [nothrow_intros]: "nothrow (copyUpdatedFiles_step w sb d lg dry f)"
  unfolding copyUpdatedFiles_step_def by (intro nothrow_intros)

lemma nothrow_checkAndUpdate: "nothrow (checkAndUpdate w opts)"
  unfolding checkAndUpdate_def by (intro nothrow_intros)

section \<open>The update policy (claim C7)\<close>

lemma extractVersionInfo_value:
  assumes "versions md = Some vs" and "vs v = Some vd" and "dist vd = Some d"
    and "truthy (tarball d)" and "upgear vd = Some up"
  shows "\<exists>s'. extractVersionInfo md v lg s =
     (Inr (Some \<lparr>vi_version = v,
        vi_tarballUrl = (case tarball d of None \<Rightarrow> [] | Some u \<Rightarrow> u),
        vi_files = [[''dist''], [''package.json'']] @ (case files up of None \<Rightarrow> [] | Some fl \<Rightarrow> fl),
        vi_needReinstall = (case needReinstall up of None \<Rightarrow> False | Some b \<Rightarrow> b),
        vi_changelogUrl = changelogUrl up\<rparr>), s')"
proof (cases lg)
  case (Logger dbg)
  with assms show ?thesis
    by (simp add: extractVersionInfo_def try_catch_def io_seq_def io_bind_def io_return_def emit_def)
qed

text \<open>
  Claim C7, as amended. For every version record that has an archive URL and an
  update-policy object, \<open>extractVersionInfo\<close> returns the file list made of the core
  paths \<open>dist\<close> and \<open>package.json\<close> followed by the paths the policy declares, in
  that order; as a set it is the union of the two, so the core paths are there even
  when the policy omits them. The list is a concatenation: a path the policy
  repeats, or a core path it names itself, stands in it more than once.
\<close>

theorem C7_files_core_then_policy:
  assumes "versions md = Some vs" and "vs v = Some vd" and "dist vd = Some d"
    and "truthy (tarball d)" and "upgear vd = Some up"
  shows "\<exists>vi s'. extractVersionInfo md v lg s = (Inr (Some vi), s') \<and>
     vi_files vi = [[''dist''], [''package.json'']] @ (case files up of None \<Rightarrow> [] | Some fl \<Rightarrow> fl) \<and>
     set (vi_files vi) = {[''dist''], [''package.json'']} \<union> (case files up of None \<Rightarrow> {} | Some fl \<Rightarrow> set fl)"
proof -
  from extractVersionInfo_value [OF assms, of lg s] obtain s' where
    "extractVersionInfo md v lg s =
     (Inr (Some \<lparr>vi_version = v,
        vi_tarballUrl = (case tarball d of None \<Rightarrow> [] | Some u \<Rightarrow> u),
        vi_files = [[''dist''], [''package.json'']] @ (case files up of None \<Rightarrow> [] | Some fl \<Rightarrow> fl),
        vi_needReinstall = (case needReinstall up of None \<Rightarrow> False | Some b \<Rightarrow> b),
        vi_changelogUrl = changelogUrl up\<rparr>), s')" ..
  then show ?thesis by (auto split: option.splits)
qed

theorem C7_files_core_then_policy_witness:
  "\<exists>vi s'. extractVersionInfo ex_metadata ''1.1.0'' (Logger False) ex_state = (Inr (Some vi), s') \<and>
     vi_files vi = [[''dist''], [''package.json''], [''dist''], [''package.json'']] \<and>
     set (vi_files vi) = {[''dist''], [''package.json'']}"
  using C7_files_core_then_policy
    [where md = ex_metadata and v = "''1.1.0''" and lg = "Logger False" and s = ex_state
       and vs = "[''1.1.0'' \<mapsto>
          \<lparr>dist = Some \<lparr>tarball = Some ''https://x/my-cli-1.1.0.tgz''\<rparr>,
           upgear = Some \<lparr>files = Some [[''dist''], [''package.json'']], needReinstall = Some False,
                   changelogUrl = Some ''https://x/CHANGELOG''\<rparr>\<rparr>]"
       and vd = "\<lparr>dist = Some \<lparr>tarball = Some ''https://x/my-cli-1.1.0.tgz''\<rparr>,
           upgear = Some \<lparr>files = Some [[''dist''], [''package.json'']], needReinstall = Some False,
                   changelogUrl = Some ''https://x/CHANGELOG''\<rparr>\<rparr>"
       and d = "\<lparr>tarball = Some ''https://x/my-cli-1.1.0.tgz''\<rparr>"
       and up = "\<lparr>files = Some [[''dist''], [''package.json'']], needReinstall = Some False,
                   changelogUrl = Some ''https://x/CHANGELOG''\<rparr>"]
  by (simp add: ex_metadata_def truthy_def insert_commute)

text \<open>
  Claim C7 as stated fails on "each path appearing once": with the policy of the
  specification's own scenario, \<open>files: ["dist", "package.json"]\<close>, both core paths
  stand twice in the list.
\<close>

theorem C7_each_path_once_counterexample:
  "\<exists>vi s'. extractVersionInfo ex_metadata ''1.1.0'' (Logger False) ex_state = (Inr (Some vi), s') \<and>
     \<not> distinct (vi_files vi)"
  by (simp add: extractVersionInfo_def ex_metadata_def truthy_def try_catch_def io_seq_def io_bind_def io_return_def)

subsection \<open>Running a computation step by step\<close>

lemma run_bind: "m s = (Inr x, s') \<Longrightarrow> io_bind m f s = f x s'"
  by (simp add: io_bind_def)

lemma run_bind_throw: "m s = (Inl e, s') \<Longrightarrow> io_bind m f s = (Inl e, s')"
  by (simp add: io_bind_def)


lemma run_seq_throw: "m s = (Inl e, s') \<Longrightarrow> io_seq m n s = (Inl e, s')"
  by (simp add: io_seq_def io_bind_def)

lemma run_try_catch: "m s = (Inr x, s') \<Longrightarrow> try_catch m h s = (Inr x, s')"
  by (simp add: try_catch_def)

lemma run_try_catch_throw: "m s = (Inl e, s') \<Longrightarrow> try_catch m h s = h e s'"
  by (simp add: try_catch_def)

lemma run_try_finally: "m s = (r, s') \<Longrightarrow> fin s' = (Inr u, s'') \<Longrightarrow> try_finally m fin s = (r, s'')"
  by (simp add: try_finally_def)

lemma nothrowE: "nothrow m \<Longrightarrow> (\<And>x s'. m s = (Inr x, s') \<Longrightarrow> thesis) \<Longrightarrow> thesis"
  unfolding nothrow_def by blast

lemma stepsD: "steps R m \<Longrightarrow> R s (snd (m s))"
  by (simp add: steps_def)


lemma run_logger_info:
  "logger_info lg args s = (Inr (), s\<lparr>trace := trace s @ [ConsoleLog (Str ''[upgear:info]'' # args)]\<rparr>)"
  by (cases lg) (simp add: emit_def)

lemma run_logger_warn:
  "logger_warn lg args s = (Inr (), s\<lparr>trace := trace s @ [ConsoleWarn (Str ''[upgear:warn]'' # args)]\<rparr>)"
  by (cases lg) (simp add: emit_def)

subsection \<open>Relations kept by every step\<close>

lemma trans_reflD1: "trans_refl R \<Longrightarrow> R s s"
  by (simp add: trans_refl_def)

lemma trans_reflD2: "trans_refl R \<Longrightarrow> R a b \<Longrightarrow> R b c \<Longrightarrow> R a c"
  unfolding trans_refl_def by blast

lemma trans_refl_grows [simp]: "trans_refl (grows Q)"
  unfolding trans_refl_def grows_def
proof (intro conjI allI impI)
  fix s show "\<exists>evs. trace s = trace s @ evs \<and> list_all Q evs"
    by (rule exI [of _ "[]"]) simp
next
  fix a b c
  assume "\<exists>evs. trace b = trace a @ evs \<and> list_all Q evs"
    and "\<exists>evs. trace c = trace b @ evs \<and> list_all Q evs"
  then obtain e1 e2 where "trace b = trace a @ e1" "list_all Q e1" "trace c = trace b @ e2" "list_all Q e2"
    by blast
  then show "\<exists>evs. trace c = trace a @ evs \<and> list_all Q evs"
    by (intro exI [of _ "e1 @ e2"]) simp
qed

lemma trans_refl_keeps [simp]: "trans_refl (keeps f)"
  by (simp add: trans_refl_def keeps_def)

lemma trans_refl_frame [simp]: "trans_refl (frame A)"
  by (simp add: trans_refl_def frame_def)

lemma trans_refl_both [simp]: "trans_refl R1 \<Longrightarrow> trans_refl R2 \<Longrightarrow> trans_refl (both R1 R2)"
  unfolding trans_refl_def both_def by blast

named_theorems steps_intros

lemma steps_return [steps_intros]: "trans_refl R \<Longrightarrow> steps R (io_return x)"
  by (simp add: steps_def io_return_def trans_reflD1)

lemma steps_throw [steps_intros]: "trans_refl R \<Longrightarrow> steps R (io_throw e)"
  by (simp add: steps_def io_throw_def trans_reflD1)

lemma steps_bind [steps_intros]:
  assumes R: "trans_refl R" and m: "steps R m" and f: "\<And>x. steps R (f x)"
  shows "steps R (io_bind m f)"
  unfolding steps_def
proof
  fix s
  obtain r s' where ms: "m s = (r, s')" by (cases "m s")
  from m have 1: "R s s'" using ms by (simp add: steps_def) (metis snd_conv)
  show "R s (snd (io_bind m f s))"
  proof (cases r)
    case (Inl e)
    with ms 1 show ?thesis by (simp add: io_bind_def)
  next
    case (Inr x)
    from f [of x] have "R s' (snd (f x s'))" by (simp add: steps_def)
    with 1 R have "R s (snd (f x s'))" by (blast intro: trans_reflD2)
    with ms Inr show ?thesis by (simp add: io_bind_def)
  qed
qed

lemma steps_seq [steps_intros]: "trans_refl R \<Longrightarrow> steps R m \<Longrightarrow> steps R n \<Longrightarrow> steps R (io_seq m n)"
  by (simp add: io_seq_def steps_bind)

lemma steps_try_catch [steps_intros]:
  assumes R: "trans_refl R" and m: "steps R m" and h: "\<And>e. steps R (h e)"
  shows "steps R (try_catch m h)"
  unfolding steps_def
proof
  fix s
  obtain r s' where ms: "m s = (r, s')" by (cases "m s")
  from m have 1: "R s s'" using ms by (simp add: steps_def) (metis snd_conv)
  show "R s (snd (try_catch m h s))"
  proof (cases r)
    case (Inr x)
    with ms 1 show ?thesis by (simp add: try_catch_def)
  next
    case (Inl e)
    from h [of e] have "R s' (snd (h e s'))" by (simp add: steps_def)
    with 1 R have "R s (snd (h e s'))" by (blast intro: trans_reflD2)
    with ms Inl show ?thesis by (simp add: try_catch_def)
  qed
qed

lemma steps_try_finally [steps_intros]:
  assumes R: "trans_refl R" and m: "steps R m" and f: "steps R fin"
  shows "steps R (try_finally m fin)"
  unfolding steps_def
proof
  fix s
  obtain r s' where ms: "m s = (r, s')" by (cases "m s")
  from m have 1: "R s s'" using ms by (simp add: steps_def) (metis snd_conv)
  obtain r' s'' where fs: "fin s' = (r', s'')" by (cases "fin s'")
  from f have "R s' s''" using fs by (simp add: steps_def) (metis snd_conv)
  with 1 R have "R s s''" by (blast intro: trans_reflD2)
  with ms fs show "R s (snd (try_finally m fin s))"
    by (cases r') (simp_all add: try_finally_def)
qed

lemma steps_for_each [steps_intros]: "trans_refl R \<Longrightarrow> (\<And>x. steps R (f x)) \<Longrightarrow> steps R (for_each f xs)"
  by (induction xs) (simp_all add: steps_return steps_seq)

lemma steps_if [steps_intros]: "(b \<Longrightarrow> steps R m) \<Longrightarrow> (\<not> b \<Longrightarrow> steps R n) \<Longrightarrow> steps R (if b then m else n)"
  by simp

lemma steps_case_option [steps_intros]:
  "(x = None \<Longrightarrow> steps R a) \<Longrightarrow> (\<And>y. x = Some y \<Longrightarrow> steps R (b y)) \<Longrightarrow> steps R (case x of None \<Rightarrow> a | Some y \<Rightarrow> b y)"
  by (cases x) simp_all

lemma steps_case_sum [steps_intros]:
  "(\<And>y. x = Inl y \<Longrightarrow> steps R (a y)) \<Longrightarrow> (\<And>y. x = Inr y \<Longrightarrow> steps R (b y)) \<Longrightarrow> steps R (case x of Inl y \<Rightarrow> a y | Inr y \<Rightarrow> b y)"
  by (cases x) simp_all

lemma steps_case_prod [steps_intros]:
  "(\<And>a b. x = (a, b) \<Longrightarrow> steps R (f a b)) \<Longrightarrow> steps R (case x of (a, b) \<Rightarrow> f a b)"
  by (cases x) simp_all

lemma steps_case_node [steps_intros]:
  "(\<And>c. x = File c \<Longrightarrow> steps R (a c)) \<Longrightarrow> (\<And>cs. x = Dir cs \<Longrightarrow> steps R (b cs)) \<Longrightarrow> steps R (case x of File c \<Rightarrow> a c | Dir cs \<Rightarrow> b cs)"
  by (cases x) simp_all

lemma steps_get_fs [steps_intros]: "trans_refl R \<Longrightarrow> steps R get_fs"
  by (simp add: steps_def get_fs_def trans_reflD1)

lemma steps_get_cleanup [steps_intros]: "trans_refl R \<Longrightarrow> steps R get_cleanup"
  by (simp add: steps_def get_cleanup_def trans_reflD1)

lemma steps_both: "steps R1 m \<Longrightarrow> steps R2 m \<Longrightarrow> steps (both R1 R2) m"
  by (simp add: steps_def both_def)

subsection \<open>What is printed and called: \<open>grows\<close>\<close>

lemma grows_emit [steps_intros]: "Q e \<Longrightarrow> steps (grows Q) (emit e)"
  by (simp add: steps_def grows_def emit_def)

lemma grows_set_fs [steps_intros]: "steps (grows Q) (set_fs n)"
  by (simp add: steps_def grows_def set_fs_def)

lemma grows_set_cleanup [steps_intros]: "steps (grows Q) (set_cleanup c)"
  by (simp add: steps_def grows_def set_cleanup_def)

lemma grows_Date_now [steps_intros]: "steps (grows Q) (Date_now w)"
  by (simp add: steps_def grows_def Date_now_def)

lemma grows_logger_debug [steps_intros]:
  "Q (ConsoleLog (Str ''[upgear:debug]'' # args)) \<Longrightarrow> steps (grows Q) (logger_debug lg args)"
  by (cases lg) (simp add: steps_def grows_def emit_def io_return_def)

lemma grows_logger_info [steps_intros]:
  "Q (ConsoleLog (Str ''[upgear:info]'' # args)) \<Longrightarrow> steps (grows Q) (logger_info lg args)"
  by (cases lg) (simp add: steps_def grows_def emit_def)

lemma grows_logger_warn [steps_intros]:
  "Q (ConsoleWarn (Str ''[upgear:warn]'' # args)) \<Longrightarrow> steps (grows Q) (logger_warn lg args)"
  by (cases lg) (simp add: steps_def grows_def emit_def)

lemma grows_sys [steps_intros]: "Q (Sys c) \<Longrightarrow> steps (grows Q) m \<Longrightarrow> steps (grows Q) (sys w c m)"
  unfolding sys_def by (intro steps_intros) simp_all

lemma grows_existsSync [steps_intros]: "Q (Sys (ExistsSync p)) \<Longrightarrow> steps (grows Q) (existsSync p)"
  unfolding existsSync_def by (intro steps_intros) simp_all

lemma grows_statSync [steps_intros]: "Q (Sys (StatSync p)) \<Longrightarrow> steps (grows Q) (statSync_isDirectory w p)"
  unfolding statSync_isDirectory_def by (intro steps_intros) simp_all

lemma grows_readdirSync [steps_intros]: "Q (Sys (ReaddirSync p)) \<Longrightarrow> steps (grows Q) (readdirSync w p)"
  unfolding readdirSync_def by (intro steps_intros) simp_all

lemma grows_readFileSync [steps_intros]: "Q (Sys (ReadFileSync p)) \<Longrightarrow> steps (grows Q) (readFileSync w p)"
  unfolding readFileSync_def by (intro steps_intros) simp_all

lemma grows_writeFileSync [steps_intros]: "Q (Sys (WriteFileSync p)) \<Longrightarrow> steps (grows Q) (writeFileSync w p c)"
  unfolding writeFileSync_def by (intro steps_intros) simp_all

lemma grows_mkdirSync [steps_intros]: "Q (Sys (MkdirSync p)) \<Longrightarrow> steps (grows Q) (mkdirSync w p)"
  unfolding mkdirSync_def by (intro steps_intros) simp_all

lemma grows_unlinkSync [steps_intros]: "Q (Sys (UnlinkSync p)) \<Longrightarrow> steps (grows Q) (unlinkSync w p)"
  unfolding unlinkSync_def by (intro steps_intros) simp_all

lemma grows_copyFileSync [steps_intros]: "Q (Sys (CopyFileSync p q)) \<Longrightarrow> steps (grows Q) (copyFileSync w p q)"
  unfolding copyFileSync_def by (intro steps_intros) simp_all

lemma grows_cpSync [steps_intros]: "Q (Sys (CpSync p q)) \<Longrightarrow> steps (grows Q) (cpSync w p q)"
  unfolding cpSync_def by (intro steps_intros) simp_all

lemma grows_pipeline_to_file [steps_intros]: "Q (Sys (CreateWriteStream p)) \<Longrightarrow> steps (grows Q) (pipeline_to_file w p b)"
  unfolding pipeline_to_file_def by (intro steps_intros) simp_all

lemma grows_tar_extract [steps_intros]: "Q (Sys (TarExtract p q)) \<Longrightarrow> steps (grows Q) (tar_extract w p q)"
  unfolding tar_extract_def by (intro steps_intros) simp_all

lemma grows_http_fetch [steps_intros]: "Q (Fetch url) \<Longrightarrow> steps (grows Q) (http_fetch w url)"
  unfolding http_fetch_def by (intro steps_intros) simp_all

lemma grows_call_onDisplay [steps_intros]: "Q (OnDisplay i) \<Longrightarrow> steps (grows Q) (call_onDisplay cb i)"
  unfolding call_onDisplay_def by (intro steps_intros) simp_all

subsection \<open>Components of the state that a step keeps\<close>

lemma keeps_emit [steps_intros]: "(\<And>s t. f (s\<lparr>trace := t\<rparr>) = f s) \<Longrightarrow> steps (keeps f) (emit e)"
  by (simp add: steps_def keeps_def emit_def)

lemma keeps_set_fs [steps_intros]: "(\<And>s t. f (s\<lparr>fs := t\<rparr>) = f s) \<Longrightarrow> steps (keeps f) (set_fs n)"
  by (simp add: steps_def keeps_def set_fs_def)

lemma keeps_set_cleanup [steps_intros]: "(\<And>s t. f (s\<lparr>cleanup := t\<rparr>) = f s) \<Longrightarrow> steps (keeps f) (set_cleanup n)"
  by (simp add: steps_def keeps_def set_cleanup_def)

lemma keeps_Date_now [steps_intros]: "(\<And>s t. f (s\<lparr>clock := t\<rparr>) = f s) \<Longrightarrow> steps (keeps f) (Date_now w)"
  by (simp add: steps_def keeps_def Date_now_def)

lemma keeps_logger_debug [steps_intros]: "(\<And>s t. f (s\<lparr>trace := t\<rparr>) = f s) \<Longrightarrow> steps (keeps f) (logger_debug lg args)"
  by (cases lg) (simp add: steps_def keeps_def emit_def io_return_def)

lemma keeps_logger_info [steps_intros]: "(\<And>s t. f (s\<lparr>trace := t\<rparr>) = f s) \<Longrightarrow> steps (keeps f) (logger_info lg args)"
  by (cases lg) (simp add: steps_def keeps_def emit_def)

lemma keeps_logger_warn [steps_intros]: "(\<And>s t. f (s\<lparr>trace := t\<rparr>) = f s) \<Longrightarrow> steps (keeps f) (logger_warn lg args)"
  by (cases lg) (simp add: steps_def keeps_def emit_def)

lemma keeps_sys [steps_intros]:
  "(\<And>s t. f (s\<lparr>trace := t\<rparr>) = f s) \<Longrightarrow> steps (keeps f) m \<Longrightarrow> steps (keeps f) (sys w c m)"
  unfolding sys_def by (intro steps_intros) simp_all

lemma keeps_existsSync [steps_intros]: "(\<And>s t. f (s\<lparr>trace := t\<rparr>) = f s) \<Longrightarrow> steps (keeps f) (existsSync p)"
  unfolding existsSync_def by (intro steps_intros) simp_all

lemma keeps_statSync [steps_intros]: "(\<And>s t. f (s\<lparr>trace := t\<rparr>) = f s) \<Longrightarrow> steps (keeps f) (statSync_isDirectory w p)"
  unfolding statSync_isDirectory_def by (intro steps_intros) simp_all

lemma keeps_readdirSync [steps_intros]: "(\<And>s t. f (s\<lparr>trace := t\<rparr>) = f s) \<Longrightarrow> steps (keeps f) (readdirSync w p)"
  unfolding readdirSync_def by (intro steps_intros) simp_all

lemma keeps_readFileSync [steps_intros]: "(\<And>s t. f (s\<lparr>trace := t\<rparr>) = f s) \<Longrightarrow> steps (keeps f) (readFileSync w p)"
  unfolding readFileSync_def by (intro steps_intros) simp_all

lemma keeps_http_fetch [steps_intros]: "(\<And>s t. f (s\<lparr>trace := t\<rparr>) = f s) \<Longrightarrow> steps (keeps f) (http_fetch w url)"
  unfolding http_fetch_def by (intro steps_intros) simp_all

lemma keeps_call_onDisplay [steps_intros]: "(\<And>s t. f (s\<lparr>trace := t\<rparr>) = f s) \<Longrightarrow> steps (keeps f) (call_onDisplay cb i)"
  unfolding call_onDisplay_def by (intro steps_intros) simp_all

text \<open>The calls that write: they keep what does not depend on the trace or the file system.\<close>

lemma keeps_writeFileSync [steps_intros]:
  "(\<And>s t. f (s\<lparr>trace := t\<rparr>) = f s) \<Longrightarrow> (\<And>s t. f (s\<lparr>fs := t\<rparr>) = f s) \<Longrightarrow> steps (keeps f) (writeFileSync w p c)"
  unfolding writeFileSync_def by (intro steps_intros) simp_all

lemma keeps_mkdirSync [steps_intros]:
  "(\<And>s t. f (s\<lparr>trace := t\<rparr>) = f s) \<Longrightarrow> (\<And>s t. f (s\<lparr>fs := t\<rparr>) = f s) \<Longrightarrow> steps (keeps f) (mkdirSync w p)"
  unfolding mkdirSync_def by (intro steps_intros) simp_all

lemma keeps_unlinkSync [steps_intros]:
  "(\<And>s t. f (s\<lparr>trace := t\<rparr>) = f s) \<Longrightarrow> (\<And>s t. f (s\<lparr>fs := t\<rparr>) = f s) \<Longrightarrow> steps (keeps f) (unlinkSync w p)"
  unfolding unlinkSync_def by (intro steps_intros) simp_all

lemma keeps_copyFileSync [steps_intros]:
  "(\<And>s t. f (s\<lparr>trace := t\<rparr>) = f s) \<Longrightarrow> (\<And>s t. f (s\<lparr>fs := t\<rparr>) = f s) \<Longrightarrow> steps (keeps f) (copyFileSync w p q)"
  unfolding copyFileSync_def by (intro steps_intros) simp_all

lemma keeps_cpSync [steps_intros]:
  "(\<And>s t. f (s\<lparr>trace := t\<rparr>) = f s) \<Longrightarrow> (\<And>s t. f (s\<lparr>fs := t\<rparr>) = f s) \<Longrightarrow> steps (keeps f) (cpSync w p q)"
  unfolding cpSync_def by (intro steps_intros) simp_all

lemma keeps_pipeline_to_file [steps_intros]:
  "(\<And>s t. f (s\<lparr>trace := t\<rparr>) = f s) \<Longrightarrow> (\<And>s t. f (s\<lparr>fs := t\<rparr>) = f s) \<Longrightarrow> steps (keeps f) (pipeline_to_file w p b)"
  unfolding pipeline_to_file_def by (intro steps_intros) simp_all

lemma keeps_tar_extract [steps_intros]:
  "(\<And>s t. f (s\<lparr>trace := t\<rparr>) = f s) \<Longrightarrow> (\<And>s t. f (s\<lparr>fs := t\<rparr>) = f s) \<Longrightarrow> steps (keeps f) (tar_extract w p q)"
  unfolding tar_extract_def by (intro steps_intros) simp_all

lemma keeps_deleteDirRecursive [steps_intros]:
  "(\<And>s t. f (s\<lparr>trace := t\<rparr>) = f s) \<Longrightarrow> (\<And>s t. f (s\<lparr>fs := t\<rparr>) = f s) \<Longrightarrow> steps (keeps f) (deleteDirRecursive w p)"
  by (simp add: steps_def keeps_def deleteDirRecursive_def split: option.splits prod.splits)

subsection \<open>Which values a computation can return\<close>

named_theorems returns_intros

lemma returns_return [returns_intros]: "x \<in> A \<Longrightarrow> returns_in A (io_return x)"
  by (simp add: returns_in_def io_return_def)

lemma returns_throw [returns_intros]: "returns_in A (io_throw e)"
  by (simp add: returns_in_def io_throw_def)

lemma returns_bind [returns_intros]: "(\<And>x. returns_in A (f x)) \<Longrightarrow> returns_in A (io_bind m f)"
  by (auto simp: returns_in_def io_bind_def split: prod.splits sum.splits)

lemma returns_seq [returns_intros]: "returns_in A n \<Longrightarrow> returns_in A (io_seq m n)"
  by (simp add: io_seq_def returns_bind)

lemma returns_try_catch [returns_intros]:
  "returns_in A m \<Longrightarrow> (\<And>e. returns_in A (h e)) \<Longrightarrow> returns_in A (try_catch m h)"
  unfolding returns_in_def try_catch_def
  by (auto split: prod.splits sum.splits) (metis fst_conv)+

lemma returns_try_finally [returns_intros]: "returns_in A m \<Longrightarrow> returns_in A (try_finally m fin)"
  unfolding returns_in_def try_finally_def
  by (auto split: prod.splits sum.splits) (metis fst_conv)+

lemma returns_if [returns_intros]:
  "(b \<Longrightarrow> returns_in A m) \<Longrightarrow> (\<not> b \<Longrightarrow> returns_in A n) \<Longrightarrow> returns_in A (if b then m else n)"
  by simp

lemma returns_case_option [returns_intros]:
  "(x = None \<Longrightarrow> returns_in A a) \<Longrightarrow> (\<And>y. x = Some y \<Longrightarrow> returns_in A (b y)) \<Longrightarrow>
   returns_in A (case x of None \<Rightarrow> a | Some y \<Rightarrow> b y)"
  by (cases x) simp_all

lemma returns_inD: "returns_in A m \<Longrightarrow> m s = (Inr x, s') \<Longrightarrow> x \<in> A"
  unfolding returns_in_def by (metis fst_conv)

lemma returns_apply: "returns_in ({UpdateCompleted} \<union> range UpdateFailed) (checkAndUpdate_apply w opt lg vi)"
  unfolding checkAndUpdate_apply_def by (intro returns_intros) simp_all

lemma returns_policy:
  "returns_in ({NoVersionInfo, ReinstallNotified, UpdateCompleted} \<union> range UpdateFailed)
     (checkAndUpdate_policy w opt lg md lv)"
  unfolding checkAndUpdate_policy_def
  by (intro returns_intros) (simp_all add: returns_in_def, use returns_apply in \<open>auto simp: returns_in_def\<close>)

subsection \<open>The shape of a run of \<open>checkAndUpdate\<close>\<close>

lemma growsD: "grows Q s s' \<Longrightarrow> list_all Q (drop (length (trace s)) (trace s'))"
  by (auto simp: grows_def)

lemma emitted_grows: "grows Q s (snd (m s)) \<Longrightarrow> list_all Q (emitted m s)"
  by (simp add: emitted_def growsD)

lemma try_finally_fst: "nothrow fin \<Longrightarrow> fst (try_finally m fin s) = fst (m s)"
proof -
  assume n: "nothrow fin"
  obtain r s' where ms: "m s = (r, s')" by (cases "m s")
  from n obtain u s'' where "fin s' = (Inr u, s'')" by (rule nothrowE)
  with ms show ?thesis by (simp add: try_finally_def)
qed

lemma nothrow_final_cleanup:
  "nothrow (io_bind get_cleanup (\<lambda>c.
      if tempFilesCreated c \<and> paths c \<noteq> None then cleanupTemporaryFiles w (paths c) lg d
      else io_return ()))"
  by (intro nothrow_intros)

lemma entered_simps [simp]:
  "fs (entered opts s) = fs s" "clock (entered opts s) = clock s"
  "cleanup (entered opts s) = \<lparr>tempFilesCreated = False, paths = None\<rparr>"
  by (simp_all add: entered_def)

lemma grows_entered:
  "Q (ConsoleLog [Str ''[upgear:debug]'', Str ''Starting update check with options:'', Obj ''options'']) \<Longrightarrow>
   grows Q s (entered opts s)"
  by (simp add: grows_def entered_def)

lemma prefix_run:
  "io_seq (logger_debug (Logger d) a) (io_seq (set_cleanup c) M) s =
     M (s\<lparr>trace := trace s @ (if d then [ConsoleLog (Str ''[upgear:debug]'' # a)] else []), cleanup := c\<rparr>)"
  by (simp add: io_seq_def io_bind_def emit_def io_return_def set_cleanup_def)

lemma checkAndUpdate_unfold:
  "checkAndUpdate w opts s =
     try_finally
       (try_catch (checkAndUpdate_try w (default_options opts) (Logger (debug opts)))
          (\<lambda>error. io_seq (logger_warn (Logger (debug opts)) [Str ''Error during update check:'', Exn error])
                     (io_return (CheckFailed error))))
       (io_bind get_cleanup (\<lambda>c.
          if tempFilesCreated c \<and> paths c \<noteq> None
          then cleanupTemporaryFiles w (paths c) (Logger (debug opts)) (o_dryRun (default_options opts))
          else io_return ()))
       (entered opts s)"
  by (simp only: checkAndUpdate_def createLogger_def prefix_run entered_def)

lemma checkAndUpdate_fst:
  "fst (checkAndUpdate w opts s) =
     (case fst (checkAndUpdate_try w (default_options opts) (Logger (debug opts)) (entered opts s)) of
        Inl e \<Rightarrow> Inr (CheckFailed e) | Inr x \<Rightarrow> Inr x)"
  unfolding checkAndUpdate_unfold try_finally_fst [OF nothrow_final_cleanup]
  by (simp add: try_catch_def io_seq_def io_bind_def emit_def io_return_def split: prod.splits sum.splits)

lemma checkAndUpdate_run:
  assumes "checkAndUpdate_try w (default_options opts) (Logger (debug opts)) (entered opts s) = (r, s1)"
    and "\<not> tempFilesCreated (cleanup s1)"
  shows "checkAndUpdate w opts s =
     (case r of
        Inr x \<Rightarrow> (Inr x, s1)
      | Inl e \<Rightarrow> (Inr (CheckFailed e),
          s1\<lparr>trace := trace s1 @ [ConsoleWarn [Str ''[upgear:warn]'', Str ''Error during update check:'', Exn e]]\<rparr>))"
  unfolding checkAndUpdate_unfold using assms
  by (cases r)
     (simp_all add: try_finally_def try_catch_def io_seq_def io_bind_def emit_def io_return_def
      get_cleanup_def)

subsection \<open>The CI gate (claim C10)\<close>

lemma isCI_I:
  assumes "v \<in> {''CI'', ''CONTINUOUS_INTEGRATION'', ''BUILD_NUMBER'', ''GITHUB_ACTIONS''}"
    and "env w v = Some x" and "x \<noteq> []"
  shows "isCI w"
  using assms by (auto simp: isCI_def truthy_def)

text \<open>
  Claim C10, as amended. When \<open>skipOnCI\<close> is true (the default) and one of the four
  CI variables is set to a non-empty string, \<open>checkAndUpdate\<close> returns at once,
  whatever \<open>dryRun\<close> is: the file system is untouched, and nothing is asked, read,
  written or printed but the two debug lines (when \<open>debug\<close> is set). So there is no
  registry request, no timestamp read or write and no dry-run line.
\<close>

theorem C10_ci_skip_first:
  assumes "skipOnCI opts \<noteq> Some False"
    and "v \<in> {''CI'', ''CONTINUOUS_INTEGRATION'', ''BUILD_NUMBER'', ''GITHUB_ACTIONS''}"
    and "env w v = Some x" and "x \<noteq> []"
  shows "checkAndUpdate w opts s =
     (Inr SkippedCI,
      s\<lparr>trace :=
          trace s @
          (if debug opts
           then [ConsoleLog [Str ''[upgear:debug]'', Str ''Starting update check with options:'', Obj ''options''],
                 ConsoleLog [Str ''[upgear:debug]'', Str ''Skipping update check in CI environment'']]
           else []),
        cleanup := \<lparr>tempFilesCreated = False, paths = None\<rparr>\<rparr>)"
proof -
  have ci: "isCI w" using assms(2-4) by (rule isCI_I)
  have sk: "o_skipOnCI (default_options opts)"
    using assms(1) by (cases "skipOnCI opts") (simp_all add: default_options_def)
  have "checkAndUpdate_try w (default_options opts) (Logger (debug opts)) (entered opts s) =
      (Inr SkippedCI, (entered opts s)\<lparr>trace := trace (entered opts s) @
         (if debug opts then [ConsoleLog [Str ''[upgear:debug]'', Str ''Skipping update check in CI environment'']] else [])\<rparr>)"
    using ci sk by (simp add: checkAndUpdate_try_def io_seq_def io_bind_def emit_def io_return_def)
  from checkAndUpdate_run [OF this] show ?thesis
    by (simp add: entered_def)
qed

theorem C10_ci_skip_first_witness:
  "checkAndUpdate (ex_world\<lparr>env := [''GITHUB_ACTIONS'' \<mapsto> ''true'']\<rparr>) (ex_opts\<lparr>dryRun := Some True\<rparr>) ex_state =
     (Inr SkippedCI, ex_state)"
  using C10_ci_skip_first [where opts = "ex_opts\<lparr>dryRun := Some True\<rparr>" and v = "''GITHUB_ACTIONS''"
      and w = "ex_world\<lparr>env := [''GITHUB_ACTIONS'' \<mapsto> ''true'']\<rparr>" and x = "''true''" and s = ex_state]
  by (simp add: ex_opts_def ex_state_def)

subsection \<open>Evaluating a run on a concrete world\<close>

lemma digit_chars:
  "char_of (48::nat) = CHR ''0''" "char_of (49::nat) = CHR ''1''" "char_of (50::nat) = CHR ''2''"
  "char_of (51::nat) = CHR ''3''" "char_of (52::nat) = CHR ''4''" "char_of (53::nat) = CHR ''5''"
  "char_of (54::nat) = CHR ''6''" "char_of (55::nat) = CHR ''7''" "char_of (56::nat) = CHR ''8''"
  "char_of (57::nat) = CHR ''9''"
  by (simp_all add: char_of_def bit_numeral_rec bit_0)

lemmas io_defs = io_return_def io_throw_def io_bind_def io_seq_def try_catch_def try_finally_def
  emit_def get_fs_def set_fs_def get_cleanup_def set_cleanup_def Date_now_def sys_def

lemmas prim_defs = existsSync_def statSync_isDirectory_def readdirSync_def readFileSync_def
  writeFileSync_def mkdirSync_def unlinkSync_def copyFileSync_def cpSync_def pipeline_to_file_def
  tar_extract_def deleteDirRecursive_def lookup_def update_def parent_is_dir_def is_dir_def
  is_file_def set_child_def put_entries_def

lemmas fun_defs = checkAndUpdate_def checkAndUpdate_try_def checkAndUpdate_interval_def
  checkAndUpdate_check_def checkAndUpdate_version_def checkAndUpdate_policy_def
  checkAndUpdate_apply_def checkAndUpdate_update_def default_options_def createLogger_def isCI_def
  truthy_def getTimestampFilePath_def readLastCheckTimestamp_def writeCurrentTimestamp_def
  buildPackageUrl_def http_fetch_def fetchPackageMetadata_def isUpdateNeeded_def
  extractVersionInfo_def createTempPaths_def temp_paths_def downloadTarball_def extractTarball_def
  backupFiles_def backupFiles_step_def backupFiles_try_def copyUpdatedFiles_def
  copyUpdatedFiles_step_def copyUpdatedFiles_try_def copyUpdatedFiles_sourceBase_def
  displayUpdateNotification_def cleanupTemporaryFiles_def call_onDisplay_def bak_def sanitize_def
  is_alnum_def show_int_def digit_chars

lemmas ex_defs = ex_world_def ex_state_def ex_opts_def ex_metadata_def

text \<open>
  Claim C10 as stated fails for a variable that is set to the empty string: \<open>isCI\<close>
  tests the values for truthiness, \<open>CI=\<close> does not count, and the run goes on to ask
  the registry.
\<close>

theorem C10_empty_variable_counterexample:
  "env (ex_world\<lparr>env := [''CI'' \<mapsto> ''''], fetch := (\<lambda>url. Inl (Error ''offline''))\<rparr>) ''CI'' = Some [] \<and>
   skipOnCI (ex_opts\<lparr>dryRun := Some True\<rparr>) = None \<and>
   fst (checkAndUpdate (ex_world\<lparr>env := [''CI'' \<mapsto> ''''], fetch := (\<lambda>url. Inl (Error ''offline''))\<rparr>)
          (ex_opts\<lparr>dryRun := Some True\<rparr>) ex_state) = Inr NoMetadata \<and>
   Fetch ''https://registry.npmjs.org/my-cli'' \<in>
     set (emitted (checkAndUpdate (ex_world\<lparr>env := [''CI'' \<mapsto> ''''], fetch := (\<lambda>url. Inl (Error ''offline''))\<rparr>)
          (ex_opts\<lparr>dryRun := Some True\<rparr>)) ex_state)"
  by (simp add: emitted_def fun_defs io_defs ex_defs)

subsection \<open>The interval gate (claim C4)\<close>

lemma readLastCheckTimestamp_fs_only:
  "fs s' = fs s \<Longrightarrow> fst (readLastCheckTimestamp w n s') = fst (readLastCheckTimestamp w n s)"
  by (simp add: readLastCheckTimestamp_def existsSync_def readFileSync_def io_defs
      split: option.splits node.splits sum.splits)

lemma keeps_clock_readLastCheckTimestamp: "steps (keeps clock) (readLastCheckTimestamp w n)"
  unfolding readLastCheckTimestamp_def by (intro steps_intros) simp_all

lemma interval_value:
  assumes T: "fst (readLastCheckTimestamp w (o_name opt) s) = Inr T"
  shows "fst (checkAndUpdate_interval w opt lg s) =
     Inr (\<not> o_dryRun opt \<and> 0 < o_updateCheckIntervalMs opt \<and> 0 < T \<and>
          clock s - T < o_updateCheckIntervalMs opt)"
proof (cases "\<not> o_dryRun opt \<and> 0 < o_updateCheckIntervalMs opt")
  case False
  then show ?thesis by (auto simp: checkAndUpdate_interval_def io_return_def)
next
  case True
  obtain r s1 where r: "readLastCheckTimestamp w (o_name opt) s = (r, s1)"
    by (cases "readLastCheckTimestamp w (o_name opt) s")
  with T have r': "readLastCheckTimestamp w (o_name opt) s = (Inr T, s1)" by simp
  from stepsD [OF keeps_clock_readLastCheckTimestamp, where s = s and w1 = w and n1 = "o_name opt"] r
  have c: "clock s1 = clock s" by (simp add: keeps_def)
  obtain d where lg: "lg = Logger d" by (cases lg)
  show ?thesis
    using True c
    by (simp add: checkAndUpdate_interval_def r' Date_now_def io_bind_def io_seq_def
        io_return_def emit_def lg)
qed

lemma interval_dry_run:
  "o_dryRun opt \<Longrightarrow> checkAndUpdate_interval w opt lg s = (Inr False, s)"
  by (simp add: checkAndUpdate_interval_def io_return_def)

lemma returns_version:
  "returns_in ({ChannelNotFound, NoUpdateNeeded, NoVersionInfo, ReinstallNotified, UpdateCompleted} \<union> range UpdateFailed)
     (checkAndUpdate_version w opt lg md)"
  unfolding checkAndUpdate_version_def
  by (intro returns_intros) (simp_all add: returns_in_def, use returns_policy in \<open>auto simp: returns_in_def\<close>)

lemma returns_check:
  "returns_in ({NoMetadata, ChannelNotFound, NoUpdateNeeded, NoVersionInfo, ReinstallNotified, UpdateCompleted} \<union> range UpdateFailed)
     (checkAndUpdate_check w opt lg)"
  unfolding checkAndUpdate_check_def
  by (intro returns_intros) (simp_all add: returns_in_def, use returns_version in \<open>auto simp: returns_in_def\<close>)

lemma try_skipped_iff:
  assumes ci: "\<not> (o_skipOnCI opt \<and> isCI w)"
    and T: "fst (readLastCheckTimestamp w (o_name opt) s) = Inr T"
  shows "(fst (checkAndUpdate_try w opt lg s) = Inr SkippedInterval) =
     (\<not> o_dryRun opt \<and> 0 < o_updateCheckIntervalMs opt \<and> 0 < T \<and>
          clock s - T < o_updateCheckIntervalMs opt)"
proof -
  let ?b = "\<not> o_dryRun opt \<and> 0 < o_updateCheckIntervalMs opt \<and> 0 < T \<and>
          clock s - T < o_updateCheckIntervalMs opt"
  obtain r s1 where r: "checkAndUpdate_interval w opt lg s = (r, s1)"
    by (cases "checkAndUpdate_interval w opt lg s")
  with interval_value [OF T, of lg] have r': "checkAndUpdate_interval w opt lg s = (Inr ?b, s1)"
    by simp
  have tr: "checkAndUpdate_try w opt lg s =
      (if ?b then (Inr SkippedInterval, s1) else checkAndUpdate_check w opt lg s1)"
  proof -
    from ci have "(o_skipOnCI opt \<and> isCI w) = False" by simp
    then show ?thesis
      by (simp only: checkAndUpdate_try_def if_False) (simp add: io_bind_def r' io_return_def)
  qed
  show ?thesis
  proof (cases ?b)
    case True
    with tr show ?thesis by simp
  next
    case False
    have "fst (checkAndUpdate_check w opt lg s1) \<noteq> Inr SkippedInterval"
      using returns_check [of w opt lg] unfolding returns_in_def by fastforce
    with False tr show ?thesis by simp
  qed
qed

lemma skipped_iff:
  assumes ci: "\<not> (o_skipOnCI (default_options opts) \<and> isCI w)"
    and T: "fst (readLastCheckTimestamp w (name opts) s) = Inr T"
  shows "(fst (checkAndUpdate w opts s) = Inr SkippedInterval) =
     (dryRun opts \<noteq> Some True \<and> 0 < o_updateCheckIntervalMs (default_options opts) \<and> 0 < T \<and>
          clock s - T < o_updateCheckIntervalMs (default_options opts))"
proof -
  have T': "fst (readLastCheckTimestamp w (o_name (default_options opts)) (entered opts s)) = Inr T"
    using T readLastCheckTimestamp_fs_only [of "entered opts s" s w "name opts"]
    by (simp add: default_options_def)
  have d: "o_dryRun (default_options opts) = (dryRun opts = Some True)"
    by (cases "dryRun opts") (auto simp: default_options_def)
  show ?thesis
    unfolding checkAndUpdate_fst
    using try_skipped_iff [OF ci T', of "Logger (debug opts)"] d
    by (auto split: sum.splits)
qed

subsection \<open>Events that a computation is sure to emit\<close>

lemma grows_any: "grows any_event s s' = (\<exists>evs. trace s' = trace s @ evs)"
  by (simp add: grows_def list_all_iff)

lemma emits_emit: "always_emits e (emit e)"
  by (simp add: always_emits_def emit_def)

lemma emits_bind1:
  assumes m: "always_emits e m" and f: "\<And>x. steps (grows any_event) (f x)"
  shows "always_emits e (io_bind m f)"
  unfolding always_emits_def
proof
  fix s
  obtain r s' where ms: "m s = (r, s')" by (cases "m s")
  from m obtain evs where evs: "trace s' = trace s @ evs" "e \<in> set evs"
    using ms unfolding always_emits_def by (metis snd_conv)
  show "\<exists>evs. trace (snd (io_bind m f s)) = trace s @ evs \<and> e \<in> set evs"
  proof (cases r)
    case (Inl err)
    with ms evs show ?thesis by (auto simp: io_bind_def)
  next
    case (Inr x)
    from f [of x] obtain evs' where "trace (snd (f x s')) = trace s' @ evs'"
      unfolding steps_def grows_any by blast
    with ms Inr evs show ?thesis by (auto simp: io_bind_def)
  qed
qed

lemma emits_bind2:
  assumes m: "steps (grows any_event) m" and n: "nothrow m" and f: "\<And>x. always_emits e (f x)"
  shows "always_emits e (io_bind m f)"
  unfolding always_emits_def
proof
  fix s
  from n obtain x s' where ms: "m s = (Inr x, s')" by (rule nothrowE)
  from m obtain evs where evs: "trace s' = trace s @ evs"
    using ms unfolding steps_def grows_any by (metis snd_conv)
  from f [of x] obtain evs' where "trace (snd (f x s')) = trace s' @ evs'" "e \<in> set evs'"
    unfolding always_emits_def by blast
  with ms evs show "\<exists>evs. trace (snd (io_bind m f s)) = trace s @ evs \<and> e \<in> set evs"
    by (auto simp: io_bind_def)
qed

lemma emits_seq1: "always_emits e m \<Longrightarrow> steps (grows any_event) n \<Longrightarrow> always_emits e (io_seq m n)"
  by (simp add: io_seq_def emits_bind1)

lemma emits_seq2:
  "steps (grows any_event) m \<Longrightarrow> nothrow m \<Longrightarrow> always_emits e n \<Longrightarrow> always_emits e (io_seq m n)"
  by (simp add: io_seq_def emits_bind2)

lemma emits_try_catch:
  assumes m: "always_emits e m" and h: "\<And>x. steps (grows any_event) (h x)"
  shows "always_emits e (try_catch m h)"
  unfolding always_emits_def
proof
  fix s
  obtain r s' where ms: "m s = (r, s')" by (cases "m s")
  from m obtain evs where evs: "trace s' = trace s @ evs" "e \<in> set evs"
    using ms unfolding always_emits_def by (metis snd_conv)
  show "\<exists>evs. trace (snd (try_catch m h s)) = trace s @ evs \<and> e \<in> set evs"
  proof (cases r)
    case (Inr x)
    with ms evs show ?thesis by (auto simp: try_catch_def)
  next
    case (Inl err)
    from h [of err] obtain evs' where "trace (snd (h err s')) = trace s' @ evs'"
      unfolding steps_def grows_any by blast
    with ms Inl evs show ?thesis by (auto simp: try_catch_def)
  qed
qed

lemma emits_try_finally:
  assumes m: "always_emits e m" and f: "steps (grows any_event) fin"
  shows "always_emits e (try_finally m fin)"
  unfolding always_emits_def
proof
  fix s
  obtain r s' where ms: "m s = (r, s')" by (cases "m s")
  from m obtain evs where evs: "trace s' = trace s @ evs" "e \<in> set evs"
    using ms unfolding always_emits_def by (metis snd_conv)
  obtain r' s'' where fs: "fin s' = (r', s'')" by (cases "fin s'")
  from f obtain evs' where "trace s'' = trace s' @ evs'"
    using fs unfolding steps_def grows_any by (metis snd_conv)
  with ms fs evs show "\<exists>evs. trace (snd (try_finally m fin s)) = trace s @ evs \<and> e \<in> set evs"
    by (cases r') (auto simp: try_finally_def)
qed

lemma emitsD: "always_emits e m \<Longrightarrow> \<exists>evs. trace (snd (m s)) = trace s @ evs \<and> e \<in> set evs"
  by (simp add: always_emits_def)

lemma emits_grows_trans:
  assumes "grows any_event s0 s1" and "trace s2 = trace s1 @ evs" and "e \<in> set evs" and "grows any_event s2 s3"
  shows "e \<in> set (drop (length (trace s0)) (trace s3))"
  using assms by (auto simp: grows_any)

subsection \<open>The trace only grows\<close>

lemma grows_deleteDirRecursive_any: "steps (grows any_event) (deleteDirRecursive w p)"
  by (simp add: steps_def grows_any deleteDirRecursive_def split: option.splits prod.splits)

lemmas grows_any_intros = steps_intros grows_deleteDirRecursive_any

lemma del_events:
  assumes "\<And>q. Q (Sys (ExistsSync q))" "\<And>q. Q (Sys (ReaddirSync q))" "\<And>q. Q (Sys (LstatSync q))"
    "\<And>q. Q (Sys (UnlinkSync q))" "\<And>q. Q (Sys (RmdirSync q))"
  shows "list_all Q (snd (del_node w p n))" and "list_all Q (fst (snd (del_entries w p cs)))"
  by (induction w p n and w p cs rule: del_node_del_entries.induct)
    (auto simp: assms split: prod.splits node.splits option.splits)

lemma grows_deleteDirRecursive:
  assumes "\<And>q. Q (Sys (ExistsSync q))" "\<And>q. Q (Sys (ReaddirSync q))" "\<And>q. Q (Sys (LstatSync q))"
    "\<And>q. Q (Sys (UnlinkSync q))" "\<And>q. Q (Sys (RmdirSync q))"
  shows "steps (grows Q) (deleteDirRecursive w p)"
proof -
  have "list_all Q (snd (del_node w p n))" for n
    by (rule del_events(1)) (rule assms)+
  then have "del_node w p n = (r, evs) \<Longrightarrow> list_all Q evs" for n r evs
    by (metis snd_conv)
  then show ?thesis
    by (auto simp add: steps_def grows_def deleteDirRecursive_def assms split: option.splits prod.splits)
qed

lemma grows_cleanupTemporaryFiles_any: "steps (grows any_event) (cleanupTemporaryFiles w ps lg d)"
  unfolding cleanupTemporaryFiles_def by (intro grows_any_intros) simp_all

lemma grows_final_cleanup_any:
  "steps (grows any_event) (io_bind get_cleanup (\<lambda>c.
      if tempFilesCreated c \<and> paths c \<noteq> None then cleanupTemporaryFiles w (paths c) lg d
      else io_return ()))"
  by (intro grows_any_intros grows_cleanupTemporaryFiles_any) simp_all

lemma grows_backupFiles_any: "steps (grows any_event) (backupFiles w fl d lg dry)"
  unfolding backupFiles_def backupFiles_step_def backupFiles_try_def
  by (intro grows_any_intros) simp_all

lemma grows_copyUpdatedFiles_any: "steps (grows any_event) (copyUpdatedFiles w fl ed d lg dry)"
  unfolding copyUpdatedFiles_def copyUpdatedFiles_step_def copyUpdatedFiles_try_def
    copyUpdatedFiles_sourceBase_def
  by (intro grows_any_intros) simp_all

lemma grows_displayUpdateNotification_any:
  "steps (grows any_event) (displayUpdateNotification v n r c lg dry cb)"
  unfolding displayUpdateNotification_def by (intro grows_any_intros) simp_all

lemma grows_update_any: "steps (grows any_event) (checkAndUpdate_update w opt lg vi ps)"
  unfolding checkAndUpdate_update_def downloadTarball_def extractTarball_def
  by (intro grows_any_intros grows_backupFiles_any grows_copyUpdatedFiles_any
      grows_displayUpdateNotification_any) simp_all

lemma grows_apply_any: "steps (grows any_event) (checkAndUpdate_apply w opt lg vi)"
  unfolding checkAndUpdate_apply_def createTempPaths_def
  by (intro grows_any_intros grows_update_any grows_cleanupTemporaryFiles_any) simp_all

lemma grows_extractVersionInfo_any: "steps (grows any_event) (extractVersionInfo md v lg)"
  unfolding extractVersionInfo_def by (intro grows_any_intros) simp_all

lemma grows_policy_any: "steps (grows any_event) (checkAndUpdate_policy w opt lg md lv)"
  unfolding checkAndUpdate_policy_def
  by (intro grows_any_intros grows_apply_any grows_extractVersionInfo_any
      grows_displayUpdateNotification_any) simp_all

lemma grows_isUpdateNeeded_any: "steps (grows any_event) (isUpdateNeeded w c l lg)"
  unfolding isUpdateNeeded_def by (intro grows_any_intros) simp_all

lemma grows_version_any: "steps (grows any_event) (checkAndUpdate_version w opt lg md)"
  unfolding checkAndUpdate_version_def
  by (intro grows_any_intros grows_policy_any grows_isUpdateNeeded_any) simp_all

lemma grows_writeCurrentTimestamp_any: "steps (grows any_event) (writeCurrentTimestamp w n)"
  unfolding writeCurrentTimestamp_def by (intro grows_any_intros) simp_all

lemma grows_readLastCheckTimestamp_any: "steps (grows any_event) (readLastCheckTimestamp w n)"
  unfolding readLastCheckTimestamp_def by (intro grows_any_intros) simp_all

lemma grows_fetchPackageMetadata_any: "steps (grows any_event) (fetchPackageMetadata w n r lg)"
  unfolding fetchPackageMetadata_def by (intro grows_any_intros) simp_all

lemma grows_check_any: "steps (grows any_event) (checkAndUpdate_check w opt lg)"
  unfolding checkAndUpdate_check_def
  by (intro grows_any_intros grows_version_any grows_writeCurrentTimestamp_any
      grows_fetchPackageMetadata_any) simp_all

lemma grows_interval_any: "steps (grows any_event) (checkAndUpdate_interval w opt lg)"
  unfolding checkAndUpdate_interval_def
  by (intro grows_any_intros grows_readLastCheckTimestamp_any) simp_all

lemma grows_try_any: "steps (grows any_event) (checkAndUpdate_try w opt lg)"
  unfolding checkAndUpdate_try_def
  by (intro grows_any_intros grows_interval_any grows_check_any) simp_all

lemma grows_checkAndUpdate_any: "steps (grows any_event) (checkAndUpdate w opts)"
  unfolding checkAndUpdate_def
  by (intro grows_any_intros grows_try_any grows_cleanupTemporaryFiles_any) simp_all

lemma emits_http_fetch: "always_emits (Fetch url) (http_fetch w url)"
  unfolding http_fetch_def by (intro emits_seq1 emits_emit steps_intros) simp_all

lemma emits_fetchPackageMetadata:
  assumes "buildPackageUrl w n r = Inr url"
  shows "always_emits (Fetch url) (fetchPackageMetadata w n r lg)"
  unfolding fetchPackageMetadata_def assms sum.case
  by (intro emits_try_catch emits_seq2 emits_bind1 emits_http_fetch steps_intros nothrow_intros) simp_all

lemma emits_check:
  assumes "buildPackageUrl w (o_name opt) (o_registryBase opt) = Inr url"
  shows "always_emits (Fetch url) (checkAndUpdate_check w opt lg)"
  unfolding checkAndUpdate_check_def
  by (intro emits_seq2 emits_bind1 emits_fetchPackageMetadata [OF assms] steps_intros nothrow_intros
      grows_writeCurrentTimestamp_any grows_version_any) simp_all

lemma try_finally_catch_cong:
  "m s = m' s' \<Longrightarrow> try_finally (try_catch m h) fin s = try_finally (try_catch m' h) fin s'"
  by (simp add: try_finally_def try_catch_def)

lemma interval_steps:
  "steps (both (grows (\<lambda>e. \<not> is_Fetch e)) (keeps cleanup)) (checkAndUpdate_interval w opt lg)"
  unfolding checkAndUpdate_interval_def readLastCheckTimestamp_def
  by (intro steps_both steps_intros) simp_all

lemma interval_run:
  assumes T: "fst (readLastCheckTimestamp w (o_name opt) s) = Inr T"
  obtains s1 where
    "checkAndUpdate_interval w opt lg s =
       (Inr (\<not> o_dryRun opt \<and> 0 < o_updateCheckIntervalMs opt \<and> 0 < T \<and>
             clock s - T < o_updateCheckIntervalMs opt), s1)"
    and "grows (\<lambda>e. \<not> is_Fetch e) s s1"
    and "cleanup s1 = cleanup s"
proof -
  obtain r s1 where r: "checkAndUpdate_interval w opt lg s = (r, s1)"
    by (cases "checkAndUpdate_interval w opt lg s")
  from stepsD [OF interval_steps, where s = s and w1 = w and opt1 = opt and lg1 = lg] r
  have "grows (\<lambda>e. \<not> is_Fetch e) s s1" "cleanup s1 = cleanup s"
    by (simp_all add: both_def keeps_def)
  moreover from interval_value [OF T, of lg] r
  have "checkAndUpdate_interval w opt lg s =
       (Inr (\<not> o_dryRun opt \<and> 0 < o_updateCheckIntervalMs opt \<and> 0 < T \<and>
             clock s - T < o_updateCheckIntervalMs opt), s1)" by simp
  ultimately show thesis using that by blast
qed

lemma skipped_no_fetch:
  assumes ci: "\<not> (o_skipOnCI (default_options opts) \<and> isCI w)"
    and T: "fst (readLastCheckTimestamp w (name opts) s) = Inr T"
    and b: "dryRun opts \<noteq> Some True \<and> 0 < o_updateCheckIntervalMs (default_options opts) \<and> 0 < T \<and>
          clock s - T < o_updateCheckIntervalMs (default_options opts)"
  shows "list_all (\<lambda>e. \<not> is_Fetch e) (emitted (checkAndUpdate w opts) s)"
proof -
  let ?opt = "default_options opts" and ?lg = "Logger (debug opts)"
  have T': "fst (readLastCheckTimestamp w (o_name ?opt) (entered opts s)) = Inr T"
    using T readLastCheckTimestamp_fs_only [of "entered opts s" s w "name opts"]
    by (simp add: default_options_def)
  have d: "o_dryRun ?opt = (dryRun opts = Some True)"
    by (cases "dryRun opts") (auto simp: default_options_def)
  from interval_run [OF T', of ?lg] obtain s1 where
    i: "checkAndUpdate_interval w ?opt ?lg (entered opts s) =
       (Inr (\<not> o_dryRun ?opt \<and> 0 < o_updateCheckIntervalMs ?opt \<and> 0 < T \<and>
             clock (entered opts s) - T < o_updateCheckIntervalMs ?opt), s1)"
    and g: "grows (\<lambda>e. \<not> is_Fetch e) (entered opts s) s1"
    and c: "cleanup s1 = cleanup (entered opts s)" by blast
  from ci have ci': "(o_skipOnCI ?opt \<and> isCI w) = False" by simp
  have "checkAndUpdate_try w ?opt ?lg (entered opts s) = (Inr SkippedInterval, s1)"
    using b d by (simp only: checkAndUpdate_try_def ci' if_False) (simp add: io_bind_def i io_return_def)
  from checkAndUpdate_run [OF this] c have "snd (checkAndUpdate w opts s) = s1" by simp
  moreover have "grows (\<lambda>e. \<not> is_Fetch e) s (entered opts s)"
    by (rule grows_entered) simp
  with g have "grows (\<lambda>e. \<not> is_Fetch e) s s1"
    using trans_refl_grows [of "\<lambda>e. \<not> is_Fetch e"] by (blast intro: trans_reflD2)
  ultimately show ?thesis by (simp add: emitted_grows)
qed

lemma not_skipped_fetches:
  assumes ci: "\<not> (o_skipOnCI (default_options opts) \<and> isCI w)"
    and T: "fst (readLastCheckTimestamp w (name opts) s) = Inr T"
    and nb: "\<not> (dryRun opts \<noteq> Some True \<and> 0 < o_updateCheckIntervalMs (default_options opts) \<and> 0 < T \<and>
          clock s - T < o_updateCheckIntervalMs (default_options opts))"
    and url: "buildPackageUrl w (name opts) (o_registryBase (default_options opts)) = Inr url"
  shows "Fetch url \<in> set (emitted (checkAndUpdate w opts) s)"
proof -
  let ?opt = "default_options opts" and ?lg = "Logger (debug opts)"
  let ?H = "\<lambda>error. io_seq (logger_warn ?lg [Str ''Error during update check:'', Exn error])
                     (io_return (CheckFailed error))"
  let ?F = "io_bind get_cleanup (\<lambda>c.
          if tempFilesCreated c \<and> paths c \<noteq> None
          then cleanupTemporaryFiles w (paths c) ?lg (o_dryRun ?opt)
          else io_return ())"
  have T': "fst (readLastCheckTimestamp w (o_name ?opt) (entered opts s)) = Inr T"
    using T readLastCheckTimestamp_fs_only [of "entered opts s" s w "name opts"]
    by (simp add: default_options_def)
  have d: "o_dryRun ?opt = (dryRun opts = Some True)"
    by (cases "dryRun opts") (auto simp: default_options_def)
  from interval_run [OF T', of ?lg] obtain s1 where
    i: "checkAndUpdate_interval w ?opt ?lg (entered opts s) =
       (Inr (\<not> o_dryRun ?opt \<and> 0 < o_updateCheckIntervalMs ?opt \<and> 0 < T \<and>
             clock (entered opts s) - T < o_updateCheckIntervalMs ?opt), s1)"
    and g: "grows (\<lambda>e. \<not> is_Fetch e) (entered opts s) s1" by blast
  from ci have ci': "(o_skipOnCI ?opt \<and> isCI w) = False" by simp
  have t: "checkAndUpdate_try w ?opt ?lg (entered opts s) = checkAndUpdate_check w ?opt ?lg s1"
    using nb d by (simp only: checkAndUpdate_try_def ci' if_False) (auto simp: io_bind_def i io_return_def)
  have url': "buildPackageUrl w (o_name ?opt) (o_registryBase ?opt) = Inr url"
    using url by (simp add: default_options_def)
  have "always_emits (Fetch url) (try_finally (try_catch (checkAndUpdate_check w ?opt ?lg) ?H) ?F)"
    by (intro emits_try_finally emits_try_catch emits_check [OF url'] grows_final_cleanup_any
        steps_intros) simp_all
  from emitsD [OF this, of s1] obtain evs where
    e: "trace (snd (try_finally (try_catch (checkAndUpdate_check w ?opt ?lg) ?H) ?F s1)) = trace s1 @ evs"
      "Fetch url \<in> set evs" by blast
  have "checkAndUpdate w opts s = try_finally (try_catch (checkAndUpdate_check w ?opt ?lg) ?H) ?F s1"
    unfolding checkAndUpdate_unfold
    by (rule try_finally_catch_cong
        [where m = "checkAndUpdate_try w ?opt ?lg" and m' = "checkAndUpdate_check w ?opt ?lg", OF t])
  with e have f: "trace (snd (checkAndUpdate w opts s)) = trace s1 @ evs" by simp
  have "grows any_event s (entered opts s)" by (rule grows_entered) simp
  moreover from g have "grows any_event (entered opts s) s1" by (auto simp: grows_def list_all_iff)
  ultimately obtain e0 where "trace s1 = trace s @ e0" by (auto simp: grows_any)
  with f e(2) show ?thesis by (simp add: emitted_def)
qed

text \<open>
  Claim C4. \<open>T\<close> is the recorded time of the last check as \<open>readLastCheckTimestamp\<close>
  reads it (0 when there is none), \<open>I\<close> the configured interval and \<open>clock s\<close> the
  current time; the CI gate is open. A non-dry run at time \<open>T + I - 1\<close> is skipped
  and never asks the registry; at \<open>T + I\<close> or later, with no prior timestamp or
  with an interval that is not positive, it proceeds (it is not skipped, and asks the
  registry whenever the package URL can be built); a dry run never enters the
  interval gate.
\<close>

theorem C4_interval_gate:
  assumes ci: "\<not> (o_skipOnCI (default_options opts) \<and> isCI w)"
    and T: "fst (readLastCheckTimestamp w (name opts) s) = Inr T"
    and I: "I = o_updateCheckIntervalMs (default_options opts)"
    and url: "buildPackageUrl w (name opts) (o_registryBase (default_options opts)) = Inr url"
  shows
    "(dryRun opts \<noteq> Some True \<and> 0 < I \<and> 0 < T \<and> clock s = T + I - 1 \<longrightarrow>
        fst (checkAndUpdate w opts s) = Inr SkippedInterval \<and>
        list_all (\<lambda>e. \<not> is_Fetch e) (emitted (checkAndUpdate w opts) s)) \<and>
     (dryRun opts \<noteq> Some True \<and> 0 < I \<and> 0 < T \<and> T + I \<le> clock s \<longrightarrow>
        fst (checkAndUpdate w opts s) \<noteq> Inr SkippedInterval \<and>
        Fetch url \<in> set (emitted (checkAndUpdate w opts) s)) \<and>
     (T \<le> 0 \<or> I \<le> 0 \<longrightarrow>
        fst (checkAndUpdate w opts s) \<noteq> Inr SkippedInterval \<and>
        Fetch url \<in> set (emitted (checkAndUpdate w opts) s)) \<and>
     (dryRun opts = Some True \<longrightarrow>
        fst (checkAndUpdate w opts s) \<noteq> Inr SkippedInterval \<and>
        Fetch url \<in> set (emitted (checkAndUpdate w opts) s) \<and>
        (\<forall>s'. checkAndUpdate_interval w (default_options opts) (Logger (debug opts)) s' = (Inr False, s')))"
proof -
  note iff = skipped_iff [OF ci T]
  note nf = skipped_no_fetch [OF ci T]
  note fe = not_skipped_fetches [OF ci T _ url]
  have d: "dryRun opts = Some True \<Longrightarrow> o_dryRun (default_options opts)"
    by (simp add: default_options_def)
  show ?thesis
    unfolding I
  proof (intro conjI impI)
    assume a: "dryRun opts \<noteq> Some True \<and> 0 < o_updateCheckIntervalMs (default_options opts) \<and> 0 < T \<and>
       clock s = T + o_updateCheckIntervalMs (default_options opts) - 1"
    then have b: "dryRun opts \<noteq> Some True \<and> 0 < o_updateCheckIntervalMs (default_options opts) \<and> 0 < T \<and>
          clock s - T < o_updateCheckIntervalMs (default_options opts)" by simp
    from b iff show "fst (checkAndUpdate w opts s) = Inr SkippedInterval" by simp
    from nf [OF b] show "list_all (\<lambda>e. \<not> is_Fetch e) (emitted (checkAndUpdate w opts) s)" .
  next
    assume a: "dryRun opts \<noteq> Some True \<and> 0 < o_updateCheckIntervalMs (default_options opts) \<and> 0 < T \<and>
       T + o_updateCheckIntervalMs (default_options opts) \<le> clock s"
    then have nb: "\<not> (dryRun opts \<noteq> Some True \<and> 0 < o_updateCheckIntervalMs (default_options opts) \<and> 0 < T \<and>
          clock s - T < o_updateCheckIntervalMs (default_options opts))" by simp
    from nb iff show "fst (checkAndUpdate w opts s) \<noteq> Inr SkippedInterval" by simp
    from fe [OF nb] show "Fetch url \<in> set (emitted (checkAndUpdate w opts) s)" .
  next
    assume a: "T \<le> 0 \<or> o_updateCheckIntervalMs (default_options opts) \<le> 0"
    then have nb: "\<not> (dryRun opts \<noteq> Some True \<and> 0 < o_updateCheckIntervalMs (default_options opts) \<and> 0 < T \<and>
          clock s - T < o_updateCheckIntervalMs (default_options opts))" by auto
    from nb iff show "fst (checkAndUpdate w opts s) \<noteq> Inr SkippedInterval" by simp
    from fe [OF nb] show "Fetch url \<in> set (emitted (checkAndUpdate w opts) s)" .
  next
    assume a: "dryRun opts = Some True"
    then have nb: "\<not> (dryRun opts \<noteq> Some True \<and> 0 < o_updateCheckIntervalMs (default_options opts) \<and> 0 < T \<and>
          clock s - T < o_updateCheckIntervalMs (default_options opts))" by simp
    from nb iff show "fst (checkAndUpdate w opts s) \<noteq> Inr SkippedInterval" by simp
    from fe [OF nb] show "Fetch url \<in> set (emitted (checkAndUpdate w opts) s)" .
    from d [OF a] show "\<forall>s'. checkAndUpdate_interval w (default_options opts) (Logger (debug opts)) s' = (Inr False, s')"
      by (simp add: interval_dry_run)
  qed
qed

lemma ex_recorded:
  "fst (readLastCheckTimestamp ex_world ''my-cli'' (ex_state_checked t)) = Inr 1000"
  by (simp add: readLastCheckTimestamp_def getTimestampFilePath_def existsSync_def readFileSync_def
      lookup_def io_defs ex_world_def ex_state_checked_def)

theorem C4_interval_gate_witness:
  "fst (checkAndUpdate ex_world ex_opts (ex_state_checked 21600999)) = Inr SkippedInterval \<and>
   list_all (\<lambda>e. \<not> is_Fetch e) (emitted (checkAndUpdate ex_world ex_opts) (ex_state_checked 21600999)) \<and>
   fst (checkAndUpdate ex_world ex_opts (ex_state_checked 21601000)) \<noteq> Inr SkippedInterval \<and>
   Fetch ''https://registry.npmjs.org/my-cli'' \<in>
     set (emitted (checkAndUpdate ex_world ex_opts) (ex_state_checked 21601000))"
proof -
  have ci: "\<not> (o_skipOnCI (default_options ex_opts) \<and> isCI ex_world)"
    by (simp add: isCI_def truthy_def ex_world_def)
  have T: "fst (readLastCheckTimestamp ex_world (name ex_opts) (ex_state_checked t)) = Inr 1000" for t
    using ex_recorded [of t] by (simp add: ex_opts_def)
  have I: "(21600000::int) = o_updateCheckIntervalMs (default_options ex_opts)"
    by (simp add: default_options_def ex_opts_def)
  have url: "buildPackageUrl ex_world (name ex_opts) (o_registryBase (default_options ex_opts)) =
      Inr ''https://registry.npmjs.org/my-cli''"
    by (simp add: buildPackageUrl_def default_options_def ex_opts_def ex_world_def)
  have dry: "dryRun ex_opts \<noteq> Some True" by (simp add: ex_opts_def)
  have c1: "clock (ex_state_checked 21600999) = 1000 + 21600000 - 1"
    and c2: "(1000::int) + 21600000 \<le> clock (ex_state_checked 21601000)"
    by (simp_all add: ex_state_checked_def)
  from C4_interval_gate [OF ci T I url, of 21600999] dry c1
  have "fst (checkAndUpdate ex_world ex_opts (ex_state_checked 21600999)) = Inr SkippedInterval \<and>
     list_all (\<lambda>e. \<not> is_Fetch e) (emitted (checkAndUpdate ex_world ex_opts) (ex_state_checked 21600999))"
    by simp
  moreover from C4_interval_gate [OF ci T I url, of 21601000] dry c2
  have "fst (checkAndUpdate ex_world ex_opts (ex_state_checked 21601000)) \<noteq> Inr SkippedInterval \<and>
     Fetch ''https://registry.npmjs.org/my-cli'' \<in>
       set (emitted (checkAndUpdate ex_world ex_opts) (ex_state_checked 21601000))"
    by simp
  ultimately show ?thesis by simp
qed

subsection \<open>The version decision (claim C1)\<close>

lemma fetchPackageMetadata_value:
  assumes "buildPackageUrl w n r = Inr url" and "fetch w url = Inr resp" and "rs_ok resp"
    and "rs_json resp = Inr md"
  shows "fst (fetchPackageMetadata w n r lg s) = Inr md"
  using assms
  by (cases lg)
     (simp add: fetchPackageMetadata_def http_fetch_def try_catch_def io_seq_def io_bind_def emit_def
      io_return_def)

lemma isUpdateNeeded_value:
  "fst (isUpdateNeeded w c l lg s) =
     Inr (semver_valid w c \<and> semver_valid w l \<and> semver_gt w l c = Inr True)"
  by (cases lg; cases "semver_gt w l c")
     (auto simp: isUpdateNeeded_def try_catch_def io_seq_def io_bind_def emit_def io_return_def
      io_throw_def)

lemma trans_refl_decided [simp]: "trans_refl decided"
  by (simp add: decided_def)

lemma decided_interval: "steps decided (checkAndUpdate_interval w opt lg)"
  unfolding decided_def checkAndUpdate_interval_def readLastCheckTimestamp_def
  by (intro steps_both steps_intros) simp_all

lemma decided_writeCurrentTimestamp: "steps decided (writeCurrentTimestamp w n)"
  unfolding decided_def writeCurrentTimestamp_def
  by (intro steps_both steps_intros) simp_all

lemma decided_fetchPackageMetadata: "steps decided (fetchPackageMetadata w n r lg)"
  unfolding decided_def fetchPackageMetadata_def http_fetch_def
  by (intro steps_both steps_intros) simp_all

lemma decided_isUpdateNeeded: "steps decided (isUpdateNeeded w c l lg)"
  unfolding decided_def isUpdateNeeded_def
  by (intro steps_both steps_intros) simp_all

lemma decided_logger_debug: "steps decided (logger_debug lg a)"
  unfolding decided_def by (intro steps_both steps_intros) simp_all

lemma decided_entered: "grows decision_event s (entered opts s)"
  by (rule grows_entered) simp

lemma decidedI: "steps decided m \<Longrightarrow> m s = (r, s') \<Longrightarrow> decided s s'"
  by (drule stepsD [where s = s]) simp

lemma decided_trans: "decided a b \<Longrightarrow> decided b c \<Longrightarrow> decided a c"
  using trans_refl_decided by (blast intro: trans_reflD2)

text \<open>
  With the CI gate open, the interval gate passed and the registry's answer \<open>md\<close>
  naming \<open>latest\<close> for the channel, the outer \<open>try\<close> block reaches the version decision
  in a state \<open>s'\<close>, and goes on from there as \<open>checkAndUpdate_policy\<close> or returns.
\<close>

lemma try_reaches_decision:
  assumes ci: "\<not> (o_skipOnCI opt \<and> isCI w)"
    and ns: "fst (checkAndUpdate_try w opt lg s) \<noteq> Inr SkippedInterval"
    and url: "buildPackageUrl w (o_name opt) (o_registryBase opt) = Inr url"
    and resp: "fetch w url = Inr resp" "rs_ok resp" "rs_json resp = Inr (Some md)"
    and tags: "dist_tags md = Some tags" "tags (o_channel opt) = Some latest" "latest \<noteq> []"
  obtains s' where "decided s s'"
    and "checkAndUpdate_try w opt lg s =
      (if semver_valid w (o_version opt) \<and> semver_valid w latest \<and>
          semver_gt w latest (o_version opt) = Inr True
       then checkAndUpdate_policy w opt lg md latest s'
       else (Inr NoUpdateNeeded, s'))"
proof -
  let ?c = "semver_valid w (o_version opt) \<and> semver_valid w latest \<and>
          semver_gt w latest (o_version opt) = Inr True"
  from ci have ci': "(o_skipOnCI opt \<and> isCI w) = False" by simp
  have "nothrow (checkAndUpdate_interval w opt lg)"
    unfolding checkAndUpdate_interval_def by (intro nothrow_intros)
  then obtain b s1 where i: "checkAndUpdate_interval w opt lg s = (Inr b, s1)" by (rule nothrowE)
  have d1: "decided s s1" by (rule decidedI [where m = "checkAndUpdate_interval w opt lg", OF decided_interval i])
  have nb: "\<not> b"
  proof
    assume b
    with i have "checkAndUpdate_try w opt lg s = (Inr SkippedInterval, s1)"
      by (simp only: checkAndUpdate_try_def ci' if_False) (simp add: io_bind_def io_return_def)
    with ns show False by simp
  qed
  with i have t1: "checkAndUpdate_try w opt lg s = checkAndUpdate_check w opt lg s1"
    by (simp only: checkAndUpdate_try_def ci' if_False) (simp add: io_bind_def io_return_def)
  let ?ts = "if \<not> o_dryRun opt then writeCurrentTimestamp w (o_name opt) else io_return ()"
  have "nothrow ?ts" by (intro nothrow_intros)
  then obtain u s2 where ts: "?ts s1 = (Inr u, s2)" by (rule nothrowE)
  have "steps decided ?ts" by (intro steps_intros decided_writeCurrentTimestamp) simp
  then have d2: "decided s1 s2" using ts by (rule decidedI [where m = "?ts"])
  obtain r3 s3 where f: "fetchPackageMetadata w (o_name opt) (o_registryBase opt) lg s2 = (r3, s3)"
    by (cases "fetchPackageMetadata w (o_name opt) (o_registryBase opt) lg s2")
  with fetchPackageMetadata_value [OF url resp, of lg s2]
  have f': "fetchPackageMetadata w (o_name opt) (o_registryBase opt) lg s2 = (Inr (Some md), s3)" by simp
  have d3: "decided s2 s3" by (rule decidedI [where m = "fetchPackageMetadata w (o_name opt) (o_registryBase opt) lg", OF decided_fetchPackageMetadata f])
  have t2: "checkAndUpdate_check w opt lg s1 = checkAndUpdate_version w opt lg md s3"
    by (simp add: checkAndUpdate_check_def io_seq_def io_bind_def ts f')
  let ?dbg = "logger_debug lg [Str ''Current version: '', Str (o_version opt), Str '', Latest version: '', Str latest]"
  have "nothrow ?dbg" by (rule nothrow_logger_debug)
  then obtain u4 s4 where "?dbg s3 = (Inr u4, s4)" by (rule nothrowE)
  then have l4: "?dbg s3 = (Inr (), s4)" by simp
  have d4: "decided s3 s4" by (rule decidedI [where m = "?dbg", OF decided_logger_debug l4])
  obtain r5 s5 where n: "isUpdateNeeded w (o_version opt) latest lg s4 = (r5, s5)"
    by (cases "isUpdateNeeded w (o_version opt) latest lg s4")
  with isUpdateNeeded_value [of w "o_version opt" latest lg s4]
  have n': "isUpdateNeeded w (o_version opt) latest lg s4 = (Inr ?c, s5)" by simp
  have d5: "decided s4 s5" by (rule decidedI [where m = "isUpdateNeeded w (o_version opt) latest lg", OF decided_isUpdateNeeded n])
  let ?dbg2 = "logger_debug lg [Str ''No update needed, already at the latest version'']"
  have "nothrow ?dbg2" by (rule nothrow_logger_debug)
  then obtain u6 s6 where "?dbg2 s5 = (Inr u6, s6)" by (rule nothrowE)
  then have l6: "?dbg2 s5 = (Inr (), s6)" by simp
  have d6: "decided s5 s6" by (rule decidedI [where m = "?dbg2", OF decided_logger_debug l6])
  have t3: "checkAndUpdate_version w opt lg md s3 =
      (if ?c then checkAndUpdate_policy w opt lg md latest s5 else (Inr NoUpdateNeeded, s6))"
    using tags
    by (simp add: checkAndUpdate_version_def truthy_def io_seq_def io_bind_def l4 n' l6 io_return_def)
  have a5: "decided s s5" using d1 d2 d3 d4 d5 by (blast intro: decided_trans)
  have a6: "decided s s6" using a5 d6 by (blast intro: decided_trans)
  show thesis
  proof (cases ?c)
    case True
    with t1 t2 t3 a5 that [of s5] show thesis by simp
  next
    case False
    with t1 t2 t3 a6 that [of s6] show thesis by simp
  qed
qed


text \<open>
  Claim C1. The run has reached the version decision: the CI gate is open, the
  interval gate did not skip, and the registry answered with metadata whose
  dist-tags name \<open>latest\<close> for the channel. Then \<open>checkAndUpdate\<close> ends at "no update
  needed" exactly when not (both strings are valid and \<open>semver.gt(latest, current)\<close> is
  true); when they are, the run goes on as the policy stage (\<open>extractVersionInfo\<close> and
  what follows); when they are not, no update occurs: the run has emitted nothing but
  logger lines, requests and the calls of the timestamp store.
\<close>

theorem C1_update_iff_newer:
  assumes ci: "\<not> (o_skipOnCI (default_options opts) \<and> isCI w)"
    and ns: "fst (checkAndUpdate w opts s) \<noteq> Inr SkippedInterval"
    and url: "buildPackageUrl w (name opts) (o_registryBase (default_options opts)) = Inr url"
    and resp: "fetch w url = Inr resp" "rs_ok resp" "rs_json resp = Inr (Some md)"
    and tags: "dist_tags md = Some tags" "tags (o_channel (default_options opts)) = Some latest"
      "latest \<noteq> []"
  shows
    "((fst (checkAndUpdate w opts s) = Inr NoUpdateNeeded) =
        (\<not> (semver_valid w (version opts) \<and> semver_valid w latest \<and>
            semver_gt w latest (version opts) = Inr True))) \<and>
     (semver_valid w (version opts) \<and> semver_valid w latest \<and>
        semver_gt w latest (version opts) = Inr True \<longrightarrow>
        (\<exists>s'. checkAndUpdate_try w (default_options opts) (Logger (debug opts)) (entered opts s) =
           checkAndUpdate_policy w (default_options opts) (Logger (debug opts)) md latest s')) \<and>
     (\<not> (semver_valid w (version opts) \<and> semver_valid w latest \<and>
          semver_gt w latest (version opts) = Inr True) \<longrightarrow>
        list_all decision_event (emitted (checkAndUpdate w opts) s))"
proof -
  let ?opt = "default_options opts" and ?lg = "Logger (debug opts)"
  let ?c = "semver_valid w (version opts) \<and> semver_valid w latest \<and>
            semver_gt w latest (version opts) = Inr True"
  have v: "o_version ?opt = version opts" and n: "o_name ?opt = name opts"
    by (simp_all add: default_options_def)
  have ns': "fst (checkAndUpdate_try w ?opt ?lg (entered opts s)) \<noteq> Inr SkippedInterval"
    using ns unfolding checkAndUpdate_fst by (auto split: sum.splits)
  from try_reaches_decision [OF ci ns' url [folded n] resp tags]
  obtain s' where d: "decided (entered opts s) s'"
    and t: "checkAndUpdate_try w ?opt ?lg (entered opts s) =
      (if ?c then checkAndUpdate_policy w ?opt ?lg md latest s' else (Inr NoUpdateNeeded, s'))"
    unfolding v by blast
  show ?thesis
  proof (cases ?c)
    case True
    with t have t': "checkAndUpdate_try w ?opt ?lg (entered opts s) =
        checkAndUpdate_policy w ?opt ?lg md latest s'" by simp
    have "fst (checkAndUpdate_policy w ?opt ?lg md latest s') \<noteq> Inr NoUpdateNeeded"
      using returns_policy [of w ?opt ?lg md latest] unfolding returns_in_def by fastforce
    with t' have "fst (checkAndUpdate w opts s) \<noteq> Inr NoUpdateNeeded"
      unfolding checkAndUpdate_fst by (auto split: sum.splits)
    with True t' show ?thesis by blast
  next
    case False
    with t have t': "checkAndUpdate_try w ?opt ?lg (entered opts s) = (Inr NoUpdateNeeded, s')" by simp
    from d have c: "cleanup s' = cleanup (entered opts s)" and g: "grows decision_event (entered opts s) s'"
      by (simp_all add: decided_def both_def keeps_def)
    from checkAndUpdate_run [OF t'] c have r: "checkAndUpdate w opts s = (Inr NoUpdateNeeded, s')" by simp
    from decided_entered g have "grows decision_event s s'"
      using trans_refl_grows [of decision_event] by (blast intro: trans_reflD2)
    with r have "list_all decision_event (emitted (checkAndUpdate w opts) s)"
      by (simp add: emitted_grows)
    with False r show ?thesis by auto
  qed
qed

lemma ex_not_recorded: "fst (readLastCheckTimestamp ex_world ''my-cli'' ex_state) = Inr 0"
  by (simp add: readLastCheckTimestamp_def getTimestampFilePath_def existsSync_def
      lookup_def io_defs ex_world_def ex_state_def)

theorem C1_update_iff_newer_witness:
  "fst (checkAndUpdate ex_world ex_opts ex_state) \<noteq> Inr NoUpdateNeeded \<and>
   fst (checkAndUpdate ex_world (ex_opts\<lparr>version := ''1.1.0''\<rparr>) ex_state) = Inr NoUpdateNeeded \<and>
   list_all decision_event (emitted (checkAndUpdate ex_world (ex_opts\<lparr>version := ''1.1.0''\<rparr>)) ex_state)"
proof -
  have ci: "\<not> (o_skipOnCI (default_options (ex_opts\<lparr>version := v\<rparr>)) \<and> isCI ex_world)" for v
    by (simp add: isCI_def truthy_def ex_world_def)
  have T: "fst (readLastCheckTimestamp ex_world (name (ex_opts\<lparr>version := v\<rparr>)) ex_state) = Inr 0" for v
    using ex_not_recorded by (simp add: ex_opts_def)
  have ns: "fst (checkAndUpdate ex_world (ex_opts\<lparr>version := v\<rparr>) ex_state) \<noteq> Inr SkippedInterval" for v
    using skipped_iff [OF ci T, of v] by simp
  have url: "buildPackageUrl ex_world (name (ex_opts\<lparr>version := v\<rparr>))
      (o_registryBase (default_options (ex_opts\<lparr>version := v\<rparr>))) = Inr ''https://registry.npmjs.org/my-cli''" for v
    by (simp add: buildPackageUrl_def default_options_def ex_opts_def ex_world_def)
  let ?resp = "\<lparr>rs_ok = True, rs_status = 200, rs_statusText = ''OK'',
                     rs_json = Inr (Some ex_metadata), rs_body = None\<rparr>"
  have resp: "fetch ex_world ''https://registry.npmjs.org/my-cli'' = Inr ?resp" "rs_ok ?resp"
      "rs_json ?resp = Inr (Some ex_metadata)"
    by (simp_all add: ex_world_def)
  have tags: "dist_tags ex_metadata = Some [''latest'' \<mapsto> ''1.1.0'']"
      "[''latest'' \<mapsto> ''1.1.0''] (o_channel (default_options (ex_opts\<lparr>version := v\<rparr>))) = Some ''1.1.0''"
      "''1.1.0'' \<noteq> []" for v
    by (simp_all add: ex_metadata_def default_options_def ex_opts_def)
  have e: "ex_opts\<lparr>version := ''1.0.0''\<rparr> = ex_opts" by (simp add: ex_opts_def)
  from C1_update_iff_newer [OF ci ns url resp tags, of "''1.0.0''"]
  have "fst (checkAndUpdate ex_world ex_opts ex_state) \<noteq> Inr NoUpdateNeeded"
    unfolding e by (simp add: ex_world_def ex_opts_def)
  moreover from C1_update_iff_newer [OF ci ns url resp tags, of "''1.1.0''"]
  have "fst (checkAndUpdate ex_world (ex_opts\<lparr>version := ''1.1.0''\<rparr>) ex_state) = Inr NoUpdateNeeded \<and>
     list_all decision_event (emitted (checkAndUpdate ex_world (ex_opts\<lparr>version := ''1.1.0''\<rparr>)) ex_state)"
    by (simp add: ex_world_def ex_opts_def)
  ultimately show ?thesis by simp
qed

subsection \<open>Nothing escapes \<open>checkAndUpdate\<close> (claim C3)\<close>

lemma evidence_mono: "evidence x evs \<Longrightarrow> evidence x (a @ evs @ b)"
  by (cases x) auto

lemma with_return: "evidence x [] \<Longrightarrow> returns_with (io_return x)"
  by (simp add: returns_with_def io_return_def)

lemma with_throw: "returns_with (io_throw e)"
  by (simp add: returns_with_def io_throw_def)

lemma with_bind:
  assumes m: "steps (grows any_event) m" and f: "\<And>y. returns_with (f y)"
  shows "returns_with (io_bind m f)"
  unfolding returns_with_def
proof (intro allI impI)
  fix s x
  assume r: "fst (io_bind m f s) = Inr x"
  obtain r1 s1 where ms: "m s = (r1, s1)" by (cases "m s")
  from stepsD [OF m, of s] ms obtain e1 where e1: "trace s1 = trace s @ e1"
    by (auto simp: grows_any)
  show "\<exists>evs. trace (snd (io_bind m f s)) = trace s @ evs \<and> evidence x evs"
  proof (cases r1)
    case (Inl e)
    with ms r show ?thesis by (simp add: io_bind_def)
  next
    case (Inr y)
    with ms r have "fst (f y s1) = Inr x" by (simp add: io_bind_def)
    with f [of y] obtain e2 where "trace (snd (f y s1)) = trace s1 @ e2" "evidence x e2"
      unfolding returns_with_def by blast
    with e1 evidence_mono [of x e2 e1 "[]"] ms Inr show ?thesis
      by (auto simp: io_bind_def)
  qed
qed

lemma with_seq: "steps (grows any_event) m \<Longrightarrow> returns_with n \<Longrightarrow> returns_with (io_seq m n)"
  by (simp add: io_seq_def with_bind)

lemma with_warn_return:
  "evidence x [ConsoleWarn (Str ''[upgear:warn]'' # a)] \<Longrightarrow> returns_with (io_seq (logger_warn lg a) (io_return x))"
  by (cases lg) (auto simp: returns_with_def io_seq_def io_bind_def emit_def io_return_def)

lemma with_try_catch:
  assumes m: "returns_with m" and g: "steps (grows any_event) m" and h: "\<And>e. returns_with (h e)"
  shows "returns_with (try_catch m h)"
  unfolding returns_with_def
proof (intro allI impI)
  fix s x
  assume r: "fst (try_catch m h s) = Inr x"
  obtain r1 s1 where ms: "m s = (r1, s1)" by (cases "m s")
  from stepsD [OF g, of s] ms obtain e1 where e1: "trace s1 = trace s @ e1"
    by (auto simp: grows_any)
  show "\<exists>evs. trace (snd (try_catch m h s)) = trace s @ evs \<and> evidence x evs"
  proof (cases r1)
    case (Inr y)
    with ms r have "fst (m s) = Inr x" by (simp add: try_catch_def)
    with m obtain e2 where "trace (snd (m s)) = trace s @ e2" "evidence x e2"
      unfolding returns_with_def by blast
    with ms Inr show ?thesis by (auto simp: try_catch_def)
  next
    case (Inl e)
    with ms r have "fst (h e s1) = Inr x" by (simp add: try_catch_def)
    with h [of e] obtain e2 where "trace (snd (h e s1)) = trace s1 @ e2" "evidence x e2"
      unfolding returns_with_def by blast
    with e1 evidence_mono [of x e2 e1 "[]"] ms Inl show ?thesis
      by (auto simp: try_catch_def)
  qed
qed

lemma with_try_finally:
  assumes m: "returns_with m" and f: "steps (grows any_event) fin"
  shows "returns_with (try_finally m fin)"
  unfolding returns_with_def
proof (intro allI impI)
  fix s x
  assume r: "fst (try_finally m fin s) = Inr x"
  obtain r1 s1 where ms: "m s = (r1, s1)" by (cases "m s")
  obtain r2 s2 where fs: "fin s1 = (r2, s2)" by (cases "fin s1")
  from stepsD [OF f, of s1] fs obtain e2 where e2: "trace s2 = trace s1 @ e2"
    by (auto simp: grows_any)
  from r ms fs have x: "r1 = Inr x" by (cases r2) (simp_all add: try_finally_def)
  with m ms obtain e1 where "trace s1 = trace s @ e1" "evidence x e1"
    unfolding returns_with_def by (metis fst_conv snd_conv)
  with e2 evidence_mono [of x e1 "[]" e2] ms fs show
    "\<exists>evs. trace (snd (try_finally m fin s)) = trace s @ evs \<and> evidence x evs"
    by (cases r2) (auto simp: try_finally_def)
qed

lemma with_if: "(b \<Longrightarrow> returns_with m) \<Longrightarrow> (\<not> b \<Longrightarrow> returns_with n) \<Longrightarrow> returns_with (if b then m else n)"
  by simp

lemma with_case_option:
  "(x = None \<Longrightarrow> returns_with a) \<Longrightarrow> (\<And>y. x = Some y \<Longrightarrow> returns_with (b y)) \<Longrightarrow>
   returns_with (case x of None \<Rightarrow> a | Some y \<Rightarrow> b y)"
  by (cases x) simp_all

lemmas with_intros = with_warn_return with_return with_throw with_seq with_bind with_try_catch
  with_try_finally with_if with_case_option

lemma with_apply: "returns_with (checkAndUpdate_apply w opt lg vi)"
  unfolding checkAndUpdate_apply_def
  by (intro with_intros grows_cleanupTemporaryFiles_any grows_update_any steps_intros)
     (simp_all add: createTempPaths_def, (intro steps_intros; simp)+)


lemma with_policy: "returns_with (checkAndUpdate_policy w opt lg md lv)"
  unfolding checkAndUpdate_policy_def
  by (intro with_intros with_apply grows_extractVersionInfo_any grows_displayUpdateNotification_any
      steps_intros) simp_all

lemma with_version: "returns_with (checkAndUpdate_version w opt lg md)"
  unfolding checkAndUpdate_version_def
  by (intro with_intros with_policy grows_isUpdateNeeded_any steps_intros) simp_all

lemma with_check: "returns_with (checkAndUpdate_check w opt lg)"
  unfolding checkAndUpdate_check_def
  by (intro with_intros with_version grows_fetchPackageMetadata_any grows_writeCurrentTimestamp_any
      steps_intros) simp_all

lemma with_try: "returns_with (checkAndUpdate_try w opt lg)"
  unfolding checkAndUpdate_try_def
  by (intro with_intros with_check grows_interval_any steps_intros) simp_all

lemma with_checkAndUpdate: "returns_with (checkAndUpdate w opts)"
  unfolding checkAndUpdate_def
  by (intro with_intros with_try grows_try_any grows_cleanupTemporaryFiles_any steps_intros) simp_all

subsection \<open>Backup and replace keep going (claim C9)\<close>

lemma existsSync_run:
  "existsSync p s = (Inr (lookup p (fs s) \<noteq> None), s\<lparr>trace := trace s @ [Sys (ExistsSync p)]\<rparr>)"
  by (simp add: existsSync_def io_seq_def io_bind_def emit_def get_fs_def io_return_def)

lemma grows_backupFiles_try_any: "steps (grows any_event) (backupFiles_try w p b lg)"
  unfolding backupFiles_try_def by (intro grows_any_intros) simp_all

lemma grows_copyUpdatedFiles_try_any: "steps (grows any_event) (copyUpdatedFiles_try w p b lg)"
  unfolding copyUpdatedFiles_try_def by (intro grows_any_intros) simp_all

text \<open>A loop whose body never throws and starts with a call \<open>c x\<close> makes these calls in order.\<close>

lemma for_each_visits:
  assumes n: "\<And>x. nothrow (f x)"
    and v: "\<And>x s. \<exists>evs. trace (snd (f x s)) = trace s @ c x # evs"
  shows "\<exists>s' evs. for_each f xs s = (Inr (), s') \<and> trace s' = trace s @ evs \<and> subseq (map c xs) evs"
proof (induction xs arbitrary: s)
  case Nil
  show ?case by (simp add: io_return_def)
next
  case (Cons x xs)
  from n [of x] obtain u s1 where r: "f x s = (Inr u, s1)" by (rule nothrowE)
  from v [of x s] r obtain e1 where e1: "trace s1 = trace s @ c x # e1" by auto
  from Cons.IH [of s1] obtain s2 e2 where
    2: "for_each f xs s1 = (Inr (), s2)" "trace s2 = trace s1 @ e2" "subseq (map c xs) e2" by blast
  have "subseq (map c xs) (e1 @ e2)" using 2(3) by (rule list_emb_append2)
  then have "subseq (map c (x # xs)) (c x # e1 @ e2)" by simp
  with r e1 2 show ?case by (simp add: io_seq_def io_bind_def)
qed

lemma backupFiles_step_first:
  "\<exists>evs. trace (snd (backupFiles_step w d lg dry f s)) = trace s @ Sys (ExistsSync (d @ f)) # evs"
proof -
  let ?k = "\<lambda>ex. if \<not> ex
       then logger_debug lg [Str ''Skipping backup of non-existent file: '', Pth (d @ f)]
       else if dry
       then logger_info lg [Str ''[DRY RUN] Would back up '', Pth (d @ f), Str '' to '', Pth (bak (d @ f))]
       else try_catch (backupFiles_try w (d @ f) (bak (d @ f)) lg)
              (\<lambda>error. logger_warn lg [Str ''Error backing up '', Pth (d @ f), Str '':'', Exn error])"
  have "steps (grows any_event) (?k ex)" for ex
    by (intro grows_any_intros grows_backupFiles_try_any) simp_all
  from stepsD [OF this] obtain evs where
    "trace (snd (?k (lookup (d @ f) (fs s) \<noteq> None) (s\<lparr>trace := trace s @ [Sys (ExistsSync (d @ f))]\<rparr>))) =
       trace (s\<lparr>trace := trace s @ [Sys (ExistsSync (d @ f))]\<rparr>) @ evs"
    unfolding grows_any by blast
  then show ?thesis
    by (simp add: backupFiles_step_def io_bind_def existsSync_run)
qed

lemma copyUpdatedFiles_step_first:
  "\<exists>evs. trace (snd (copyUpdatedFiles_step w sb d lg dry f s)) = trace s @ Sys (ExistsSync (sb @ f)) # evs"
proof -
  let ?k = "\<lambda>ex. if \<not> ex
       then logger_warn lg [Str ''Source file not found in package: '', Pth (sb @ f)]
       else if dry
       then logger_info lg [Str ''[DRY RUN] Would copy '', Pth (sb @ f), Str '' to '', Pth (d @ f)]
       else try_catch (copyUpdatedFiles_try w (sb @ f) (d @ f) lg)
              (\<lambda>error. logger_warn lg
                   [Str ''Error copying '', Pth (sb @ f), Str '' to '', Pth (d @ f), Str '':'', Exn error])"
  have "steps (grows any_event) (?k ex)" for ex
    by (intro grows_any_intros grows_copyUpdatedFiles_try_any) simp_all
  from stepsD [OF this] obtain evs where
    "trace (snd (?k (lookup (sb @ f) (fs s) \<noteq> None) (s\<lparr>trace := trace s @ [Sys (ExistsSync (sb @ f))]\<rparr>))) =
       trace (s\<lparr>trace := trace s @ [Sys (ExistsSync (sb @ f))]\<rparr>) @ evs"
    unfolding grows_any by blast
  then show ?thesis
    by (simp add: copyUpdatedFiles_step_def io_bind_def existsSync_run)
qed

lemma backup_loop:
  "\<exists>s' evs. for_each (backupFiles_step w d lg dry) fl s = (Inr (), s') \<and> trace s' = trace s @ evs \<and>
     subseq (map (\<lambda>f. Sys (ExistsSync (d @ f))) fl) evs"
  by (rule for_each_visits [OF nothrow_backupFiles_step backupFiles_step_first])

lemma copy_loop:
  "\<exists>s' evs. for_each (copyUpdatedFiles_step w sb d lg dry) fl s = (Inr (), s') \<and> trace s' = trace s @ evs \<and>
     subseq (map (\<lambda>f. Sys (ExistsSync (sb @ f))) fl) evs"
  by (rule for_each_visits [OF nothrow_copyUpdatedFiles_step copyUpdatedFiles_step_first])


lemma emitted_run: "trace (snd (m s)) = trace s @ evs \<Longrightarrow> emitted m s = evs"
  by (simp add: emitted_def)

lemma backupFiles_visits:
  "\<exists>s'. backupFiles w fl d lg dry s = (Inr (), s') \<and>
     subseq (map (\<lambda>f. Sys (ExistsSync (d @ f))) fl) (emitted (backupFiles w fl d lg dry) s)"
proof -
  obtain dbg where lg: "lg = Logger dbg" by (cases lg)
  define e1 where "e1 = (if dbg then [ConsoleLog [Str ''[upgear:debug]'',
      Str ''Starting file backup process for '', Num (int (length fl)), Str '' files'']] else [])"
  define e3 where "e3 = (if dbg then [ConsoleLog [Str ''[upgear:debug]'',
      Str ''File backup process completed'']] else [])"
  from backup_loop [of w d lg dry fl "s\<lparr>trace := trace s @ e1\<rparr>"] obtain s2 evs where
    2: "for_each (backupFiles_step w d lg dry) fl (s\<lparr>trace := trace s @ e1\<rparr>) = (Inr (), s2)"
      "trace s2 = trace s @ e1 @ evs"
      "subseq (map (\<lambda>f. Sys (ExistsSync (d @ f))) fl) evs" by auto
  have r: "backupFiles w fl d lg dry s = (Inr (), s2\<lparr>trace := trace s2 @ e3\<rparr>)"
    using 2(1) unfolding lg e1_def e3_def
    by (cases dbg) (simp_all add: backupFiles_def io_seq_def io_bind_def emit_def io_return_def)
  have "subseq (map (\<lambda>f. Sys (ExistsSync (d @ f))) fl) (evs @ e3)"
    using 2(3) by (rule list_emb_prefix)
  then have "subseq (map (\<lambda>f. Sys (ExistsSync (d @ f))) fl) (e1 @ evs @ e3)"
    by (rule list_emb_append2)
  moreover have "emitted (backupFiles w fl d lg dry) s = e1 @ evs @ e3"
    by (rule emitted_run) (simp add: r 2(2))
  ultimately show ?thesis using r by simp
qed

lemma copyUpdatedFiles_sourceBase_run:
  assumes "\<not> faulty w (StatSync (ed @ [''package'']))"
  shows "\<exists>s1 evs. copyUpdatedFiles_sourceBase w ed lg s =
      (Inr (if is_dir (lookup (ed @ [''package'']) (fs s)) then ed @ [''package''] else ed), s1) \<and>
      trace s1 = trace s @ evs"
proof -
  obtain dbg where lg: "lg = Logger dbg" by (cases lg)
  show ?thesis using assms
    by (simp add: copyUpdatedFiles_sourceBase_def lg existsSync_run statSync_isDirectory_def sys_def
        io_seq_def io_bind_def emit_def io_return_def io_throw_def get_fs_def is_dir_def
        split: option.splits)
qed

lemma copyUpdatedFiles_visits_root:
  assumes "\<not> faulty w (StatSync (ed @ [''package'']))"
    and sb: "sb = (if is_dir (lookup (ed @ [''package'']) (fs s)) then ed @ [''package''] else ed)"
  shows "\<exists>s'. copyUpdatedFiles w fl ed d lg dry s = (Inr (), s') \<and>
     subseq (map (\<lambda>f. Sys (ExistsSync (sb @ f))) fl) (emitted (copyUpdatedFiles w fl ed d lg dry) s)"
proof -
  obtain dbg where lg: "lg = Logger dbg" by (cases lg)
  define e1 where "e1 = (if dbg then [ConsoleLog [Str ''[upgear:debug]'',
      Str ''Starting file copy process for '', Num (int (length fl)), Str '' files'']] else [])"
  define e3 where "e3 = (if dbg then [ConsoleLog [Str ''[upgear:debug]'',
      Str ''File copy process completed'']] else [])"
  from copyUpdatedFiles_sourceBase_run [OF assms(1), of lg "s\<lparr>trace := trace s @ e1\<rparr>"]
  obtain s1 e2 where
    1: "copyUpdatedFiles_sourceBase w ed lg (s\<lparr>trace := trace s @ e1\<rparr>) = (Inr sb, s1)"
      "trace s1 = trace s @ e1 @ e2" by (auto simp add: sb)
  from copy_loop [of w sb d lg dry fl s1] obtain s2 evs where
    2: "for_each (copyUpdatedFiles_step w sb d lg dry) fl s1 = (Inr (), s2)"
      "trace s2 = trace s1 @ evs"
      "subseq (map (\<lambda>f. Sys (ExistsSync (sb @ f))) fl) evs" by auto
  have r: "copyUpdatedFiles w fl ed d lg dry s = (Inr (), s2\<lparr>trace := trace s2 @ e3\<rparr>)"
    using 1(1) 2(1) unfolding lg e1_def e3_def
    by (cases dbg) (simp_all add: copyUpdatedFiles_def io_seq_def io_bind_def emit_def io_return_def)
  have "subseq (map (\<lambda>f. Sys (ExistsSync (sb @ f))) fl) (evs @ e3)"
    using 2(3) by (rule list_emb_prefix)
  then have "subseq (map (\<lambda>f. Sys (ExistsSync (sb @ f))) fl) ((e1 @ e2) @ evs @ e3)"
    by (rule list_emb_append2)
  moreover have "emitted (copyUpdatedFiles w fl ed d lg dry) s = (e1 @ e2) @ evs @ e3"
    by (rule emitted_run) (simp add: r 2(2) 1(2))
  ultimately show ?thesis using r by simp
qed

lemma copyUpdatedFiles_visits:
  assumes "\<not> faulty w (StatSync (ed @ [''package'']))"
  shows "\<exists>sb s'. copyUpdatedFiles w fl ed d lg dry s = (Inr (), s') \<and>
     subseq (map (\<lambda>f. Sys (ExistsSync (sb @ f))) fl) (emitted (copyUpdatedFiles w fl ed d lg dry) s)"
  using copyUpdatedFiles_visits_root [OF assms refl, of fl d lg dry s] by blast

lemma backupFiles_step_failure:
  assumes "lookup (d @ f) (fs s) \<noteq> None"
    and "backupFiles_try w (d @ f) (bak (d @ f)) lg (s\<lparr>trace := trace s @ [Sys (ExistsSync (d @ f))]\<rparr>) = (Inl e, s1)"
  shows "backupFiles_step w d lg False f s =
     (Inr (), s1\<lparr>trace := trace s1 @
        [ConsoleWarn [Str ''[upgear:warn]'', Str ''Error backing up '', Pth (d @ f), Str '':'', Exn e]]\<rparr>)"
proof -
  obtain dbg where lg: "lg = Logger dbg" by (cases lg)
  show ?thesis using assms
    by (auto simp add: backupFiles_step_def existsSync_run io_bind_def try_catch_def lg emit_def)
qed

lemma copyUpdatedFiles_step_failure:
  assumes "lookup (sb @ f) (fs s) \<noteq> None"
    and "copyUpdatedFiles_try w (sb @ f) (d @ f) lg (s\<lparr>trace := trace s @ [Sys (ExistsSync (sb @ f))]\<rparr>) = (Inl e, s1)"
  shows "copyUpdatedFiles_step w sb d lg False f s =
     (Inr (), s1\<lparr>trace := trace s1 @
        [ConsoleWarn [Str ''[upgear:warn]'', Str ''Error copying '', Pth (sb @ f), Str '' to '',
           Pth (d @ f), Str '':'', Exn e]]\<rparr>)"
proof -
  obtain dbg where lg: "lg = Logger dbg" by (cases lg)
  show ?thesis using assms
    by (auto simp add: copyUpdatedFiles_step_def existsSync_run io_bind_def try_catch_def lg emit_def)
qed

text \<open>
  Claim C9, as amended. Whatever the world, the file list and the state:
  \<open>backupFiles\<close> returns normally and looks at every path of the list, in order (each
  visit starts with the \<open>existsSync\<close> of the path); the loop of \<open>copyUpdatedFiles\<close>
  does the same from any source root, and so does \<open>copyUpdatedFiles\<close> itself once the
  \<open>statSync\<close> that chooses the source root, which comes before the loop, has not
  failed. When the \<open>try\<close> block of one path throws \<open>e\<close>, the visit of that path returns
  normally in the state the block left, with one more line, the warning that carries
  \<open>e\<close>: nothing is restored and the loop goes on with the next path. What fails
  inside \<open>deleteDirRecursive\<close> (the removal of a backup directory left by an earlier
  update) does not leave it: \<open>deleteDirRecursive\<close> returns normally and prints nothing.
\<close>

theorem C9_path_failures_contained:
  "(\<exists>s'. backupFiles w fl d lg dry s = (Inr (), s') \<and>
      subseq (map (\<lambda>f. Sys (ExistsSync (d @ f))) fl) (emitted (backupFiles w fl d lg dry) s)) \<and>
   (\<exists>s'. for_each (copyUpdatedFiles_step w sb d lg dry) fl s = (Inr (), s') \<and>
      subseq (map (\<lambda>f. Sys (ExistsSync (sb @ f))) fl)
        (emitted (for_each (copyUpdatedFiles_step w sb d lg dry) fl) s)) \<and>
   (\<not> faulty w (StatSync (ed @ [''package''])) \<longrightarrow>
      (\<exists>sb' s'. copyUpdatedFiles w fl ed d lg dry s = (Inr (), s') \<and>
         subseq (map (\<lambda>f. Sys (ExistsSync (sb' @ f))) fl) (emitted (copyUpdatedFiles w fl ed d lg dry) s))) \<and>
   (\<forall>e s1. lookup (d @ f) (fs s) \<noteq> None \<and>
      backupFiles_try w (d @ f) (bak (d @ f)) lg (s\<lparr>trace := trace s @ [Sys (ExistsSync (d @ f))]\<rparr>) =
        (Inl e, s1) \<longrightarrow>
      backupFiles_step w d lg False f s =
        (Inr (), s1\<lparr>trace := trace s1 @
           [ConsoleWarn [Str ''[upgear:warn]'', Str ''Error backing up '', Pth (d @ f), Str '':'', Exn e]]\<rparr>)) \<and>
   (\<forall>e s1. lookup (sb @ f) (fs s) \<noteq> None \<and>
      copyUpdatedFiles_try w (sb @ f) (d @ f) lg (s\<lparr>trace := trace s @ [Sys (ExistsSync (sb @ f))]\<rparr>) =
        (Inl e, s1) \<longrightarrow>
      copyUpdatedFiles_step w sb d lg False f s =
        (Inr (), s1\<lparr>trace := trace s1 @
           [ConsoleWarn [Str ''[upgear:warn]'', Str ''Error copying '', Pth (sb @ f), Str '' to '',
              Pth (d @ f), Str '':'', Exn e]]\<rparr>)) \<and>
   (\<exists>s'. deleteDirRecursive w p s = (Inr (), s') \<and>
      list_all (\<lambda>e. \<not> is_console e) (emitted (deleteDirRecursive w p) s))"
proof (intro conjI allI impI)
  from nothrow_deleteDirRecursive obtain u s' where "deleteDirRecursive w p s = (Inr u, s')"
    by (rule nothrowE)
  moreover have "steps (grows (\<lambda>e. \<not> is_console e)) (deleteDirRecursive w p)"
    by (rule grows_deleteDirRecursive) simp_all
  then have "grows (\<lambda>e. \<not> is_console e) s (snd (deleteDirRecursive w p s))"
    by (rule stepsD)
  then have "list_all (\<lambda>e. \<not> is_console e) (emitted (deleteDirRecursive w p) s)"
    by (rule emitted_grows)
  ultimately show "\<exists>s'. deleteDirRecursive w p s = (Inr (), s') \<and>
      list_all (\<lambda>e. \<not> is_console e) (emitted (deleteDirRecursive w p) s)" by simp
next
  show "\<exists>s'. backupFiles w fl d lg dry s = (Inr (), s') \<and>
      subseq (map (\<lambda>f. Sys (ExistsSync (d @ f))) fl) (emitted (backupFiles w fl d lg dry) s)"
    by (rule backupFiles_visits)
next
  from copy_loop [of w sb d lg dry fl s] obtain s' evs where
    2: "for_each (copyUpdatedFiles_step w sb d lg dry) fl s = (Inr (), s')" "trace s' = trace s @ evs"
      "subseq (map (\<lambda>f. Sys (ExistsSync (sb @ f))) fl) evs" by blast
  have "emitted (for_each (copyUpdatedFiles_step w sb d lg dry) fl) s = evs"
    by (rule emitted_run) (simp add: 2)
  with 2 show "\<exists>s'. for_each (copyUpdatedFiles_step w sb d lg dry) fl s = (Inr (), s') \<and>
      subseq (map (\<lambda>f. Sys (ExistsSync (sb @ f))) fl)
        (emitted (for_each (copyUpdatedFiles_step w sb d lg dry) fl) s)" by simp
next
  assume "\<not> faulty w (StatSync (ed @ [''package'']))"
  then show "\<exists>sb' s'. copyUpdatedFiles w fl ed d lg dry s = (Inr (), s') \<and>
         subseq (map (\<lambda>f. Sys (ExistsSync (sb' @ f))) fl) (emitted (copyUpdatedFiles w fl ed d lg dry) s)"
    by (rule copyUpdatedFiles_visits)
next
  fix e s1
  assume "lookup (d @ f) (fs s) \<noteq> None \<and>
      backupFiles_try w (d @ f) (bak (d @ f)) lg (s\<lparr>trace := trace s @ [Sys (ExistsSync (d @ f))]\<rparr>) =
        (Inl e, s1)"
  then show "backupFiles_step w d lg False f s =
        (Inr (), s1\<lparr>trace := trace s1 @
           [ConsoleWarn [Str ''[upgear:warn]'', Str ''Error backing up '', Pth (d @ f), Str '':'', Exn e]]\<rparr>)"
    using backupFiles_step_failure by blast
next
  fix e s1
  assume "lookup (sb @ f) (fs s) \<noteq> None \<and>
      copyUpdatedFiles_try w (sb @ f) (d @ f) lg (s\<lparr>trace := trace s @ [Sys (ExistsSync (sb @ f))]\<rparr>) =
        (Inl e, s1)"
  then show "copyUpdatedFiles_step w sb d lg False f s =
        (Inr (), s1\<lparr>trace := trace s1 @
           [ConsoleWarn [Str ''[upgear:warn]'', Str ''Error copying '', Pth (sb @ f), Str '' to '',
              Pth (d @ f), Str '':'', Exn e]]\<rparr>)"
    using copyUpdatedFiles_step_failure by blast
qed

theorem C9_path_failures_contained_witness:
  "(\<exists>s'. backupFiles (ex_world_faulty [CopyFileSync [''app'', ''package.json''] [''app'', ''package.json.bak''],
       CopyFileSync [''app'', ''package.json''] [''out'', ''package.json'']])
       [[''dist''], [''package.json'']] [''app''] (Logger False) False ex_state = (Inr (), s')) \<and>
   ConsoleWarn [Str ''[upgear:warn]'', Str ''Error backing up '', Pth [''app'', ''package.json''], Str '':'',
       Exn (SystemError ''EIO'')]
     \<in> set (trace (snd (backupFiles_step
         (ex_world_faulty [CopyFileSync [''app'', ''package.json''] [''app'', ''package.json.bak''],
       CopyFileSync [''app'', ''package.json''] [''out'', ''package.json'']])
         [''app''] (Logger False) False [''package.json''] ex_state))) \<and>
   ConsoleWarn [Str ''[upgear:warn]'', Str ''Error copying '', Pth [''app'', ''package.json''], Str '' to '',
       Pth [''out'', ''package.json''], Str '':'', Exn (SystemError ''EIO'')]
     \<in> set (trace (snd (copyUpdatedFiles_step
         (ex_world_faulty [CopyFileSync [''app'', ''package.json''] [''app'', ''package.json.bak''],
       CopyFileSync [''app'', ''package.json''] [''out'', ''package.json'']])
         [''app''] [''out''] (Logger False) False [''package.json''] ex_state))) \<and>
   (\<exists>sb s'. copyUpdatedFiles (ex_world_faulty [CopyFileSync [''app'', ''package.json''] [''app'', ''package.json.bak''],
       CopyFileSync [''app'', ''package.json''] [''out'', ''package.json'']])
       [[''dist''], [''package.json'']] [''tmp''] [''app''] (Logger False) False ex_state = (Inr (), s') \<and>
      subseq (map (\<lambda>f. Sys (ExistsSync (sb @ f))) [[''dist''], [''package.json'']])
        (emitted (copyUpdatedFiles
           (ex_world_faulty [CopyFileSync [''app'', ''package.json''] [''app'', ''package.json.bak''],
       CopyFileSync [''app'', ''package.json''] [''out'', ''package.json'']])
           [[''dist''], [''package.json'']] [''tmp''] [''app''] (Logger False) False) ex_state))"
proof -
  let ?w = "ex_world_faulty [CopyFileSync [''app'', ''package.json''] [''app'', ''package.json.bak''],
       CopyFileSync [''app'', ''package.json''] [''out'', ''package.json'']]"
  let ?s0 = "ex_state\<lparr>trace := trace ex_state @ [Sys (ExistsSync ([''app''] @ [''package.json'']))]\<rparr>"
  have l: "lookup ([''app''] @ [''package.json'']) (fs ex_state) \<noteq> None"
    by (simp add: ex_state_def lookup_def)
  have "fst (backupFiles_try ?w ([''app''] @ [''package.json'']) (bak ([''app''] @ [''package.json'']))
           (Logger False) ?s0) = Inl (SystemError ''EIO'')"
    by (simp add: backupFiles_try_def bak_def ex_world_faulty_def ex_defs prim_defs io_defs)
  then obtain s1 where
    t: "backupFiles_try ?w ([''app''] @ [''package.json'']) (bak ([''app''] @ [''package.json'']))
           (Logger False) ?s0 = (Inl (SystemError ''EIO''), s1)"
    by (cases "backupFiles_try ?w ([''app''] @ [''package.json'']) (bak ([''app''] @ [''package.json'']))
           (Logger False) ?s0") simp
  have nf: "\<not> faulty ?w (StatSync ([''tmp''] @ [''package'']))"
    by (simp add: ex_world_faulty_def)
  note C = C9_path_failures_contained [where w = ?w and fl = "[[''dist''], [''package.json'']]" and d = "[''app'']"
      and lg = "Logger False" and dry = False and s = ex_state and sb = "[''tmp'']" and ed = "[''tmp'']"
      and f = "[''package.json'']"]
  from C have 1: "\<exists>s'. backupFiles ?w [[''dist''], [''package.json'']] [''app''] (Logger False) False ex_state = (Inr (), s')"
    by blast
  from C l t have "backupFiles_step ?w [''app''] (Logger False) False [''package.json''] ex_state =
        (Inr (), s1\<lparr>trace := trace s1 @
           [ConsoleWarn [Str ''[upgear:warn]'', Str ''Error backing up '', Pth ([''app''] @ [''package.json'']),
              Str '':'', Exn (SystemError ''EIO'')]]\<rparr>)"
    by blast
  then have 2: "ConsoleWarn [Str ''[upgear:warn]'', Str ''Error backing up '', Pth [''app'', ''package.json''], Str '':'',
       Exn (SystemError ''EIO'')]
     \<in> set (trace (snd (backupFiles_step ?w [''app''] (Logger False) False [''package.json''] ex_state)))"
    by simp
  from C nf have 3: "\<exists>sb s'. copyUpdatedFiles ?w [[''dist''], [''package.json'']] [''tmp''] [''app'']
         (Logger False) False ex_state = (Inr (), s') \<and>
      subseq (map (\<lambda>f. Sys (ExistsSync (sb @ f))) [[''dist''], [''package.json'']])
        (emitted (copyUpdatedFiles ?w [[''dist''], [''package.json'']] [''tmp''] [''app''] (Logger False) False)
           ex_state)"
    by blast
  have "fst (copyUpdatedFiles_try ?w ([''app''] @ [''package.json'']) ([''out''] @ [''package.json''])
           (Logger False) ?s0) = Inl (SystemError ''EIO'')"
    by (simp add: copyUpdatedFiles_try_def ex_world_faulty_def ex_defs prim_defs io_defs)
  then obtain s2 where
    t2: "copyUpdatedFiles_try ?w ([''app''] @ [''package.json'']) ([''out''] @ [''package.json''])
           (Logger False) ?s0 = (Inl (SystemError ''EIO''), s2)"
    by (cases "copyUpdatedFiles_try ?w ([''app''] @ [''package.json'']) ([''out''] @ [''package.json''])
           (Logger False) ?s0") simp
  note C' = C9_path_failures_contained [where w = ?w and fl = "[[''dist''], [''package.json'']]" and d = "[''out'']"
      and lg = "Logger False" and dry = False and s = ex_state and sb = "[''app'']" and ed = "[''tmp'']"
      and f = "[''package.json'']"]
  from C' l t2 have "copyUpdatedFiles_step ?w [''app''] [''out''] (Logger False) False [''package.json''] ex_state =
        (Inr (), s2\<lparr>trace := trace s2 @
           [ConsoleWarn [Str ''[upgear:warn]'', Str ''Error copying '', Pth ([''app''] @ [''package.json'']),
              Str '' to '', Pth ([''out''] @ [''package.json'']), Str '':'', Exn (SystemError ''EIO'')]]\<rparr>)"
    by blast
  then have 4: "ConsoleWarn [Str ''[upgear:warn]'', Str ''Error copying '', Pth [''app'', ''package.json''], Str '' to '',
       Pth [''out'', ''package.json''], Str '':'', Exn (SystemError ''EIO'')]
     \<in> set (trace (snd (copyUpdatedFiles_step ?w [''app''] [''out''] (Logger False) False [''package.json'']
         ex_state)))"
    by simp
  from 1 2 3 4 show ?thesis by blast
qed

text \<open>
  Claim C9 as stated fails for a failure inside \<open>deleteDirRecursive\<close>: when the
  backup directory \<open>/app/dist.bak\<close> of an earlier update holds a file that cannot be
  removed, \<open>backupFiles\<close> prints nothing at all, and the new backup is written into
  the old one, next to the file that stayed.
\<close>

theorem C9_silent_backup_failure_counterexample:
  "faulty (ex_world_faulty [UnlinkSync [''app'', ''dist.bak'', ''stale.js'']])
     (UnlinkSync [''app'', ''dist.bak'', ''stale.js'']) \<and>
   fst (backupFiles (ex_world_faulty [UnlinkSync [''app'', ''dist.bak'', ''stale.js'']]) [[''dist'']]
          [''app''] (Logger False) False ex_state_stale_backup) = Inr () \<and>
   Sys (UnlinkSync [''app'', ''dist.bak'', ''stale.js''])
     \<in> set (emitted
         (backupFiles (ex_world_faulty [UnlinkSync [''app'', ''dist.bak'', ''stale.js'']]) [[''dist'']]
            [''app''] (Logger False) False) ex_state_stale_backup) \<and>
   filter is_console
     (emitted
        (backupFiles (ex_world_faulty [UnlinkSync [''app'', ''dist.bak'', ''stale.js'']]) [[''dist'']]
           [''app''] (Logger False) False) ex_state_stale_backup) = [] \<and>
   lookup [''app'', ''dist.bak'']
     (fs (snd (backupFiles (ex_world_faulty [UnlinkSync [''app'', ''dist.bak'', ''stale.js'']]) [[''dist'']]
                 [''app''] (Logger False) False ex_state_stale_backup))) =
     Some (Dir [(''stale.js'', File ''older''), (''index.js'', File ''old'')])"
  by (simp add: emitted_def ex_world_faulty_def ex_state_stale_backup_def ex_world_def backupFiles_def
      backupFiles_step_def backupFiles_try_def bak_def prim_defs io_defs)

subsection \<open>The source root of the replace step (claim C8)\<close>

lemma copyUpdatedFiles_sourceBase_value:
  "fst (copyUpdatedFiles_sourceBase w ed lg s) =
     (if lookup (ed @ [''package'']) (fs s) = None then Inr ed
      else if faulty w (StatSync (ed @ [''package''])) then Inl (SystemError ''EIO'')
      else if is_dir (lookup (ed @ [''package'']) (fs s)) then Inr (ed @ [''package'']) else Inr ed)"
proof -
  obtain dbg where lg: "lg = Logger dbg" by (cases lg)
  show ?thesis
    by (auto simp add: copyUpdatedFiles_sourceBase_def lg existsSync_run statSync_isDirectory_def sys_def
        io_seq_def io_bind_def emit_def io_return_def io_throw_def get_fs_def is_dir_def
        split: option.splits)
qed

text \<open>
  Claim C8, as amended. The source root is decided by one name: when the extraction
  root \<open>ed\<close> has an entry \<open>package\<close> that is a directory, the source root is
  \<open>ed/package\<close>; when it has no such entry, or the entry is a file, the source root is
  \<open>ed\<close> itself (and a \<open>statSync\<close> of the entry that fails is thrown). The replace
  step then looks for every declared path under that root, in order.
\<close>

theorem C8_source_root_is_package_folder:
  "fst (copyUpdatedFiles_sourceBase w ed lg s) =
     (if lookup (ed @ [''package'']) (fs s) = None then Inr ed
      else if faulty w (StatSync (ed @ [''package''])) then Inl (SystemError ''EIO'')
      else if is_dir (lookup (ed @ [''package'']) (fs s)) then Inr (ed @ [''package'']) else Inr ed) \<and>
   (\<not> faulty w (StatSync (ed @ [''package''])) \<longrightarrow>
      (\<exists>s'. copyUpdatedFiles w fl ed d lg dry s = (Inr (), s') \<and>
         subseq
           (map (\<lambda>f. Sys (ExistsSync
              ((if is_dir (lookup (ed @ [''package'']) (fs s)) then ed @ [''package''] else ed) @ f))) fl)
           (emitted (copyUpdatedFiles w fl ed d lg dry) s)))"
  using copyUpdatedFiles_sourceBase_value [of w ed lg s]
    copyUpdatedFiles_visits_root [OF _ refl, of w ed fl d lg dry s]
  by blast

theorem C8_source_root_is_package_folder_witness:
  "fst (copyUpdatedFiles_sourceBase ex_world [''tmp'', ''x''] (Logger False) (ex_state_extracted ''package'')) =
     Inr [''tmp'', ''x'', ''package''] \<and>
   (\<exists>s'. copyUpdatedFiles ex_world [[''dist''], [''package.json'']] [''tmp'', ''x''] [''app''] (Logger False)
       False (ex_state_extracted ''package'') = (Inr (), s') \<and>
      subseq [Sys (ExistsSync [''tmp'', ''x'', ''package'', ''dist'']),
              Sys (ExistsSync [''tmp'', ''x'', ''package'', ''package.json''])]
        (emitted (copyUpdatedFiles ex_world [[''dist''], [''package.json'']] [''tmp'', ''x''] [''app'']
           (Logger False) False) (ex_state_extracted ''package'')))"
proof -
  have d: "is_dir (lookup ([''tmp'', ''x''] @ [''package'']) (fs (ex_state_extracted ''package'')))"
    by (simp add: ex_state_extracted_def lookup_def is_dir_def)
  have l: "lookup ([''tmp'', ''x''] @ [''package'']) (fs (ex_state_extracted ''package'')) \<noteq> None"
    by (simp add: ex_state_extracted_def lookup_def)
  have nf: "\<not> faulty ex_world (StatSync ([''tmp'', ''x''] @ [''package'']))"
    by (simp add: ex_world_def)
  from C8_source_root_is_package_folder [where w = ex_world and ed = "[''tmp'', ''x'']" and lg = "Logger False"
      and s = "ex_state_extracted ''package''" and fl = "[[''dist''], [''package.json'']]" and d = "[''app'']"
      and dry = False]
  show ?thesis
    unfolding if_P [OF d] if_not_P [OF l] if_not_P [OF nf] using nf by simp
qed

text \<open>
  Claim C8 as stated fails when the one top-level folder that wraps the payload is
  not called \<open>package\<close>: with the payload of the scenario under
  \<open>/tmp/x/my-cli-1.1.0\<close> the source root is \<open>/tmp/x\<close>, no declared path is found
  there, and nothing is replaced.
\<close>

theorem C8_other_wrapper_counterexample:
  "lookup [''tmp'', ''x''] (fs (ex_state_extracted ''my-cli-1.1.0'')) =
     Some (Dir [(''my-cli-1.1.0'',
                 Dir [(''dist'', Dir [(''index.js'', File ''new'')]), (''package.json'', File ''v1.1.0'')])]) \<and>
   fst (copyUpdatedFiles_sourceBase ex_world [''tmp'', ''x''] (Logger False)
          (ex_state_extracted ''my-cli-1.1.0'')) = Inr [''tmp'', ''x''] \<and>
   emitted (copyUpdatedFiles ex_world [[''dist''], [''package.json'']] [''tmp'', ''x''] [''app'']
              (Logger False) False) (ex_state_extracted ''my-cli-1.1.0'') =
     [Sys (ExistsSync [''tmp'', ''x'', ''package'']),
      Sys (ExistsSync [''tmp'', ''x'', ''dist'']),
      ConsoleWarn [Str ''[upgear:warn]'', Str ''Source file not found in package: '', Pth [''tmp'', ''x'', ''dist'']],
      Sys (ExistsSync [''tmp'', ''x'', ''package.json'']),
      ConsoleWarn [Str ''[upgear:warn]'', Str ''Source file not found in package: '',
        Pth [''tmp'', ''x'', ''package.json'']]] \<and>
   fs (snd (copyUpdatedFiles ex_world [[''dist''], [''package.json'']] [''tmp'', ''x''] [''app'']
              (Logger False) False (ex_state_extracted ''my-cli-1.1.0''))) =
     fs (ex_state_extracted ''my-cli-1.1.0'')"
  by (simp add: ex_state_extracted_def ex_world_def copyUpdatedFiles_def copyUpdatedFiles_sourceBase_def
      copyUpdatedFiles_step_def emitted_def prim_defs io_defs)

subsection \<open>Runs of the scenario\<close>

text \<open>The scenario itself: the update is downloaded, unpacked, backed up, installed and announced.\<close>

lemma ex_run_update:
  "checkAndUpdate ex_world ex_opts ex_state =
     (Inr UpdateCompleted,
       \<lparr>fs = Dir [(''home'',
                   Dir [(''.upgear'',
                         Dir [(''update-timestamps.json'', File ''5001'')])]),
                  (''tmp'', Dir []),
                  (''app'',
                   Dir [(''dist'', Dir [(''index.js'', File ''new'')]),
                        (''package.json'', File ''v1.1.0''),
                        (''dist.bak'', Dir [(''index.js'', File ''old'')]),
                        (''package.json.bak'', File ''v1.0.0'')])],
          trace =
            [Sys (ExistsSync
                   [''home'', ''.upgear'', ''update-timestamps.json'']),
             Sys (ExistsSync [''home'', ''.upgear'']),
             Sys (MkdirSync [''home'', ''.upgear'']),
             Sys (ExistsSync
                   [''home'', ''.upgear'', ''update-timestamps.json'']),
             Sys (WriteFileSync
                   [''home'', ''.upgear'', ''update-timestamps.json'']),
             Fetch ''https://registry.npmjs.org/my-cli'',
             Sys (ExistsSync [''tmp'']), Fetch ''https://x/my-cli-1.1.0.tgz'',
             Sys (CreateWriteStream [''tmp'', ''my_cli-1.1.0-5002.tgz'']),
             Sys (ExistsSync [''tmp'', ''my_cli-1.1.0-5002-extract'']),
             Sys (MkdirSync [''tmp'', ''my_cli-1.1.0-5002-extract'']),
             Sys (TarExtract [''tmp'', ''my_cli-1.1.0-5002.tgz'']
                   [''tmp'', ''my_cli-1.1.0-5002-extract'']),
             Sys (ReaddirSync [''tmp'', ''my_cli-1.1.0-5002-extract'']),
             Sys (ExistsSync [''tmp'', ''my_cli-1.1.0-5002.tgz'']),
             Sys (UnlinkSync [''tmp'', ''my_cli-1.1.0-5002.tgz'']),
             Sys (ExistsSync [''app'', ''dist'']),
             Sys (ExistsSync [''app'', ''dist.bak'']),
             Sys (StatSync [''app'', ''dist'']),
             Sys (MkdirSync [''app'', ''dist.bak'']),
             Sys (ReaddirSync [''app'', ''dist'']),
             Sys (StatSync [''app'', ''dist'', ''index.js'']),
             Sys (CopyFileSync [''app'', ''dist'', ''index.js'']
                   [''app'', ''dist.bak'', ''index.js'']),
             Sys (ExistsSync [''app'', ''package.json'']),
             Sys (ExistsSync [''app'', ''package.json.bak'']),
             Sys (StatSync [''app'', ''package.json'']),
             Sys (CopyFileSync [''app'', ''package.json'']
                   [''app'', ''package.json.bak'']),
             Sys (ExistsSync [''app'', ''dist'']),
             Sys (ExistsSync [''app'', ''dist.bak'']),
             Sys (StatSync [''app'', ''dist.bak'']),
             Sys (ExistsSync [''app'', ''dist.bak'']),
             Sys (ReaddirSync [''app'', ''dist.bak'']),
             Sys (LstatSync [''app'', ''dist.bak'', ''index.js'']),
             Sys (UnlinkSync [''app'', ''dist.bak'', ''index.js'']),
             Sys (RmdirSync [''app'', ''dist.bak'']),
             Sys (StatSync [''app'', ''dist'']),
             Sys (MkdirSync [''app'', ''dist.bak'']),
             Sys (ReaddirSync [''app'', ''dist'']),
             Sys (StatSync [''app'', ''dist'', ''index.js'']),
             Sys (CopyFileSync [''app'', ''dist'', ''index.js'']
                   [''app'', ''dist.bak'', ''index.js'']),
             Sys (ExistsSync [''app'', ''package.json'']),
             Sys (ExistsSync [''app'', ''package.json.bak'']),
             Sys (StatSync [''app'', ''package.json.bak'']),
             Sys (UnlinkSync [''app'', ''package.json.bak'']),
             Sys (StatSync [''app'', ''package.json'']),
             Sys (CopyFileSync [''app'', ''package.json'']
                   [''app'', ''package.json.bak'']),
             Sys (ExistsSync
                   [''tmp'', ''my_cli-1.1.0-5002-extract'', ''package'']),
             Sys (StatSync
                   [''tmp'', ''my_cli-1.1.0-5002-extract'', ''package'']),
             Sys (ExistsSync
                   [''tmp'', ''my_cli-1.1.0-5002-extract'', ''package'',
                    ''dist'']),
             Sys (ExistsSync [''app'']),
             Sys (StatSync
                   [''tmp'', ''my_cli-1.1.0-5002-extract'', ''package'',
                    ''dist'']),
             Sys (ExistsSync [''app'', ''dist'']),
             Sys (StatSync [''app'', ''dist'']),
             Sys (CpSync
                   [''tmp'', ''my_cli-1.1.0-5002-extract'', ''package'',
                    ''dist'']
                   [''app'', ''dist'']),
             Sys (ExistsSync
                   [''tmp'', ''my_cli-1.1.0-5002-extract'', ''package'',
                    ''package.json'']),
             Sys (ExistsSync [''app'']),
             Sys (StatSync
                   [''tmp'', ''my_cli-1.1.0-5002-extract'', ''package'',
                    ''package.json'']),
             Sys (CopyFileSync
                   [''tmp'', ''my_cli-1.1.0-5002-extract'', ''package'',
                    ''package.json'']
                   [''app'', ''package.json'']),
             Sys (ExistsSync
                   [''tmp'', ''my_cli-1.1.0-5002-extract'', ''package'',
                    ''dist'']),
             Sys (ExistsSync [''app'']),
             Sys (StatSync
                   [''tmp'', ''my_cli-1.1.0-5002-extract'', ''package'',
                    ''dist'']),
             Sys (ExistsSync [''app'', ''dist'']),
             Sys (StatSync [''app'', ''dist'']),
             Sys (CpSync
                   [''tmp'', ''my_cli-1.1.0-5002-extract'', ''package'',
                    ''dist'']
                   [''app'', ''dist'']),
             Sys (ExistsSync
                   [''tmp'', ''my_cli-1.1.0-5002-extract'', ''package'',
                    ''package.json'']),
             Sys (ExistsSync [''app'']),
             Sys (StatSync
                   [''tmp'', ''my_cli-1.1.0-5002-extract'', ''package'',
                    ''package.json'']),
             Sys (CopyFileSync
                   [''tmp'', ''my_cli-1.1.0-5002-extract'', ''package'',
                    ''package.json'']
                   [''app'', ''package.json'']),
             ConsoleLog
              [Str [CHR 0x0A],
               Str hr],
             ConsoleLog
              [Str check_mark, Str '' '', Str ''my-cli'',
               Str '' has been updated to version '', Str ''1.1.0''],
             ConsoleLog [Str ''Changelog: '', Str ''https://x/CHANGELOG''],
             ConsoleLog
              [Str hr,
               Str [CHR 0x0A]],
             Sys (ExistsSync [''tmp'', ''my_cli-1.1.0-5002.tgz'']),
             Sys (ExistsSync [''tmp'', ''my_cli-1.1.0-5002-extract'']),
             Sys (ExistsSync [''tmp'', ''my_cli-1.1.0-5002-extract'']),
             Sys (ReaddirSync [''tmp'', ''my_cli-1.1.0-5002-extract'']),
             Sys (LstatSync
                   [''tmp'', ''my_cli-1.1.0-5002-extract'', ''package'']),
             Sys (ExistsSync
                   [''tmp'', ''my_cli-1.1.0-5002-extract'', ''package'']),
             Sys (ReaddirSync
                   [''tmp'', ''my_cli-1.1.0-5002-extract'', ''package'']),
             Sys (LstatSync
                   [''tmp'', ''my_cli-1.1.0-5002-extract'', ''package'',
                    ''dist'']),
             Sys (ExistsSync
                   [''tmp'', ''my_cli-1.1.0-5002-extract'', ''package'',
                    ''dist'']),
             Sys (ReaddirSync
                   [''tmp'', ''my_cli-1.1.0-5002-extract'', ''package'',
                    ''dist'']),
             Sys (LstatSync
                   [''tmp'', ''my_cli-1.1.0-5002-extract'', ''package'',
                    ''dist'', ''index.js'']),
             Sys (UnlinkSync
                   [''tmp'', ''my_cli-1.1.0-5002-extract'', ''package'',
                    ''dist'', ''index.js'']),
             Sys (RmdirSync
                   [''tmp'', ''my_cli-1.1.0-5002-extract'', ''package'',
                    ''dist'']),
             Sys (LstatSync
                   [''tmp'', ''my_cli-1.1.0-5002-extract'', ''package'',
                    ''package.json'']),
             Sys (UnlinkSync
                   [''tmp'', ''my_cli-1.1.0-5002-extract'', ''package'',
                    ''package.json'']),
             Sys (RmdirSync
                   [''tmp'', ''my_cli-1.1.0-5002-extract'', ''package'']),
             Sys (RmdirSync [''tmp'', ''my_cli-1.1.0-5002-extract''])],
          clock = 5003, cleanup = \<lparr>tempFilesCreated = False, paths = None\<rparr>\<rparr>)"
  by (simp add: fun_defs prim_defs io_defs ex_defs)


text \<open>The dry run of the scenario.\<close>

lemma ex_run_dry:
  "checkAndUpdate ex_world (ex_opts\<lparr>dryRun := Some True\<rparr>) ex_state =
     (Inr UpdateCompleted,
       \<lparr>fs = Dir [(''home'', Dir []), (''tmp'', Dir []),
                  (''app'',
                   Dir [(''dist'', Dir [(''index.js'', File ''old'')]),
                        (''package.json'', File ''v1.0.0'')])],
          trace =
            [Fetch ''https://registry.npmjs.org/my-cli'',
             ConsoleLog
              [Str ''[upgear:info]'',
               Str ''[DRY RUN] Would download tarball from: '',
               Str ''https://x/my-cli-1.1.0.tgz'', Str '' to '',
               Pth [''tmp'', ''my_cli-1.1.0-5000.tgz'']],
             ConsoleLog
              [Str ''[upgear:info]'',
               Str ''[DRY RUN] Would extract tarball from '',
               Pth [''tmp'', ''my_cli-1.1.0-5000.tgz''], Str '' to '',
               Pth [''tmp'', ''my_cli-1.1.0-5000-extract'']],
             Sys (ExistsSync [''app'', ''dist'']),
             ConsoleLog
              [Str ''[upgear:info]'', Str ''[DRY RUN] Would back up '',
               Pth [''app'', ''dist''], Str '' to '',
               Pth [''app'', ''dist.bak'']],
             Sys (ExistsSync [''app'', ''package.json'']),
             ConsoleLog
              [Str ''[upgear:info]'', Str ''[DRY RUN] Would back up '',
               Pth [''app'', ''package.json''], Str '' to '',
               Pth [''app'', ''package.json.bak'']],
             Sys (ExistsSync [''app'', ''dist'']),
             ConsoleLog
              [Str ''[upgear:info]'', Str ''[DRY RUN] Would back up '',
               Pth [''app'', ''dist''], Str '' to '',
               Pth [''app'', ''dist.bak'']],
             Sys (ExistsSync [''app'', ''package.json'']),
             ConsoleLog
              [Str ''[upgear:info]'', Str ''[DRY RUN] Would back up '',
               Pth [''app'', ''package.json''], Str '' to '',
               Pth [''app'', ''package.json.bak'']],
             Sys (ExistsSync
                   [''tmp'', ''my_cli-1.1.0-5000-extract'', ''package'']),
             Sys (ExistsSync [''tmp'', ''my_cli-1.1.0-5000-extract'', ''dist'']),
             ConsoleWarn
              [Str ''[upgear:warn]'', Str ''Source file not found in package: '',
               Pth [''tmp'', ''my_cli-1.1.0-5000-extract'', ''dist'']],
             Sys (ExistsSync
                   [''tmp'', ''my_cli-1.1.0-5000-extract'', ''package.json'']),
             ConsoleWarn
              [Str ''[upgear:warn]'', Str ''Source file not found in package: '',
               Pth [''tmp'', ''my_cli-1.1.0-5000-extract'', ''package.json'']],
             Sys (ExistsSync [''tmp'', ''my_cli-1.1.0-5000-extract'', ''dist'']),
             ConsoleWarn
              [Str ''[upgear:warn]'', Str ''Source file not found in package: '',
               Pth [''tmp'', ''my_cli-1.1.0-5000-extract'', ''dist'']],
             Sys (ExistsSync
                   [''tmp'', ''my_cli-1.1.0-5000-extract'', ''package.json'']),
             ConsoleWarn
              [Str ''[upgear:warn]'', Str ''Source file not found in package: '',
               Pth [''tmp'', ''my_cli-1.1.0-5000-extract'', ''package.json'']],
             ConsoleLog
              [Str ''[upgear:info]'',
               Str ''[DRY RUN] Would display update notification for '',
               Str ''my-cli'', Str '' to version '', Str ''1.1.0'']],
          clock = 5001,
          cleanup =
            \<lparr>tempFilesCreated = False,
               paths =
                 Some
                  \<lparr>tarballPath = [''tmp'', ''my_cli-1.1.0-5000.tgz''],
                     extractDir = [''tmp'', ''my_cli-1.1.0-5000-extract'']\<rparr>\<rparr>\<rparr>)"
  by (simp add: fun_defs prim_defs io_defs ex_defs)

text \<open>The scenario without an installation directory.\<close>

lemma ex_run_no_installDir:
  "checkAndUpdate ex_world (ex_opts\<lparr>installDir := None\<rparr>) ex_state =
     (Inr (UpdateFailed (AssertionError ''installDir is required'')),
       \<lparr>fs = Dir [(''home'',
                   Dir [(''.upgear'',
                         Dir [(''update-timestamps.json'', File ''5001'')])]),
                  (''tmp'', Dir []),
                  (''app'',
                   Dir [(''dist'', Dir [(''index.js'', File ''old'')]),
                        (''package.json'', File ''v1.0.0'')])],
          trace =
            [Sys (ExistsSync
                   [''home'', ''.upgear'', ''update-timestamps.json'']),
             Sys (ExistsSync [''home'', ''.upgear'']),
             Sys (MkdirSync [''home'', ''.upgear'']),
             Sys (ExistsSync
                   [''home'', ''.upgear'', ''update-timestamps.json'']),
             Sys (WriteFileSync
                   [''home'', ''.upgear'', ''update-timestamps.json'']),
             Fetch ''https://registry.npmjs.org/my-cli'',
             Sys (ExistsSync [''tmp'']), Fetch ''https://x/my-cli-1.1.0.tgz'',
             Sys (CreateWriteStream [''tmp'', ''my_cli-1.1.0-5002.tgz'']),
             Sys (ExistsSync [''tmp'', ''my_cli-1.1.0-5002-extract'']),
             Sys (MkdirSync [''tmp'', ''my_cli-1.1.0-5002-extract'']),
             Sys (TarExtract [''tmp'', ''my_cli-1.1.0-5002.tgz'']
                   [''tmp'', ''my_cli-1.1.0-5002-extract'']),
             Sys (ReaddirSync [''tmp'', ''my_cli-1.1.0-5002-extract'']),
             Sys (ExistsSync [''tmp'', ''my_cli-1.1.0-5002.tgz'']),
             Sys (UnlinkSync [''tmp'', ''my_cli-1.1.0-5002.tgz'']),
             ConsoleWarn
              [Str ''[upgear:warn]'', Str ''Error during update process:'',
               Exn (AssertionError ''installDir is required'')],
             Sys (ExistsSync [''tmp'', ''my_cli-1.1.0-5002.tgz'']),
             Sys (ExistsSync [''tmp'', ''my_cli-1.1.0-5002-extract'']),
             Sys (ExistsSync [''tmp'', ''my_cli-1.1.0-5002-extract'']),
             Sys (ReaddirSync [''tmp'', ''my_cli-1.1.0-5002-extract'']),
             Sys (LstatSync
                   [''tmp'', ''my_cli-1.1.0-5002-extract'', ''package'']),
             Sys (ExistsSync
                   [''tmp'', ''my_cli-1.1.0-5002-extract'', ''package'']),
             Sys (ReaddirSync
                   [''tmp'', ''my_cli-1.1.0-5002-extract'', ''package'']),
             Sys (LstatSync
                   [''tmp'', ''my_cli-1.1.0-5002-extract'', ''package'',
                    ''dist'']),
             Sys (ExistsSync
                   [''tmp'', ''my_cli-1.1.0-5002-extract'', ''package'',
                    ''dist'']),
             Sys (ReaddirSync
                   [''tmp'', ''my_cli-1.1.0-5002-extract'', ''package'',
                    ''dist'']),
             Sys (LstatSync
                   [''tmp'', ''my_cli-1.1.0-5002-extract'', ''package'',
                    ''dist'', ''index.js'']),
             Sys (UnlinkSync
                   [''tmp'', ''my_cli-1.1.0-5002-extract'', ''package'',
                    ''dist'', ''index.js'']),
             Sys (RmdirSync
                   [''tmp'', ''my_cli-1.1.0-5002-extract'', ''package'',
                    ''dist'']),
             Sys (LstatSync
                   [''tmp'', ''my_cli-1.1.0-5002-extract'', ''package'',
                    ''package.json'']),
             Sys (UnlinkSync
                   [''tmp'', ''my_cli-1.1.0-5002-extract'', ''package'',
                    ''package.json'']),
             Sys (RmdirSync
                   [''tmp'', ''my_cli-1.1.0-5002-extract'', ''package'']),
             Sys (RmdirSync [''tmp'', ''my_cli-1.1.0-5002-extract''])],
          clock = 5003, cleanup = \<lparr>tempFilesCreated = False, paths = None\<rparr>\<rparr>)"
  by (simp add: fun_defs prim_defs io_defs ex_defs)

subsection \<open>A failure that is not reported (claim C3)\<close>


subsection \<open>A run without an installation directory (claim C6)\<close>

lemma returns_seq_never: "returns_in {} m \<Longrightarrow> returns_in A (io_seq m n)"
  unfolding returns_in_def io_seq_def io_bind_def
  by (auto split: prod.splits sum.splits) (metis fst_conv)

lemma never_update:
  assumes "o_installDir opt = None"
  shows "returns_in {} (checkAndUpdate_update w opt lg vi ps)"
  unfolding checkAndUpdate_update_def assms option.case
  by (intro returns_seq returns_throw)

lemma returns_apply_no_installDir:
  assumes "o_installDir opt = None"
  shows "returns_in (- {UpdateCompleted}) (checkAndUpdate_apply w opt lg vi)"
  unfolding checkAndUpdate_apply_def
  by (intro returns_bind returns_seq returns_try_finally returns_try_catch returns_return
      returns_seq_never never_update [OF assms]) simp

lemma returns_policy_no_installDir:
  assumes "o_installDir opt = None"
  shows "returns_in (- {UpdateCompleted}) (checkAndUpdate_policy w opt lg md lv)"
  unfolding checkAndUpdate_policy_def
  by (intro returns_bind returns_seq returns_case_option returns_if returns_return
      returns_apply_no_installDir [OF assms]) simp_all

lemma returns_version_no_installDir:
  assumes "o_installDir opt = None"
  shows "returns_in (- {UpdateCompleted}) (checkAndUpdate_version w opt lg md)"
  unfolding checkAndUpdate_version_def
  by (intro returns_bind returns_seq returns_case_option returns_if returns_return returns_throw
      returns_policy_no_installDir [OF assms]) simp_all

lemma returns_check_no_installDir:
  assumes "o_installDir opt = None"
  shows "returns_in (- {UpdateCompleted}) (checkAndUpdate_check w opt lg)"
  unfolding checkAndUpdate_check_def
  by (intro returns_bind returns_seq returns_case_option returns_if returns_return returns_throw
      returns_version_no_installDir [OF assms]) simp_all

lemma returns_try_no_installDir:
  assumes "o_installDir opt = None"
  shows "returns_in (- {UpdateCompleted}) (checkAndUpdate_try w opt lg)"
  unfolding checkAndUpdate_try_def
  by (intro returns_bind returns_seq returns_case_option returns_if returns_return returns_throw
      returns_check_no_installDir [OF assms]) simp_all

lemma returns_checkAndUpdate_no_installDir:
  assumes "installDir opts = None"
  shows "returns_in (- {UpdateCompleted}) (checkAndUpdate w opts)"
  unfolding checkAndUpdate_def
  by (intro returns_seq returns_try_finally returns_try_catch returns_return
      returns_try_no_installDir) (simp_all add: default_options_def assms)


lemmas no_install_intros = steps_intros grows_deleteDirRecursive

lemma no_install_cleanup:
  "steps (grows (no_install_call tsp)) (cleanupTemporaryFiles w ps lg d)"
  unfolding cleanupTemporaryFiles_def by (intro no_install_intros) simp_all

lemma no_install_display:
  "steps (grows (no_install_call tsp)) (displayUpdateNotification v n r c lg dry cb)"
  unfolding displayUpdateNotification_def by (intro no_install_intros) simp_all

lemma no_install_update:
  assumes "o_installDir opt = None"
  shows "steps (grows (no_install_call tsp)) (checkAndUpdate_update w opt lg vi ps)"
  unfolding checkAndUpdate_update_def downloadTarball_def extractTarball_def assms option.case
  by (intro no_install_intros) simp_all

lemma no_install_apply:
  assumes "o_installDir opt = None"
  shows "steps (grows (no_install_call tsp)) (checkAndUpdate_apply w opt lg vi)"
  unfolding checkAndUpdate_apply_def createTempPaths_def
  by (intro no_install_intros no_install_update [OF assms] no_install_cleanup) simp_all

lemma no_install_extractVersionInfo: "steps (grows (no_install_call tsp)) (extractVersionInfo md v lg)"
  unfolding extractVersionInfo_def by (intro no_install_intros) simp_all

lemma no_install_policy:
  assumes "o_installDir opt = None"
  shows "steps (grows (no_install_call tsp)) (checkAndUpdate_policy w opt lg md lv)"
  unfolding checkAndUpdate_policy_def
  by (intro no_install_intros no_install_apply [OF assms] no_install_extractVersionInfo no_install_display)
    simp_all

lemma no_install_isUpdateNeeded: "steps (grows (no_install_call tsp)) (isUpdateNeeded w c l lg)"
  unfolding isUpdateNeeded_def by (intro no_install_intros) simp_all

lemma no_install_version:
  assumes "o_installDir opt = None"
  shows "steps (grows (no_install_call tsp)) (checkAndUpdate_version w opt lg md)"
  unfolding checkAndUpdate_version_def
  by (intro no_install_intros no_install_policy [OF assms] no_install_isUpdateNeeded) simp_all

lemma no_install_writeCurrentTimestamp:
  "steps (grows (no_install_call (getTimestampFilePath w))) (writeCurrentTimestamp w n)"
  unfolding writeCurrentTimestamp_def by (intro no_install_intros) simp_all

lemma no_install_readLastCheckTimestamp: "steps (grows (no_install_call tsp)) (readLastCheckTimestamp w n)"
  unfolding readLastCheckTimestamp_def by (intro no_install_intros) simp_all

lemma no_install_fetchPackageMetadata: "steps (grows (no_install_call tsp)) (fetchPackageMetadata w n r lg)"
  unfolding fetchPackageMetadata_def by (intro no_install_intros) simp_all

lemma no_install_check:
  assumes "o_installDir opt = None"
  shows "steps (grows (no_install_call (getTimestampFilePath w))) (checkAndUpdate_check w opt lg)"
  unfolding checkAndUpdate_check_def
  by (intro no_install_intros no_install_version [OF assms] no_install_writeCurrentTimestamp
      no_install_fetchPackageMetadata) simp_all

lemma no_install_interval: "steps (grows (no_install_call tsp)) (checkAndUpdate_interval w opt lg)"
  unfolding checkAndUpdate_interval_def
  by (intro no_install_intros no_install_readLastCheckTimestamp) simp_all

lemma no_install_try:
  assumes "o_installDir opt = None"
  shows "steps (grows (no_install_call (getTimestampFilePath w))) (checkAndUpdate_try w opt lg)"
  unfolding checkAndUpdate_try_def
  by (intro no_install_intros no_install_interval no_install_check [OF assms]) simp_all

lemma no_install_checkAndUpdate:
  assumes "installDir opts = None"
  shows "steps (grows (no_install_call (getTimestampFilePath w))) (checkAndUpdate w opts)"
  unfolding checkAndUpdate_def
  by (intro no_install_intros no_install_try no_install_cleanup) (simp_all add: default_options_def assms)

text \<open>
  Claim C6, as amended. A run that was given no installation directory returns
  normally, whatever the world and the state, and never as a completed update; when
  it ends as a failed update or a failed check, the warning with the exception is
  printed. It makes no copy at all (so nothing is backed up and nothing is
  replaced), and the only file it writes with \<open>writeFileSync\<close> is the timestamp
  file. The scratch archive and the scratch directory may well be written before the
  missing directory is noticed: the \<open>assert\<close> stands after download and extraction.
\<close>

theorem C6_no_installDir_no_replace:
  assumes "installDir opts = None"
  shows "\<exists>x s'. checkAndUpdate w opts s = (Inr x, s') \<and> x \<noteq> UpdateCompleted \<and>
     evidence x (emitted (checkAndUpdate w opts) s) \<and>
     list_all (no_install_call (getTimestampFilePath w)) (emitted (checkAndUpdate w opts) s)"
proof -
  from nothrow_checkAndUpdate obtain x s' where r: "checkAndUpdate w opts s = (Inr x, s')"
    by (rule nothrowE)
  from returns_inD [OF returns_checkAndUpdate_no_installDir [OF assms] r]
  have 1: "x \<noteq> UpdateCompleted" by simp
  from with_checkAndUpdate [of w opts] r obtain evs where
    "trace (snd (checkAndUpdate w opts s)) = trace s @ evs" "evidence x evs"
    unfolding returns_with_def by (metis fst_conv)
  then have 2: "evidence x (emitted (checkAndUpdate w opts) s)" by (simp add: emitted_def)
  have 3: "list_all (no_install_call (getTimestampFilePath w)) (emitted (checkAndUpdate w opts) s)"
    by (rule emitted_grows) (rule stepsD [OF no_install_checkAndUpdate [OF assms]])
  from r 1 2 3 show ?thesis by blast
qed

theorem C6_no_installDir_no_replace_witness:
  "checkAndUpdate ex_world (ex_opts\<lparr>installDir := None\<rparr>) ex_state =
     (Inr (UpdateFailed (AssertionError ''installDir is required'')),
      snd (checkAndUpdate ex_world (ex_opts\<lparr>installDir := None\<rparr>) ex_state)) \<and>
   ConsoleWarn [Str ''[upgear:warn]'', Str ''Error during update process:'',
       Exn (AssertionError ''installDir is required'')]
     \<in> set (emitted (checkAndUpdate ex_world (ex_opts\<lparr>installDir := None\<rparr>)) ex_state) \<and>
   list_all (no_install_call [''home'', ''.upgear'', ''update-timestamps.json''])
     (emitted (checkAndUpdate ex_world (ex_opts\<lparr>installDir := None\<rparr>)) ex_state)"
proof -
  have i: "installDir (ex_opts\<lparr>installDir := None\<rparr>) = None" by simp
  have t: "getTimestampFilePath ex_world = [''home'', ''.upgear'', ''update-timestamps.json'']"
    by (simp add: getTimestampFilePath_def ex_world_def)
  have f: "fst (checkAndUpdate ex_world (ex_opts\<lparr>installDir := None\<rparr>) ex_state) =
      Inr (UpdateFailed (AssertionError ''installDir is required''))"
    by (simp add: ex_run_no_installDir)
  from C6_no_installDir_no_replace [OF i, of ex_world ex_state] obtain x s' where
    r: "checkAndUpdate ex_world (ex_opts\<lparr>installDir := None\<rparr>) ex_state = (Inr x, s')"
    and e: "evidence x (emitted (checkAndUpdate ex_world (ex_opts\<lparr>installDir := None\<rparr>)) ex_state)"
    and l: "list_all (no_install_call (getTimestampFilePath ex_world))
       (emitted (checkAndUpdate ex_world (ex_opts\<lparr>installDir := None\<rparr>)) ex_state)"
    by blast
  from r f have x: "x = UpdateFailed (AssertionError ''installDir is required'')" by simp
  from r x e l show ?thesis by (simp add: t)
qed

text \<open>
  Claim C6 as stated fails: in the scenario without an installation directory the
  timestamp file is written, the archive is downloaded to the scratch file, unpacked
  into the scratch directory and removed again, all before the warning of the failed
  \<open>assert\<close>; the file system is not what it was.
\<close>

theorem C6_writes_before_abort_counterexample:
  "installDir (ex_opts\<lparr>installDir := None\<rparr>) = None \<and>
   filter mutating
     (takeWhile (\<lambda>e. \<not> is_warning e)
        (emitted (checkAndUpdate ex_world (ex_opts\<lparr>installDir := None\<rparr>)) ex_state)) =
     [Sys (MkdirSync [''home'', ''.upgear'']),
      Sys (WriteFileSync [''home'', ''.upgear'', ''update-timestamps.json'']),
      Sys (CreateWriteStream [''tmp'', ''my_cli-1.1.0-5002.tgz'']),
      Sys (MkdirSync [''tmp'', ''my_cli-1.1.0-5002-extract'']),
      Sys (TarExtract [''tmp'', ''my_cli-1.1.0-5002.tgz''] [''tmp'', ''my_cli-1.1.0-5002-extract'']),
      Sys (UnlinkSync [''tmp'', ''my_cli-1.1.0-5002.tgz''])] \<and>
   lookup [''home'', ''.upgear'', ''update-timestamps.json'']
     (fs (snd (checkAndUpdate ex_world (ex_opts\<lparr>installDir := None\<rparr>) ex_state))) = Some (File ''5001'') \<and>
   lookup [''home'', ''.upgear'', ''update-timestamps.json''] (fs ex_state) = None"
  by (simp add: emitted_def ex_run_no_installDir) (simp add: ex_state_def lookup_def)

subsection \<open>The warnings of the stages (claim C3)\<close>





















lemma default_options_simps [simp]:
  "o_name (default_options opts) = name opts" "o_version (default_options opts) = version opts"
  "o_debug (default_options opts) = debug opts" "o_installDir (default_options opts) = installDir opts"
  by (simp_all add: default_options_def)






end
